theory Spec2Isabelle
  imports Complex_Main "HOL-Library.Product_Lexorder" "HOL-Library.Multiset"
begin

section \<open>Values\<close>

text \<open>
  A parsed JSON value, as \<^verbatim>\<open>express.json()\<close> hands it to a handler and as
  \<^verbatim>\<open>res.json\<close> and \<^verbatim>\<open>io.emit\<close> send it. Numbers are the finite doubles, held by their
  rational value; an object is the list of its own properties in order.
\<close>

datatype json =
    JNull
  | JBool bool
  | JNum rat
  | JStr string
  | JArr "json list"
  | JObj "(string \<times> json) list"

text \<open>A JavaScript \<^verbatim>\<open>Date\<close>: its time value in milliseconds, or NaN (an invalid date).\<close>

datatype jsdate = Valid int | InvalidDate

text \<open>The store's timestamp type: seconds and nanoseconds.\<close>

datatype timestamp = Timestamp int int

text \<open>
  A property value of an object a handler builds: a JSON value, a \<^verbatim>\<open>Date\<close>, or a
  timestamp read back from the store.
\<close>

datatype jsvalue = VJson json | VDate jsdate | VTimestamp timestamp

text \<open>A field of a stored document.\<close>

datatype fsvalue = FsJson json | FsTimestamp timestamp

datatype error = TypeError | RangeError | ArgumentError | StorageError

type_synonym jsobject = "(string \<times> jsvalue) list"
type_synonym document = "(string \<times> fsvalue) list"

text \<open>
  The store: for every collection path, its documents with their ids, in the order they
  were written.
\<close>

type_synonym store = "string \<Rightarrow> (string \<times> document) list"

text \<open>
  What the handlers take from their environment: the application id, and the built-ins
  \<^verbatim>\<open>Date.parse\<close> (\<open>None\<close> is NaN), the string an array or an object converts to as a
  primitive (\<open>None\<close> when the conversion throws a TypeError, as for an object with a
  \<^verbatim>\<open>toString\<close> property of its own), and the text \<^verbatim>\<open>toISOString\<close> renders for a time
  value.
\<close>

record env =
  appId :: string
  Date_parse :: "string \<Rightarrow> int option"
  ToPrimitive :: "json \<Rightarrow> string option"
  ISO :: "int \<Rightarrow> string"

text \<open>
  The store's answer to one call, decided outside the handler: a write is acknowledged
  with the id the store assigns, or fails; a read succeeds or fails.
\<close>

datatype write_reply = WriteAck string | WriteFail
datatype read_reply = ReadOk | ReadFail

text \<open>What a handler does, in the order it does it.\<close>

datatype effect =
    StoreAdd string jsobject "error + string"
  | StoreGet string "error + (string \<times> document) list"
  | Emit string json
  | LogError string error
  | Respond nat json

section \<open>JavaScript built-ins\<close>

text \<open>Truthiness of a property that may be absent (\<^verbatim>\<open>undefined\<close>).\<close>

fun truthy :: "json option \<Rightarrow> bool" where
  "truthy None = False"
| "truthy (Some JNull) = False"
| "truthy (Some (JBool b)) = b"
| "truthy (Some (JNum n)) = (n \<noteq> 0)"
| "truthy (Some (JStr s)) = (s \<noteq> [])"
| "truthy (Some (JArr xs)) = True"
| "truthy (Some (JObj fs)) = True"

text \<open>
  Reading a named property of the request body. The body parser yields an object or
  an array; only an object has the properties the handlers read.
\<close>

fun get_prop :: "json \<Rightarrow> string \<Rightarrow> json option" where
  "get_prop (JObj fs) k = map_of fs k"
| "get_prop v k = None"

text \<open>\<^verbatim>\<open>a || b\<close> on a property that may be absent.\<close>

definition or_else :: "json option \<Rightarrow> json \<Rightarrow> json" where
  "or_else a b = (case a of Some v \<Rightarrow> (if truthy a then v else b) | None \<Rightarrow> b)"

definition max_time :: int where
  "max_time = 8640000000000000"

definition TimeClip :: "int \<Rightarrow> jsdate" where
  "TimeClip t = (if \<bar>t\<bar> > max_time then InvalidDate else Valid t)"

text \<open>Truncation toward zero, as the \<^verbatim>\<open>Date\<close> constructor applies it to a number.\<close>

definition trunc :: "rat \<Rightarrow> int" where
  "trunc q = (if q < 0 then \<lceil>q\<rceil> else \<lfloor>q\<rfloor>)"

text \<open>
  \<^verbatim>\<open>new Date(v)\<close>: a string is parsed; a number, a boolean and null are taken as a
  time value; an array or object is first converted to a primitive, which may throw. The
  result is clipped to the range of time values.
\<close>

definition parsed_date :: "env \<Rightarrow> string \<Rightarrow> jsdate" where
  "parsed_date e s = (case Date_parse e s of None \<Rightarrow> InvalidDate | Some t \<Rightarrow> TimeClip t)"

fun new_Date :: "env \<Rightarrow> json \<Rightarrow> error + jsdate" where
  "new_Date e (JStr s) = Inr (parsed_date e s)"
| "new_Date e (JNum n) =
     Inr (if \<bar>n\<bar> > of_int max_time then InvalidDate else Valid (trunc n))"
| "new_Date e (JBool b) = Inr (Valid (if b then 1 else 0))"
| "new_Date e JNull = Inr (Valid 0)"
| "new_Date e v =
     (case ToPrimitive e v of None \<Rightarrow> Inl TypeError | Some s \<Rightarrow> Inr (parsed_date e s))"

text \<open>\<^verbatim>\<open>toISOString\<close> throws a RangeError on an invalid date.\<close>

fun toISOString :: "env \<Rightarrow> jsdate \<Rightarrow> error + string" where
  "toISOString e (Valid t) = Inr (ISO e t)"
| "toISOString e InvalidDate = Inl RangeError"

text \<open>
  Setting a property of an object: an existing key keeps its place and takes the new
  value, a new key goes last. An object literal with a spread is a sequence of these.
\<close>

definition obj_set :: "(string \<times> 'v) list \<Rightarrow> string \<Rightarrow> 'v \<Rightarrow> (string \<times> 'v) list" where
  "obj_set ob k v =
     (if k \<in> set (map fst ob) then map (\<lambda>(k', v'). if k' = k then (k', v) else (k', v')) ob
      else ob @ [(k, v)])"

definition spread :: "(string \<times> 'v) list \<Rightarrow> (string \<times> 'v) list \<Rightarrow> (string \<times> 'v) list" where
  "spread ob fs = foldl (\<lambda>acc (k, v). obj_set acc k v) ob fs"

text \<open>
  How a built object goes on the wire (\<^verbatim>\<open>JSON.stringify\<close>): a date as its ISO text, or
  null when invalid; a timestamp as the object of its two number fields.
\<close>

fun to_json :: "env \<Rightarrow> jsvalue \<Rightarrow> json" where
  "to_json e (VJson j) = j"
| "to_json e (VDate (Valid t)) = JStr (ISO e t)"
| "to_json e (VDate InvalidDate) = JNull"
| "to_json e (VTimestamp (Timestamp s n)) =
     JObj [(''_seconds'', JNum (of_int s)), (''_nanoseconds'', JNum (of_int n))]"

definition wire :: "env \<Rightarrow> jsobject \<Rightarrow> json" where
  "wire e ob = JObj (map (\<lambda>(k, v). (k, to_json e v)) ob)"

text \<open>Applying to every element of a list a function that may throw: the first throw ends it.\<close>

fun map_throwing :: "('a \<Rightarrow> error + 'b) \<Rightarrow> 'a list \<Rightarrow> error + 'b list" where
  "map_throwing f [] = Inr []"
| "map_throwing f (x # xs) =
     (case f x of
        Inl err \<Rightarrow> Inl err
      | Inr y \<Rightarrow> (case map_throwing f xs of Inl err \<Rightarrow> Inl err | Inr ys \<Rightarrow> Inr (y # ys)))"

section \<open>The document store\<close>

text \<open>
  The store client's timestamp constructor accepts whole seconds of the years 0001 to
  9999 and nanoseconds below one second, and throws on anything else.
\<close>

definition min_seconds :: int where
  "min_seconds = - 62135596800"

definition max_seconds :: int where
  "max_seconds = 253402300799"

definition new_Timestamp :: "int \<Rightarrow> int \<Rightarrow> error + timestamp" where
  "new_Timestamp seconds nanoseconds =
     (if min_seconds \<le> seconds \<and> seconds \<le> max_seconds \<and>
         0 \<le> nanoseconds \<and> nanoseconds \<le> 999999999
      then Inr (Timestamp seconds nanoseconds)
      else Inl ArgumentError)"

text \<open>
  The timestamp of a date: whole seconds (rounded down) and the remaining milliseconds
  as nanoseconds. An invalid date has no seconds, so the constructor throws. And the date
  of a timestamp.
\<close>

fun Timestamp_fromDate :: "jsdate \<Rightarrow> error + timestamp" where
  "Timestamp_fromDate (Valid ms) =
     (let seconds = ms div 1000 in new_Timestamp seconds ((ms - seconds * 1000) * 1000000))"
| "Timestamp_fromDate InvalidDate = Inl ArgumentError"

fun toDate :: "timestamp \<Rightarrow> jsdate" where
  "toDate (Timestamp s n) = TimeClip (s * 1000 + (n + 500000) div 1000000)"

text \<open>
  The store client serialises a record before it sends it: a date becomes a timestamp,
  and the first date that has none throws.
\<close>

fun encode_value :: "jsvalue \<Rightarrow> error + fsvalue" where
  "encode_value (VJson j) = Inr (FsJson j)"
| "encode_value (VDate d) =
     (case Timestamp_fromDate d of Inl err \<Rightarrow> Inl err | Inr t \<Rightarrow> Inr (FsTimestamp t))"
| "encode_value (VTimestamp t) = Inr (FsTimestamp t)"

fun decode_value :: "fsvalue \<Rightarrow> jsvalue" where
  "decode_value (FsJson j) = VJson j"
| "decode_value (FsTimestamp t) = VTimestamp t"

definition encode_field :: "string \<times> jsvalue \<Rightarrow> error + string \<times> fsvalue" where
  "encode_field kv =
     (case encode_value (snd kv) of Inl err \<Rightarrow> Inl err | Inr v \<Rightarrow> Inr (fst kv, v))"

definition encode_document :: "jsobject \<Rightarrow> error + document" where
  "encode_document ob = map_throwing encode_field ob"

text \<open>\<^verbatim>\<open>doc.data()\<close>\<close>

definition data :: "document \<Rightarrow> jsobject" where
  "data d = map (\<lambda>(k, v). (k, decode_value v)) d"

text \<open>
  \<^verbatim>\<open>collection.add(record)\<close>: a record that does not serialise is refused before anything
  is sent; on an acknowledged write the document is appended under the id the store
  assigned; a failed write leaves the store as it was.
\<close>

definition collection_add ::
  "write_reply \<Rightarrow> string \<Rightarrow> jsobject \<Rightarrow> store \<Rightarrow> (error + string) \<times> store" where
  "collection_add reply path ob st =
     (case encode_document ob of
        Inl err \<Rightarrow> (Inl err, st)
      | Inr doc \<Rightarrow>
          (case reply of
             WriteFail \<Rightarrow> (Inl StorageError, st)
           | WriteAck i \<Rightarrow> (Inr i, st(path := st path @ [(i, doc)]))))"

text \<open>
  The store's order on field values, as far as the handlers depend on it: values of
  different types by type, timestamps by seconds and then nanoseconds.
\<close>

fun order_key :: "fsvalue \<Rightarrow> nat \<times> int \<times> int" where
  "order_key (FsJson JNull) = (0, 0, 0)"
| "order_key (FsJson (JBool b)) = (1, 0, 0)"
| "order_key (FsJson (JNum n)) = (2, 0, 0)"
| "order_key (FsTimestamp (Timestamp s n)) = (3, s, n)"
| "order_key (FsJson (JStr s)) = (4, 0, 0)"
| "order_key (FsJson (JArr xs)) = (5, 0, 0)"
| "order_key (FsJson (JObj fs)) = (6, 0, 0)"

definition field_key :: "string \<Rightarrow> string \<times> document \<Rightarrow> nat \<times> int \<times> int" where
  "field_key f d = (case map_of (snd d) f of Some v \<Rightarrow> order_key v | None \<Rightarrow> (0, 0, 0))"

definition has_field :: "string \<Rightarrow> string \<times> document \<Rightarrow> bool" where
  "has_field f d = (map_of (snd d) f \<noteq> None)"

text \<open>
  \<^verbatim>\<open>collection.orderBy(field, 'desc')\<close>: the documents that have the field, largest
  value first.
\<close>

definition orderBy_desc :: "string \<Rightarrow> (string \<times> document) list \<Rightarrow> (string \<times> document) list" where
  "orderBy_desc f ds = rev (sort_key (field_key f) (filter (has_field f) ds))"

fun query_get :: "read_reply \<Rightarrow> string \<Rightarrow> string \<Rightarrow> store \<Rightarrow> error + (string \<times> document) list" where
  "query_get ReadFail path f st = Inl StorageError"
| "query_get ReadOk path f st = Inr (orderBy_desc f (st path))"

section \<open>The API handlers\<close>

definition error_body :: "string \<Rightarrow> json" where
  "error_body msg = JObj [(''error'', JStr msg)]"

definition assignments_path :: "env \<Rightarrow> string" where
  "assignments_path e = ''artifacts/'' @ appId e @ ''/public/data/assignments''"

definition users_path :: "env \<Rightarrow> string" where
  "users_path e = ''artifacts/'' @ appId e @ ''/public/data/users''"

text \<open>The record \<^verbatim>\<open>newAssignment\<close> handed to the store, \<open>due\<close> being \<^verbatim>\<open>new Date(due_date)\<close>.\<close>

definition newAssignment :: "int \<Rightarrow> json \<Rightarrow> json \<Rightarrow> jsdate \<Rightarrow> json \<Rightarrow> jsobject" where
  "newAssignment now gig_id assignee_id due status =
     [(''gig_id'', VJson gig_id), (''assignee_id'', VJson assignee_id),
      (''due_date'', VDate due), (''status'', VJson status),
      (''created_at'', VDate (Valid now))]"

text \<open>
  \<^verbatim>\<open>{ id: docRef.id, ...newAssignment, due_date: ..toISOString(), created_at: ..toISOString() }\<close>:
  the first date that does not render throws.
\<close>

definition createdAssignment :: "env \<Rightarrow> string \<Rightarrow> jsobject \<Rightarrow> jsdate \<Rightarrow> jsdate \<Rightarrow> error + json" where
  "createdAssignment e i new due created =
     (case toISOString e due of
        Inl err \<Rightarrow> Inl err
      | Inr due_text \<Rightarrow>
          (case toISOString e created of
             Inl err \<Rightarrow> Inl err
           | Inr created_text \<Rightarrow>
               Inr (wire e
                 (obj_set (obj_set (spread [(''id'', VJson (JStr i))] new)
                    ''due_date'' (VJson (JStr due_text)))
                    ''created_at'' (VJson (JStr created_text))))))"

text \<open>
  \<^verbatim>\<open>POST /api/assignments\<close>. \<open>db\<close> is the store handle, absent when the client failed to
  initialise; \<open>now\<close> is the clock; \<open>reply\<close> is the store's answer to the write.
\<close>

definition post_assignments ::
  "env \<Rightarrow> store option \<Rightarrow> int \<Rightarrow> write_reply \<Rightarrow> json \<Rightarrow> store option \<times> effect list" where
  "post_assignments e db now reply body =
     (case db of
        None \<Rightarrow> (None, [Respond 500 (error_body ''Database not initialized.'')])
      | Some st \<Rightarrow>
          (let gig_id = get_prop body ''gig_id'';
               assignee_id = get_prop body ''assignee_id'';
               due_date = get_prop body ''due_date'';
               status = get_prop body ''status''
           in if \<not> truthy gig_id \<or> \<not> truthy assignee_id \<or> \<not> truthy due_date \<or> \<not> truthy status
              then (Some st, [Respond 400 (error_body ''Missing required fields.'')])
              else
                (case new_Date e (the due_date) of
                   Inl err \<Rightarrow>
                     (Some st,
                      [LogError ''Error adding assignment:'' err,
                       Respond 500 (error_body ''Internal server error.'')])
                 | Inr due \<Rightarrow>
                     (let new = newAssignment now (the gig_id) (the assignee_id) due (the status)
                      in case collection_add reply (assignments_path e) new st of
                           (Inl err, st') \<Rightarrow>
                             (Some st',
                              [StoreAdd (assignments_path e) new (Inl err),
                               LogError ''Error adding assignment:'' err,
                               Respond 500 (error_body ''Internal server error.'')])
                         | (Inr i, st') \<Rightarrow>
                             (case createdAssignment e i new due (Valid now) of
                                Inl err \<Rightarrow>
                                  (Some st',
                                   [StoreAdd (assignments_path e) new (Inr i),
                                    LogError ''Error adding assignment:'' err,
                                    Respond 500 (error_body ''Internal server error.'')])
                              | Inr created \<Rightarrow>
                                  (Some st',
                                   [StoreAdd (assignments_path e) new (Inr i),
                                    Emit ''new_assignment'' created,
                                    Respond 201
                                      (JObj [(''message'', JStr ''Assignment added successfully''),
                                             (''assignment'', created)])]))))))"

text \<open>The record \<^verbatim>\<open>newUser\<close>: an absent or falsy bio and skills take their defaults.\<close>

definition newUser :: "int \<Rightarrow> json \<Rightarrow> json option \<Rightarrow> json option \<Rightarrow> jsobject" where
  "newUser now username bio skills =
     [(''username'', VJson username), (''bio'', VJson (or_else bio (JStr ''''))),
      (''skills'', VJson (or_else skills (JArr []))), (''created_at'', VDate (Valid now))]"

definition createdUser :: "env \<Rightarrow> string \<Rightarrow> jsobject \<Rightarrow> jsdate \<Rightarrow> error + json" where
  "createdUser e i new created =
     (case toISOString e created of
        Inl err \<Rightarrow> Inl err
      | Inr created_text \<Rightarrow>
          Inr (wire e
            (obj_set (spread [(''id'', VJson (JStr i))] new)
               ''created_at'' (VJson (JStr created_text)))))"

text \<open>\<^verbatim>\<open>POST /api/users\<close>\<close>

definition post_users ::
  "env \<Rightarrow> store option \<Rightarrow> int \<Rightarrow> write_reply \<Rightarrow> json \<Rightarrow> store option \<times> effect list" where
  "post_users e db now reply body =
     (case db of
        None \<Rightarrow> (None, [Respond 500 (error_body ''Database not initialized.'')])
      | Some st \<Rightarrow>
          (let username = get_prop body ''username'';
               bio = get_prop body ''bio'';
               skills = get_prop body ''skills''
           in if \<not> truthy username
              then (Some st, [Respond 400 (error_body ''Username is a required field.'')])
              else
                (let new = newUser now (the username) bio skills
                 in case collection_add reply (users_path e) new st of
                      (Inl err, st') \<Rightarrow>
                        (Some st',
                         [StoreAdd (users_path e) new (Inl err),
                          LogError ''Error creating user profile:'' err,
                          Respond 500 (error_body ''Internal server error.'')])
                    | (Inr i, st') \<Rightarrow>
                        (case createdUser e i new (Valid now) of
                           Inl err \<Rightarrow>
                             (Some st',
                              [StoreAdd (users_path e) new (Inr i),
                               LogError ''Error creating user profile:'' err,
                               Respond 500 (error_body ''Internal server error.'')])
                         | Inr created \<Rightarrow>
                             (Some st',
                              [StoreAdd (users_path e) new (Inr i),
                               Emit ''new_user'' created,
                               Respond 201
                                 (JObj [(''message'', JStr ''User profile created successfully''),
                                        (''user'', created)])])))))"

text \<open>
  \<^verbatim>\<open>doc.data().f.toDate().toISOString()\<close>: a TypeError when the field is absent or is not
  a timestamp, a RangeError when its date is out of range.
\<close>

definition field_iso :: "env \<Rightarrow> document \<Rightarrow> string \<Rightarrow> error + string" where
  "field_iso e d f =
     (case map_of (data d) f of
        Some (VTimestamp t) \<Rightarrow> toISOString e (toDate t)
      | _ \<Rightarrow> Inl TypeError)"

text \<open>The element the assignments list builds from one document of the snapshot.\<close>

definition assignment_of_doc :: "env \<Rightarrow> string \<times> document \<Rightarrow> error + json" where
  "assignment_of_doc e doc =
     (case field_iso e (snd doc) ''due_date'' of
        Inl err \<Rightarrow> Inl err
      | Inr due_text \<Rightarrow>
          (case field_iso e (snd doc) ''created_at'' of
             Inl err \<Rightarrow> Inl err
           | Inr created_text \<Rightarrow>
               Inr (wire e
                 (obj_set (obj_set (spread [(''id'', VJson (JStr (fst doc)))] (data (snd doc)))
                    ''due_date'' (VJson (JStr due_text)))
                    ''created_at'' (VJson (JStr created_text))))))"

definition user_of_doc :: "env \<Rightarrow> string \<times> document \<Rightarrow> error + json" where
  "user_of_doc e doc =
     (case field_iso e (snd doc) ''created_at'' of
        Inl err \<Rightarrow> Inl err
      | Inr created_text \<Rightarrow>
          Inr (wire e
            (obj_set (spread [(''id'', VJson (JStr (fst doc)))] (data (snd doc)))
               ''created_at'' (VJson (JStr created_text)))))"

text \<open>\<^verbatim>\<open>GET /api/assignments\<close> and \<^verbatim>\<open>GET /api/users\<close>\<close>

definition get_assignments :: "env \<Rightarrow> store option \<Rightarrow> read_reply \<Rightarrow> store option \<times> effect list" where
  "get_assignments e db reply =
     (case db of
        None \<Rightarrow> (None, [Respond 500 (error_body ''Database not initialized.'')])
      | Some st \<Rightarrow>
          (case query_get reply (assignments_path e) ''created_at'' st of
             Inl err \<Rightarrow>
               (Some st,
                [StoreGet (assignments_path e) (Inl err),
                 LogError ''Error fetching assignments:'' err,
                 Respond 500 (error_body ''Internal server error.'')])
           | Inr docs \<Rightarrow>
               (case map_throwing (assignment_of_doc e) docs of
                  Inl err \<Rightarrow>
                    (Some st,
                     [StoreGet (assignments_path e) (Inr docs),
                      LogError ''Error fetching assignments:'' err,
                      Respond 500 (error_body ''Internal server error.'')])
                | Inr assignments \<Rightarrow>
                    (Some st,
                     [StoreGet (assignments_path e) (Inr docs),
                      Respond 200 (JArr assignments)]))))"

definition get_users :: "env \<Rightarrow> store option \<Rightarrow> read_reply \<Rightarrow> store option \<times> effect list" where
  "get_users e db reply =
     (case db of
        None \<Rightarrow> (None, [Respond 500 (error_body ''Database not initialized.'')])
      | Some st \<Rightarrow>
          (case query_get reply (users_path e) ''created_at'' st of
             Inl err \<Rightarrow>
               (Some st,
                [StoreGet (users_path e) (Inl err),
                 LogError ''Error fetching users:'' err,
                 Respond 500 (error_body ''Internal server error.'')])
           | Inr docs \<Rightarrow>
               (case map_throwing (user_of_doc e) docs of
                  Inl err \<Rightarrow>
                    (Some st,
                     [StoreGet (users_path e) (Inr docs),
                      LogError ''Error fetching users:'' err,
                      Respond 500 (error_body ''Internal server error.'')])
                | Inr users \<Rightarrow>
                    (Some st,
                     [StoreGet (users_path e) (Inr docs),
                      Respond 200 (JArr users)]))))"

section \<open>The canonical records\<close>

text \<open>
  The canonical record of an entity, in the words of the specification: the submitted
  fields, the id the store assigned and the creation time, every time as ISO-8601 text.
\<close>

definition canonical_assignment ::
  "env \<Rightarrow> string \<Rightarrow> json \<Rightarrow> json \<Rightarrow> int \<Rightarrow> json \<Rightarrow> int \<Rightarrow> json" where
  "canonical_assignment e i gig_id assignee_id due status created =
     JObj [(''id'', JStr i), (''gig_id'', gig_id), (''assignee_id'', assignee_id),
           (''due_date'', JStr (ISO e due)), (''status'', status),
           (''created_at'', JStr (ISO e created))]"

definition canonical_user :: "env \<Rightarrow> string \<Rightarrow> json \<Rightarrow> json \<Rightarrow> json \<Rightarrow> int \<Rightarrow> json" where
  "canonical_user e i username bio skills created =
     JObj [(''id'', JStr i), (''username'', username), (''bio'', bio), (''skills'', skills),
           (''created_at'', JStr (ISO e created))]"

text \<open>
  A stored timestamp is normalised when its nanoseconds are a fraction of one second, as
  those the store builds from a date are.
\<close>

fun normalised :: "timestamp \<Rightarrow> bool" where
  "normalised (Timestamp s n) = (0 \<le> n \<and> n < 1000000000)"

definition normalised_field :: "string \<Rightarrow> string \<times> document \<Rightarrow> bool" where
  "normalised_field f d =
     (case map_of (snd d) f of Some (FsTimestamp t) \<Rightarrow> normalised t | _ \<Rightarrow> True)"

text \<open>The creation time of a stored document, in milliseconds (0 when it has none).\<close>

definition created_time :: "string \<times> document \<Rightarrow> int" where
  "created_time d =
     (case map_of (snd d) ''created_at'' of
        Some (FsTimestamp t) \<Rightarrow> (case toDate t of Valid ms \<Rightarrow> ms | InvalidDate \<Rightarrow> 0)
      | _ \<Rightarrow> 0)"

text \<open>
  The time values the store has a timestamp for, that timestamp, and the documents the
  create handlers store.
\<close>

definition in_store_range :: "int \<Rightarrow> bool" where
  "in_store_range ms = (min_seconds \<le> ms div 1000 \<and> ms div 1000 \<le> max_seconds)"

definition timestamp_of :: "int \<Rightarrow> timestamp" where
  "timestamp_of ms = Timestamp (ms div 1000) ((ms - ms div 1000 * 1000) * 1000000)"

definition assignment_document :: "int \<Rightarrow> json \<Rightarrow> json \<Rightarrow> int \<Rightarrow> json \<Rightarrow> document" where
  "assignment_document created gig_id assignee_id due status =
     [(''gig_id'', FsJson gig_id), (''assignee_id'', FsJson assignee_id),
      (''due_date'', FsTimestamp (timestamp_of due)), (''status'', FsJson status),
      (''created_at'', FsTimestamp (timestamp_of created))]"

definition user_document :: "int \<Rightarrow> json \<Rightarrow> json \<Rightarrow> json \<Rightarrow> document" where
  "user_document created username bio skills =
     [(''username'', FsJson username), (''bio'', FsJson bio), (''skills'', FsJson skills),
      (''created_at'', FsTimestamp (timestamp_of created))]"

section \<open>Sequences of requests\<close>

text \<open>
  A request to one of the four data endpoints, with the clock and the store's reply it
  meets; and the store after a sequence of them.
\<close>

datatype api_call =
    PostAssignment int write_reply json
  | GetAssignments read_reply
  | PostUser int write_reply json
  | GetUsers read_reply

fun handle :: "env \<Rightarrow> store option \<Rightarrow> api_call \<Rightarrow> store option \<times> effect list" where
  "handle e db (PostAssignment now reply body) = post_assignments e db now reply body"
| "handle e db (GetAssignments reply) = get_assignments e db reply"
| "handle e db (PostUser now reply body) = post_users e db now reply body"
| "handle e db (GetUsers reply) = get_users e db reply"

definition store_after :: "env \<Rightarrow> store \<Rightarrow> api_call \<Rightarrow> store" where
  "store_after e st c = (case fst (handle e (Some st) c) of Some st' \<Rightarrow> st' | None \<Rightarrow> st)"

fun after_calls :: "env \<Rightarrow> store \<Rightarrow> api_call list \<Rightarrow> store" where
  "after_calls e st [] = st"
| "after_calls e st (c # cs) = after_calls e (store_after e st c) cs"

text \<open>A store with no documents.\<close>

definition empty_store :: store where
  "empty_store = (\<lambda>path. [])"

text \<open>
  A store is listable when every document of the two collections renders in its list
  endpoint and has a normalised creation timestamp.
\<close>

definition listable :: "env \<Rightarrow> store \<Rightarrow> bool" where
  "listable e st =
     ((\<forall>d \<in> set (st (assignments_path e)).
         \<not> isl (assignment_of_doc e d) \<and> normalised_field ''created_at'' d) \<and>
      (\<forall>d \<in> set (st (users_path e)).
         \<not> isl (user_of_doc e d) \<and> normalised_field ''created_at'' d))"

section \<open>Sample inputs\<close>

text \<open>
  An environment that parses one calendar date, renders the three time values used
  below, and converts every array or object to the text of a plain object; three payloads.
\<close>

definition sample_env :: env where
  "sample_env =
     \<lparr>appId = ''default-app-id'',
      Date_parse = (\<lambda>s. if s = ''2025-01-01'' then Some 1735689600000 else None),
      ToPrimitive = (\<lambda>v. Some ''[object Object]''),
      ISO = (\<lambda>t. if t = 1735689600000 then ''2025-01-01T00:00:00.000Z''
                 else if t = 0 then ''1970-01-01T00:00:00.000Z''
                 else if t = 1000 then ''1970-01-01T00:00:01.000Z''
                 else [])\<rparr>"

definition sample_assignment_body :: json where
  "sample_assignment_body =
     JObj [(''gig_id'', JNum 7), (''assignee_id'', JNum 3), (''due_date'', JStr ''2025-01-01''),
           (''status'', JStr ''pending'')]"

definition sample_user_body :: json where
  "sample_user_body =
     JObj [(''username'', JStr ''ana''), (''bio'', JStr ''''),
           (''skills'', JArr [JStr ''go'', JStr ''rust''])]"

definition second_assignment_body :: json where
  "second_assignment_body =
     JObj [(''gig_id'', JNum 8), (''assignee_id'', JNum 3), (''due_date'', JStr ''2025-01-01''),
           (''status'', JStr ''completed'')]"

text \<open>
  A store holding two assignments, created one second apart, and one user profile; and
  the three requests that build it from the empty store.
\<close>

definition sample_store :: store where
  "sample_store =
     (empty_store(''artifacts/default-app-id/public/data/assignments'' :=
        [(''a1'', assignment_document 0 (JNum 7) (JNum 3) 1735689600000 (JStr ''pending'')),
         (''a2'', assignment_document 1000 (JNum 8) (JNum 3) 1735689600000
                   (JStr ''completed''))]))
     (''artifacts/default-app-id/public/data/users'' :=
        [(''u1'', user_document 0 (JStr ''ana'') (JStr '''')
                   (JArr [JStr ''go'', JStr ''rust'']))])"

definition sample_calls :: "api_call list" where
  "sample_calls =
     [PostAssignment 0 (WriteAck ''a1'') sample_assignment_body,
      PostAssignment 1000 (WriteAck ''a2'') second_assignment_body,
      PostUser 0 (WriteAck ''u1'') sample_user_body]"

section \<open>The client\<close>

subsection \<open>Skills input\<close>

text \<open>
  Characters are the code units below 256. White space and line terminators among them:
  tab, line feed, vertical tab, form feed, carriage return, space, no-break space.
\<close>

definition is_whitespace :: "char \<Rightarrow> bool" where
  "is_whitespace c =
     (c \<in> {CHR 0x09, CHR 0x0A, CHR 0x0B, CHR 0x0C, CHR 0x0D, CHR 0x20, CHR 0xA0})"

text \<open>\<^verbatim>\<open>s.trim()\<close>\<close>

definition trim :: "string \<Rightarrow> string" where
  "trim s = rev (dropWhile is_whitespace (rev (dropWhile is_whitespace s)))"

text \<open>\<^verbatim>\<open>s.split(c)\<close> for a one-character separator: the empty string gives one empty piece.\<close>

fun split :: "char \<Rightarrow> string \<Rightarrow> string list" where
  "split c [] = [[]]"
| "split c (x # xs) =
     (if x = c then [] # split c xs
      else (case split c xs of [] \<Rightarrow> [[x]] | p # ps \<Rightarrow> (x # p) # ps))"

text \<open>\<^verbatim>\<open>skills.split(',').map(s => s.trim())\<close>\<close>

definition skills_of_input :: "string \<Rightarrow> string list" where
  "skills_of_input s = map trim (split (CHR '','') s)"

text \<open>Joining pieces with a separator, the inverse the specification's wording refers to.\<close>

fun join :: "char \<Rightarrow> string list \<Rightarrow> string" where
  "join c [] = []"
| "join c [p] = p"
| "join c (p # q # ps) = p @ c # join c (q # ps)"

subsection \<open>List views\<close>

text \<open>The state of a list component: the displayed records, the loading flag, the error.\<close>

record ui_status =
  loading :: bool
  error :: "string option"

record list_view = ui_status +
  records :: "json list"

datatype request = Fetch string string

text \<open>
  The handlers of \<^verbatim>\<open>new_assignment\<close> and \<^verbatim>\<open>new_user\<close>: the new state and the requests
  the handler issues.
\<close>

definition on_new_assignment :: "json \<Rightarrow> list_view \<Rightarrow> list_view \<times> request list" where
  "on_new_assignment r v = (v\<lparr>records := r # records v\<rparr>, [])"

definition on_new_user :: "json \<Rightarrow> list_view \<Rightarrow> list_view \<times> request list" where
  "on_new_user r v = (v\<lparr>records := r # records v\<rparr>, [])"

subsection \<open>Form views\<close>

record form_status = ui_status +
  successMessage :: "string option"

record assignment_form = form_status +
  gigId :: string
  assigneeId :: string
  dueDate :: string
  status :: string

record user_form = form_status +
  username :: string
  bio :: string
  skills :: string

text \<open>
  How a request ends: \<^verbatim>\<open>fetch\<close> rejects with a message, or a response arrives with its
  \<^verbatim>\<open>ok\<close> flag and what reading its body as JSON gives (a thrown message, or the data).
\<close>

datatype fetch_result = NetworkError string | Response bool "string + json"

text \<open>
  Messages of the client's engine: the text of the TypeError for reading a property of
  null, and the string conversion \<^verbatim>\<open>new Error(v)\<close> applies to a value that is not a string.
\<close>

record client_env =
  null_property_message :: string
  message_of :: "json \<Rightarrow> string"

text \<open>\<^verbatim>\<open>new Error(errorData.error || fallback).message\<close>, or the TypeError's on null.\<close>

definition thrown_message :: "client_env \<Rightarrow> string \<Rightarrow> json \<Rightarrow> string" where
  "thrown_message c fallback errorData =
     (case errorData of
        JNull \<Rightarrow> null_property_message c
      | _ \<Rightarrow>
          (case get_prop errorData ''error'' of
             Some (JStr m) \<Rightarrow> (if m \<noteq> [] then m else fallback)
           | Some v \<Rightarrow> (if truthy (Some v) then message_of c v else fallback)
           | None \<Rightarrow> fallback))"

text \<open>\<^verbatim>\<open>AssignmentForm.handleSubmit\<close>, run to its end against the outcome of the request.\<close>

definition assignment_handleSubmit ::
  "client_env \<Rightarrow> fetch_result \<Rightarrow> assignment_form \<Rightarrow> assignment_form \<times> request list" where
  "assignment_handleSubmit c result f =
     (let f1 = f\<lparr>loading := True, error := None, successMessage := None\<rparr>
      in if gigId f1 = [] \<or> assigneeId f1 = [] \<or> dueDate f1 = [] \<or> status f1 = []
         then (f1\<lparr>error := Some ''Please fill in all fields.'', loading := False\<rparr>, [])
         else
           (case result of
              NetworkError m \<Rightarrow>
                (f1\<lparr>error := Some m, loading := False\<rparr>, [Fetch ''POST'' ''/api/assignments''])
            | Response ok body \<Rightarrow>
                (if \<not> ok
                 then (case body of
                         Inl m \<Rightarrow>
                           (f1\<lparr>error := Some m, loading := False\<rparr>,
                            [Fetch ''POST'' ''/api/assignments''])
                       | Inr errorData \<Rightarrow>
                           (f1\<lparr>error := Some (thrown_message c ''Failed to add assignment.'' errorData),
                               loading := False\<rparr>,
                            [Fetch ''POST'' ''/api/assignments'']))
                 else (f1\<lparr>successMessage := Some ''Assignment created successfully!'',
                           gigId := [], assigneeId := [], dueDate := [],
                           status := ''in_progress'', loading := False\<rparr>,
                       [Fetch ''POST'' ''/api/assignments'']))))"

text \<open>\<^verbatim>\<open>UserProfileForm.handleSubmit\<close>\<close>

definition user_handleSubmit ::
  "client_env \<Rightarrow> fetch_result \<Rightarrow> user_form \<Rightarrow> user_form \<times> request list" where
  "user_handleSubmit c result f =
     (let f1 = f\<lparr>loading := True, error := None, successMessage := None\<rparr>
      in if username f1 = []
         then (f1\<lparr>error := Some ''Username is required.'', loading := False\<rparr>, [])
         else
           (case result of
              NetworkError m \<Rightarrow>
                (f1\<lparr>error := Some m, loading := False\<rparr>, [Fetch ''POST'' ''/api/users''])
            | Response ok body \<Rightarrow>
                (if \<not> ok
                 then (case body of
                         Inl m \<Rightarrow>
                           (f1\<lparr>error := Some m, loading := False\<rparr>, [Fetch ''POST'' ''/api/users''])
                       | Inr errorData \<Rightarrow>
                           (f1\<lparr>error :=
                                 Some (thrown_message c ''Failed to create user profile.'' errorData),
                               loading := False\<rparr>,
                            [Fetch ''POST'' ''/api/users'']))
                 else (f1\<lparr>successMessage := Some ''User profile created successfully!'',
                           username := [], bio := [], skills := [], loading := False\<rparr>,
                       [Fetch ''POST'' ''/api/users'']))))"

text \<open>The input fields of each form.\<close>

definition assignment_inputs :: "assignment_form \<Rightarrow> string \<times> string \<times> string \<times> string" where
  "assignment_inputs f = (gigId f, assigneeId f, dueDate f, status f)"

definition user_inputs :: "user_form \<Rightarrow> string \<times> string \<times> string" where
  "user_inputs f = (username f, bio f, skills f)"

text \<open>
  A client engine, an assignment form filled in again while the success message of the
  previous submission still shows, and a filled user form.
\<close>

definition sample_client_env :: client_env where
  "sample_client_env =
     \<lparr>null_property_message = ''Cannot read properties of null'',
      message_of = (\<lambda>v. ''[object Object]'')\<rparr>"

definition refilled_assignment_form :: assignment_form where
  "refilled_assignment_form =
     \<lparr>loading = False, error = None,
      successMessage = Some ''Assignment created successfully!'',
      gigId = ''7'', assigneeId = ''3'', dueDate = ''2025-01-01'',
      status = ''in_progress''\<rparr>"

definition filled_user_form :: user_form where
  "filled_user_form =
     \<lparr>loading = False, error = None, successMessage = None,
      username = ''ana'', bio = ''hi'', skills = ''go, rust, ''\<rparr>"

section \<open>The create handlers\<close>

text \<open>What the store client makes of the dates of a record.\<close>

lemma Timestamp_fromDate_in_range:
  "in_store_range ms \<Longrightarrow> Timestamp_fromDate (Valid ms) = Inr (timestamp_of ms)"
proof -
  assume range: "in_store_range ms"
  have "0 \<le> ms mod 1000" and "ms mod 1000 < 1000"
    by simp_all
  moreover have "ms - ms div 1000 * 1000 = ms mod 1000"
    by (simp add: minus_div_mult_eq_mod)
  ultimately have "0 \<le> (ms - ms div 1000 * 1000) * 1000000"
    and "(ms - ms div 1000 * 1000) * 1000000 \<le> 999999999"
    by simp_all
  with range show ?thesis
    by (simp add: in_store_range_def new_Timestamp_def timestamp_of_def Let_def)
qed

lemma Timestamp_fromDate_Inr:
  assumes "Timestamp_fromDate d = Inr ts"
  shows "\<exists>ms. d = Valid ms \<and> in_store_range ms \<and> ts = timestamp_of ms"
proof (cases d)
  case (Valid ms)
  with assms show ?thesis
    by (auto simp: new_Timestamp_def Let_def in_store_range_def timestamp_of_def
        split: if_splits)
next
  case InvalidDate
  with assms show ?thesis by simp
qed

lemma encode_newAssignment:
  assumes "in_store_range due" and "in_store_range now"
  shows "encode_document (newAssignment now g a (Valid due) s) =
           Inr (assignment_document now g a due s)"
  using assms
  by (simp add: encode_document_def encode_field_def newAssignment_def assignment_document_def
      Timestamp_fromDate_in_range del: Timestamp_fromDate.simps)

lemma encode_newAssignment_invalid:
  "encode_document (newAssignment now g a InvalidDate s) = Inl ArgumentError"
  by (simp add: encode_document_def encode_field_def newAssignment_def)

lemma encode_newAssignment_Inr:
  assumes "encode_document (newAssignment now g a due s) = Inr doc"
  shows "\<exists>t. due = Valid t \<and> in_store_range t \<and> in_store_range now \<and>
             doc = assignment_document now g a t s"
proof -
  from assms obtain ts where due: "Timestamp_fromDate due = Inr ts"
    by (cases "Timestamp_fromDate due")
       (auto simp: encode_document_def encode_field_def newAssignment_def)
  from assms obtain tn where now: "Timestamp_fromDate (Valid now) = Inr tn"
    by (cases "Timestamp_fromDate (Valid now)")
       (auto simp: encode_document_def encode_field_def newAssignment_def
          split: sum.splits simp del: Timestamp_fromDate.simps)
  from Timestamp_fromDate_Inr [OF due] obtain t
    where t: "due = Valid t" "in_store_range t" by blast
  from Timestamp_fromDate_Inr [OF now] have range: "in_store_range now" by blast
  with t assms encode_newAssignment [of t now g a s] show ?thesis
    by auto
qed

lemma encode_newUser:
  assumes "in_store_range now"
  shows "encode_document (newUser now u b k) =
           Inr (user_document now u (or_else b (JStr '''')) (or_else k (JArr [])))"
  using assms
  by (simp add: encode_document_def encode_field_def newUser_def user_document_def
      Timestamp_fromDate_in_range del: Timestamp_fromDate.simps)

lemma encode_newUser_Inr:
  assumes "encode_document (newUser now u b k) = Inr doc"
  shows "in_store_range now \<and>
         doc = user_document now u (or_else b (JStr '''')) (or_else k (JArr []))"
proof -
  from assms obtain tn where now: "Timestamp_fromDate (Valid now) = Inr tn"
    by (cases "Timestamp_fromDate (Valid now)")
       (auto simp: encode_document_def encode_field_def newUser_def
          split: sum.splits simp del: Timestamp_fromDate.simps)
  from Timestamp_fromDate_Inr [OF now] have range: "in_store_range now" by blast
  with assms encode_newUser [of now u b k] show ?thesis
    by auto
qed

text \<open>The runs of the two create handlers, path by path.\<close>

lemma post_assignments_ok:
  assumes "get_prop body ''gig_id'' = Some g" "get_prop body ''assignee_id'' = Some a"
    "get_prop body ''due_date'' = Some d" "get_prop body ''status'' = Some s"
    "truthy (Some g)" "truthy (Some a)" "truthy (Some d)" "truthy (Some s)"
    "new_Date e d = Inr (Valid t)" "in_store_range t" "in_store_range now"
  shows "post_assignments e (Some st) now (WriteAck i) body =
     (Some (st(assignments_path e := st (assignments_path e) @
               [(i, assignment_document now g a t s)])),
      [StoreAdd (assignments_path e) (newAssignment now g a (Valid t) s) (Inr i),
       Emit ''new_assignment'' (canonical_assignment e i g a t s now),
       Respond 201
         (JObj [(''message'', JStr ''Assignment added successfully''),
                (''assignment'', canonical_assignment e i g a t s now)])])"
proof -
  have "collection_add (WriteAck i) (assignments_path e) (newAssignment now g a (Valid t) s) st =
          (Inr i, st(assignments_path e := st (assignments_path e) @
               [(i, assignment_document now g a t s)]))"
    using assms(10,11) by (simp add: collection_add_def encode_newAssignment)
  moreover have "createdAssignment e i (newAssignment now g a (Valid t) s) (Valid t) (Valid now) =
          Inr (canonical_assignment e i g a t s now)"
    by (simp add: createdAssignment_def newAssignment_def obj_set_def spread_def wire_def
        canonical_assignment_def)
  ultimately show ?thesis
    using assms(1-9) by (simp add: post_assignments_def Let_def)
qed

lemma post_users_ok:
  assumes "get_prop body ''username'' = Some u" "truthy (Some u)" "in_store_range now"
  shows "post_users e (Some st) now (WriteAck i) body =
     (Some (st(users_path e := st (users_path e) @
               [(i, user_document now u (or_else (get_prop body ''bio'') (JStr ''''))
                      (or_else (get_prop body ''skills'') (JArr [])))])),
      [StoreAdd (users_path e)
         (newUser now u (get_prop body ''bio'') (get_prop body ''skills'')) (Inr i),
       Emit ''new_user''
         (canonical_user e i u (or_else (get_prop body ''bio'') (JStr ''''))
            (or_else (get_prop body ''skills'') (JArr [])) now),
       Respond 201
         (JObj [(''message'', JStr ''User profile created successfully''),
                (''user'',
                 canonical_user e i u (or_else (get_prop body ''bio'') (JStr ''''))
                   (or_else (get_prop body ''skills'') (JArr [])) now)])])"
proof -
  have "collection_add (WriteAck i) (users_path e)
          (newUser now u (get_prop body ''bio'') (get_prop body ''skills'')) st =
          (Inr i, st(users_path e := st (users_path e) @
               [(i, user_document now u (or_else (get_prop body ''bio'') (JStr ''''))
                      (or_else (get_prop body ''skills'') (JArr [])))]))"
    using assms(3) by (simp add: collection_add_def encode_newUser)
  moreover have "createdUser e i
          (newUser now u (get_prop body ''bio'') (get_prop body ''skills'')) (Valid now) =
          Inr (canonical_user e i u (or_else (get_prop body ''bio'') (JStr ''''))
                 (or_else (get_prop body ''skills'') (JArr [])) now)"
    by (simp add: createdUser_def newUser_def obj_set_def spread_def wire_def
        canonical_user_def)
  ultimately show ?thesis
    using assms(1,2) by (simp add: post_users_def Let_def)
qed

lemma post_assignments_invalid_date:
  assumes "get_prop body ''gig_id'' = Some g" "get_prop body ''assignee_id'' = Some a"
    "get_prop body ''due_date'' = Some d" "get_prop body ''status'' = Some s"
    "truthy (Some g)" "truthy (Some a)" "truthy (Some d)" "truthy (Some s)"
    "new_Date e d = Inr InvalidDate"
  shows "post_assignments e (Some st) now reply body =
     (Some st,
      [StoreAdd (assignments_path e) (newAssignment now g a InvalidDate s) (Inl ArgumentError),
       LogError ''Error adding assignment:'' ArgumentError,
       Respond 500 (error_body ''Internal server error.'')])"
  using assms
  by (simp add: post_assignments_def Let_def collection_add_def encode_newAssignment_invalid)

lemma post_assignments_cases:
  assumes "post_assignments e db now reply body = (db', tr)"
  shows "(db = None \<and> db' = None \<and>
          tr = [Respond 500 (error_body ''Database not initialized.'')])
       \<or> (db' = db \<and> tr = [Respond 400 (error_body ''Missing required fields.'')])
       \<or> (\<exists>err. db' = db \<and>
            tr = [LogError ''Error adding assignment:'' err,
                  Respond 500 (error_body ''Internal server error.'')])
       \<or> (\<exists>ob err. db' = db \<and>
            tr = [StoreAdd (assignments_path e) ob (Inl err),
                  LogError ''Error adding assignment:'' err,
                  Respond 500 (error_body ''Internal server error.'')])
       \<or> (\<exists>st i g a d s t. reply = WriteAck i \<and> db = Some st \<and>
            new_Date e d = Inr (Valid t) \<and> in_store_range t \<and> in_store_range now \<and>
            db' = Some (st(assignments_path e := st (assignments_path e) @
                     [(i, assignment_document now g a t s)])) \<and>
            tr = [StoreAdd (assignments_path e) (newAssignment now g a (Valid t) s) (Inr i),
                  Emit ''new_assignment'' (canonical_assignment e i g a t s now),
                  Respond 201 (JObj [(''message'', JStr ''Assignment added successfully''),
                                     (''assignment'', canonical_assignment e i g a t s now)])])"
proof (cases db)
  case None
  with assms show ?thesis by (simp add: post_assignments_def)
next
  case (Some st)
  show ?thesis
  proof (cases "truthy (get_prop body ''gig_id'') \<and> truthy (get_prop body ''assignee_id'') \<and>
                truthy (get_prop body ''due_date'') \<and> truthy (get_prop body ''status'')")
    case False
    with assms Some show ?thesis
      by (auto simp: post_assignments_def Let_def)
  next
    case True
    then obtain g a d s where props: "get_prop body ''gig_id'' = Some g"
      "get_prop body ''assignee_id'' = Some a" "get_prop body ''due_date'' = Some d"
      "get_prop body ''status'' = Some s"
      by (cases "get_prop body ''gig_id''"; cases "get_prop body ''assignee_id''";
          cases "get_prop body ''due_date''"; cases "get_prop body ''status''") auto
    show ?thesis
    proof (cases "new_Date e d")
      case (Inl err)
      with assms Some True props show ?thesis
        by (auto simp: post_assignments_def Let_def)
    next
      case (Inr due)
      show ?thesis
      proof (cases "encode_document (newAssignment now g a due s)")
        case bad: (Inl err)
        with assms Some True props Inr show ?thesis
          by (auto simp: post_assignments_def Let_def collection_add_def)
      next
        case good: (Inr doc)
        from encode_newAssignment_Inr [OF good] obtain t
          where t: "due = Valid t" "in_store_range t" "in_store_range now" by blast
        show ?thesis
        proof (cases reply)
          case WriteFail
          with assms Some True props Inr good show ?thesis
            by (auto simp: post_assignments_def Let_def collection_add_def)
        next
          case (WriteAck i)
          from True props have "truthy (Some g)" "truthy (Some a)" "truthy (Some d)"
            "truthy (Some s)" by simp_all
          from post_assignments_ok [OF props this Inr [unfolded t(1)] t(2,3), of st i]
            assms Some WriteAck
          have "db' = Some (st(assignments_path e := st (assignments_path e) @
                     [(i, assignment_document now g a t s)])) \<and>
            tr = [StoreAdd (assignments_path e) (newAssignment now g a (Valid t) s) (Inr i),
                  Emit ''new_assignment'' (canonical_assignment e i g a t s now),
                  Respond 201 (JObj [(''message'', JStr ''Assignment added successfully''),
                                     (''assignment'', canonical_assignment e i g a t s now)])]"
            by simp
          with Some WriteAck Inr t show ?thesis by blast
        qed
      qed
    qed
  qed
qed

lemma post_users_cases:
  assumes "post_users e db now reply body = (db', tr)"
  shows "(db = None \<and> db' = None \<and>
          tr = [Respond 500 (error_body ''Database not initialized.'')])
       \<or> (db' = db \<and> tr = [Respond 400 (error_body ''Username is a required field.'')])
       \<or> (\<exists>ob err. db' = db \<and>
            tr = [StoreAdd (users_path e) ob (Inl err),
                  LogError ''Error creating user profile:'' err,
                  Respond 500 (error_body ''Internal server error.'')])
       \<or> (\<exists>st i u. reply = WriteAck i \<and> db = Some st \<and> in_store_range now \<and>
            db' = Some (st(users_path e := st (users_path e) @
                     [(i, user_document now u (or_else (get_prop body ''bio'') (JStr ''''))
                            (or_else (get_prop body ''skills'') (JArr [])))])) \<and>
            tr = [StoreAdd (users_path e)
                    (newUser now u (get_prop body ''bio'') (get_prop body ''skills'')) (Inr i),
                  Emit ''new_user''
                    (canonical_user e i u (or_else (get_prop body ''bio'') (JStr ''''))
                       (or_else (get_prop body ''skills'') (JArr [])) now),
                  Respond 201
                    (JObj [(''message'', JStr ''User profile created successfully''),
                           (''user'',
                            canonical_user e i u (or_else (get_prop body ''bio'') (JStr ''''))
                              (or_else (get_prop body ''skills'') (JArr [])) now)])])"
proof (cases db)
  case None
  with assms show ?thesis by (simp add: post_users_def)
next
  case (Some st)
  show ?thesis
  proof (cases "truthy (get_prop body ''username'')")
    case False
    with assms Some show ?thesis
      by (auto simp: post_users_def Let_def)
  next
    case True
    then obtain u where uname: "get_prop body ''username'' = Some u"
      by (cases "get_prop body ''username''") auto
    show ?thesis
    proof (cases "encode_document
                    (newUser now u (get_prop body ''bio'') (get_prop body ''skills''))")
      case bad: (Inl err)
      with assms Some True uname show ?thesis
        by (auto simp: post_users_def Let_def collection_add_def)
    next
      case good: (Inr doc)
      from encode_newUser_Inr [OF good] have range: "in_store_range now" by blast
      show ?thesis
      proof (cases reply)
        case WriteFail
        with assms Some True uname good show ?thesis
          by (auto simp: post_users_def Let_def collection_add_def)
      next
        case (WriteAck i)
        from True uname have "truthy (Some u)" by simp
        from post_users_ok [OF uname this range, of e st i] assms Some WriteAck
        have "db' = Some (st(users_path e := st (users_path e) @
                     [(i, user_document now u (or_else (get_prop body ''bio'') (JStr ''''))
                            (or_else (get_prop body ''skills'') (JArr [])))])) \<and>
            tr = [StoreAdd (users_path e)
                    (newUser now u (get_prop body ''bio'') (get_prop body ''skills'')) (Inr i),
                  Emit ''new_user''
                    (canonical_user e i u (or_else (get_prop body ''bio'') (JStr ''''))
                       (or_else (get_prop body ''skills'') (JArr [])) now),
                  Respond 201
                    (JObj [(''message'', JStr ''User profile created successfully''),
                           (''user'',
                            canonical_user e i u (or_else (get_prop body ''bio'') (JStr ''''))
                              (or_else (get_prop body ''skills'') (JArr [])) now)])]"
          by simp
        with Some WriteAck range show ?thesis by blast
      qed
    qed
  qed
qed

text \<open>
  C9. With the store client not initialised, each of the four data endpoints answers 500
  with the same body whatever the request and whatever the store would have replied: its
  whole trace is that one response, so it reads no field, calls no store operation and
  emits nothing.
\<close>

theorem uninitialised_store_fails_every_endpoint:
  "post_assignments e None now wr body =
     (None, [Respond 500 (error_body ''Database not initialized.'')])
   \<and> get_assignments e None rr =
     (None, [Respond 500 (error_body ''Database not initialized.'')])
   \<and> post_users e None now wr body =
     (None, [Respond 500 (error_body ''Database not initialized.'')])
   \<and> get_users e None rr =
     (None, [Respond 500 (error_body ''Database not initialized.'')])"
  by (simp add: post_assignments_def get_assignments_def post_users_def get_users_def)

theorem uninitialised_store_fails_every_endpoint_witness:
  "post_assignments sample_env None 0 (WriteAck ''a1'') sample_assignment_body =
     (None, [Respond 500 (error_body ''Database not initialized.'')])
   \<and> post_assignments sample_env None 0 WriteFail (JObj []) =
     (None, [Respond 500 (error_body ''Database not initialized.'')])
   \<and> get_assignments sample_env None ReadOk =
     (None, [Respond 500 (error_body ''Database not initialized.'')])
   \<and> post_users sample_env None 0 (WriteAck ''u1'') sample_user_body =
     (None, [Respond 500 (error_body ''Database not initialized.'')])
   \<and> get_users sample_env None ReadOk =
     (None, [Respond 500 (error_body ''Database not initialized.'')])"
  using uninitialised_store_fails_every_endpoint
    [of sample_env 0 "WriteAck ''a1''" sample_assignment_body ReadOk]
    uninitialised_store_fails_every_endpoint
    [of sample_env 0 WriteFail "JObj []" ReadOk]
    uninitialised_store_fails_every_endpoint
    [of sample_env 0 "WriteAck ''u1''" sample_user_body ReadOk]
  by simp

text \<open>
  C2. With the store initialised, a payload in which a required field is absent or falsy
  (one of gig_id, assignee_id, due_date, status for an assignment; username for a user
  profile) is answered 400; the trace holds nothing but that response, so no write and no
  broadcast happen, and the store is the one the handler started with.
\<close>

theorem missing_required_field_is_rejected:
  "(\<not> (truthy (get_prop body ''gig_id'') \<and> truthy (get_prop body ''assignee_id'')
        \<and> truthy (get_prop body ''due_date'') \<and> truthy (get_prop body ''status'')) \<longrightarrow>
      post_assignments e (Some st) now wr body =
        (Some st, [Respond 400 (error_body ''Missing required fields.'')]))
   \<and> (\<not> truthy (get_prop body ''username'') \<longrightarrow>
      post_users e (Some st) now wr body =
        (Some st, [Respond 400 (error_body ''Username is a required field.'')]))"
  by (auto simp add: post_assignments_def post_users_def Let_def)

theorem missing_required_field_is_rejected_witness:
  "post_assignments sample_env (Some empty_store) 0 (WriteAck ''a1'')
     (JObj [(''gig_id'', JNum 7), (''assignee_id'', JNum 3),
            (''due_date'', JStr ''2025-01-01'')]) =
     (Some empty_store, [Respond 400 (error_body ''Missing required fields.'')])
   \<and> post_users sample_env (Some empty_store) 0 (WriteAck ''u1'')
     (JObj [(''username'', JStr ''''), (''bio'', JStr ''hi'')]) =
     (Some empty_store, [Respond 400 (error_body ''Username is a required field.'')])"
  using missing_required_field_is_rejected
    [where body = "JObj [(''gig_id'', JNum 7), (''assignee_id'', JNum 3),
                         (''due_date'', JStr ''2025-01-01'')]"
       and e = sample_env and st = empty_store and now = 0 and wr = "WriteAck ''a1''",
     THEN conjunct1]
    missing_required_field_is_rejected
    [where body = "JObj [(''username'', JStr ''''), (''bio'', JStr ''hi'')]"
       and e = sample_env and st = empty_store and now = 0 and wr = "WriteAck ''u1''",
     THEN conjunct2]
  by simp

text \<open>A bio that is a non-empty string and skills that are an array are kept as submitted.\<close>

lemma or_else_kept:
  "b \<noteq> [] \<Longrightarrow> or_else (Some (JStr b)) (JStr []) = JStr b"
  "or_else (Some (JArr xs)) (JArr []) = JArr xs"
  "or_else (Some (JStr [])) (JStr []) = JStr []"
  "or_else None v = v"
  by (simp_all add: or_else_def)

text \<open>The sample dates are dates the store has timestamps for.\<close>

lemma sample_dates_in_store_range:
  "in_store_range 0" "in_store_range 1000" "in_store_range 1735689600000"
  by (simp_all add: in_store_range_def min_seconds_def max_seconds_def)

lemma sample_date:
  "parsed_date sample_env ''2025-01-01'' = Valid 1735689600000"
  "new_Date sample_env (JStr ''2025-01-01'') = Inr (Valid 1735689600000)"
  by (simp_all add: sample_env_def parsed_date_def TimeClip_def max_time_def)

lemma sample_paths:
  "assignments_path sample_env = ''artifacts/default-app-id/public/data/assignments''"
  "users_path sample_env = ''artifacts/default-app-id/public/data/users''"
  by (simp_all add: assignments_path_def users_path_def sample_env_def)

text \<open>
  C3. With the store initialised and acknowledging the write, a payload whose required
  fields are all truthy (and, for an assignment, whose due date is a valid date) is
  answered 201 with the canonical record: the submitted fields, the id the store assigned
  and the server's creation time, the times as \<^verbatim>\<open>toISOString\<close> text. The object emitted
  on the topic is that same record, and the document stored holds the same fields. The
  dates are dates the store has timestamps for (years 0001 to 9999): the store client
  refuses any other record, which the store then never acknowledges. For a user profile an
  absent or falsy bio or skills takes its default.
\<close>

theorem create_responds_with_canonical_record:
  "(get_prop body ''gig_id'' = Some g \<and> get_prop body ''assignee_id'' = Some a \<and>
    get_prop body ''due_date'' = Some d \<and> get_prop body ''status'' = Some s \<and>
    truthy (Some g) \<and> truthy (Some a) \<and> truthy (Some d) \<and> truthy (Some s) \<and>
    new_Date e d = Inr (Valid t) \<and> in_store_range t \<and> in_store_range now \<longrightarrow>
    post_assignments e (Some st) now (WriteAck i) body =
     (Some (st(assignments_path e := st (assignments_path e) @
               [(i, assignment_document now g a t s)])),
      [StoreAdd (assignments_path e) (newAssignment now g a (Valid t) s) (Inr i),
       Emit ''new_assignment'' (canonical_assignment e i g a t s now),
       Respond 201
         (JObj [(''message'', JStr ''Assignment added successfully''),
                (''assignment'', canonical_assignment e i g a t s now)])]))
  \<and> (get_prop body ''username'' = Some u \<and> truthy (Some u) \<and> in_store_range now \<longrightarrow>
    post_users e (Some st) now (WriteAck i) body =
     (Some (st(users_path e := st (users_path e) @
               [(i, user_document now u (or_else (get_prop body ''bio'') (JStr ''''))
                      (or_else (get_prop body ''skills'') (JArr [])))])),
      [StoreAdd (users_path e)
         (newUser now u (get_prop body ''bio'') (get_prop body ''skills'')) (Inr i),
       Emit ''new_user''
         (canonical_user e i u (or_else (get_prop body ''bio'') (JStr ''''))
            (or_else (get_prop body ''skills'') (JArr [])) now),
       Respond 201
         (JObj [(''message'', JStr ''User profile created successfully''),
                (''user'',
                 canonical_user e i u (or_else (get_prop body ''bio'') (JStr ''''))
                   (or_else (get_prop body ''skills'') (JArr [])) now)])]))"
  using post_assignments_ok post_users_ok by blast

theorem create_responds_with_canonical_record_witness:
  "snd (post_assignments sample_env (Some empty_store) 0 (WriteAck ''a1'')
          sample_assignment_body) =
     [StoreAdd ''artifacts/default-app-id/public/data/assignments''
        [(''gig_id'', VJson (JNum 7)), (''assignee_id'', VJson (JNum 3)),
         (''due_date'', VDate (Valid 1735689600000)), (''status'', VJson (JStr ''pending'')),
         (''created_at'', VDate (Valid 0))] (Inr ''a1''),
      Emit ''new_assignment''
        (JObj [(''id'', JStr ''a1''), (''gig_id'', JNum 7), (''assignee_id'', JNum 3),
               (''due_date'', JStr ''2025-01-01T00:00:00.000Z''), (''status'', JStr ''pending''),
               (''created_at'', JStr ''1970-01-01T00:00:00.000Z'')]),
      Respond 201
        (JObj [(''message'', JStr ''Assignment added successfully''),
               (''assignment'',
                JObj [(''id'', JStr ''a1''), (''gig_id'', JNum 7), (''assignee_id'', JNum 3),
                      (''due_date'', JStr ''2025-01-01T00:00:00.000Z''),
                      (''status'', JStr ''pending''),
                      (''created_at'', JStr ''1970-01-01T00:00:00.000Z'')])])]
   \<and> snd (post_users sample_env (Some empty_store) 0 (WriteAck ''u1'') sample_user_body) =
     [StoreAdd ''artifacts/default-app-id/public/data/users''
        [(''username'', VJson (JStr ''ana'')), (''bio'', VJson (JStr '''')),
         (''skills'', VJson (JArr [JStr ''go'', JStr ''rust''])),
         (''created_at'', VDate (Valid 0))] (Inr ''u1''),
      Emit ''new_user''
        (JObj [(''id'', JStr ''u1''), (''username'', JStr ''ana''), (''bio'', JStr ''''),
               (''skills'', JArr [JStr ''go'', JStr ''rust'']),
               (''created_at'', JStr ''1970-01-01T00:00:00.000Z'')]),
      Respond 201
        (JObj [(''message'', JStr ''User profile created successfully''),
               (''user'',
                JObj [(''id'', JStr ''u1''), (''username'', JStr ''ana''), (''bio'', JStr ''''),
                      (''skills'', JArr [JStr ''go'', JStr ''rust'']),
                      (''created_at'', JStr ''1970-01-01T00:00:00.000Z'')])])]
   \<and> fst (post_users sample_env (Some empty_store) 0 (WriteAck ''u1'') sample_user_body) =
     Some (empty_store(''artifacts/default-app-id/public/data/users'' :=
        [(''u1'',
          [(''username'', FsJson (JStr ''ana'')), (''bio'', FsJson (JStr '''')),
           (''skills'', FsJson (JArr [JStr ''go'', JStr ''rust''])),
           (''created_at'', FsTimestamp (Timestamp 0 0))])]))"
proof -
  have a: "get_prop sample_assignment_body ''gig_id'' = Some (JNum 7) \<and>
    get_prop sample_assignment_body ''assignee_id'' = Some (JNum 3) \<and>
    get_prop sample_assignment_body ''due_date'' = Some (JStr ''2025-01-01'') \<and>
    get_prop sample_assignment_body ''status'' = Some (JStr ''pending'') \<and>
    truthy (Some (JNum 7)) \<and> truthy (Some (JNum 3)) \<and> truthy (Some (JStr ''2025-01-01'')) \<and>
    truthy (Some (JStr ''pending'')) \<and>
    new_Date sample_env (JStr ''2025-01-01'') = Inr (Valid 1735689600000) \<and>
    in_store_range 1735689600000 \<and> in_store_range 0"
    by (simp add: sample_assignment_body_def sample_date sample_dates_in_store_range)
  have u: "get_prop sample_user_body ''username'' = Some (JStr ''ana'') \<and>
    truthy (Some (JStr ''ana'')) \<and> in_store_range 0"
    by (simp add: sample_user_body_def sample_dates_in_store_range)
  note inst1 = create_responds_with_canonical_record
    [where body = sample_assignment_body and g = "JNum 7" and a = "JNum 3"
       and d = "JStr ''2025-01-01''" and s = "JStr ''pending''" and e = sample_env
       and t = 1735689600000 and st = empty_store and now = 0 and i = "''a1''", THEN conjunct1]
  note inst2 = create_responds_with_canonical_record
    [where body = sample_user_body and u = "JStr ''ana''" and e = sample_env
       and st = empty_store and now = 0 and i = "''u1''", THEN conjunct2]
  from inst1 a have run1: "post_assignments sample_env (Some empty_store) 0 (WriteAck ''a1'')
      sample_assignment_body =
     (Some (empty_store(assignments_path sample_env := empty_store (assignments_path sample_env) @
               [(''a1'', assignment_document 0 (JNum 7) (JNum 3) 1735689600000
                           (JStr ''pending''))])),
      [StoreAdd (assignments_path sample_env)
         (newAssignment 0 (JNum 7) (JNum 3) (Valid 1735689600000) (JStr ''pending''))
         (Inr ''a1''),
       Emit ''new_assignment''
         (canonical_assignment sample_env ''a1'' (JNum 7) (JNum 3) 1735689600000
            (JStr ''pending'') 0),
       Respond 201
         (JObj [(''message'', JStr ''Assignment added successfully''),
                (''assignment'',
                 canonical_assignment sample_env ''a1'' (JNum 7) (JNum 3) 1735689600000
                   (JStr ''pending'') 0)])])"
    by (rule mp)
  from inst2 u have run2: "post_users sample_env (Some empty_store) 0 (WriteAck ''u1'')
      sample_user_body =
     (Some (empty_store(users_path sample_env := empty_store (users_path sample_env) @
               [(''u1'', user_document 0 (JStr ''ana'')
                      (or_else (get_prop sample_user_body ''bio'') (JStr ''''))
                      (or_else (get_prop sample_user_body ''skills'') (JArr [])))])),
      [StoreAdd (users_path sample_env)
         (newUser 0 (JStr ''ana'') (get_prop sample_user_body ''bio'')
            (get_prop sample_user_body ''skills'')) (Inr ''u1''),
       Emit ''new_user''
         (canonical_user sample_env ''u1'' (JStr ''ana'')
            (or_else (get_prop sample_user_body ''bio'') (JStr ''''))
            (or_else (get_prop sample_user_body ''skills'') (JArr [])) 0),
       Respond 201
         (JObj [(''message'', JStr ''User profile created successfully''),
                (''user'',
                 canonical_user sample_env ''u1'' (JStr ''ana'')
                   (or_else (get_prop sample_user_body ''bio'') (JStr ''''))
                   (or_else (get_prop sample_user_body ''skills'') (JArr [])) 0)])])"
    by (rule mp)
  show ?thesis
    unfolding run1 run2
    by (simp add: canonical_assignment_def canonical_user_def newAssignment_def newUser_def
        sample_paths sample_user_body_def or_else_def user_document_def
        timestamp_of_def empty_store_def)
       (simp add: sample_env_def)
qed

text \<open>
  C1. In every run of a create handler: if the write was attempted and failed, the store
  is unchanged, nothing is emitted and the last effect is the 500 response; and if a
  record is emitted, the trace is exactly the acknowledged write of a record, then the
  broadcast, then the response, the store holds the document of that record under the id
  the store assigned, and the emitted record carries that id. So a broadcast comes only
  after an acknowledged write, of the record that was written.
\<close>

theorem broadcast_only_after_acknowledged_write:
  assumes "post_assignments e db now reply body = (db', tr)
         \<or> post_users e db now reply body = (db', tr)"
  shows "(\<forall>p ob err. StoreAdd p ob (Inl err) \<in> set tr \<longrightarrow>
            db' = db \<and> (\<forall>topic r. Emit topic r \<notin> set tr) \<and>
            last tr = Respond 500 (error_body ''Internal server error.''))
       \<and> (\<forall>topic r. Emit topic r \<in> set tr \<longrightarrow>
            (\<exists>st p ob doc i response.
               reply = WriteAck i \<and> db = Some st \<and> encode_document ob = Inr doc \<and>
               db' = Some (st(p := st p @ [(i, doc)])) \<and>
               tr = [StoreAdd p ob (Inr i), Emit topic r, response] \<and>
               get_prop r ''id'' = Some (JStr i)))"
  using assms
proof
  assume "post_assignments e db now reply body = (db', tr)"
  from post_assignments_cases [OF this] show ?thesis
  proof (elim disjE exE conjE)
    fix st i g a d s t
    assume run: "reply = WriteAck i" "db = Some st" "in_store_range t" "in_store_range now"
      "db' = Some (st(assignments_path e := st (assignments_path e) @
                     [(i, assignment_document now g a t s)]))"
      "tr = [StoreAdd (assignments_path e) (newAssignment now g a (Valid t) s) (Inr i),
                  Emit ''new_assignment'' (canonical_assignment e i g a t s now),
                  Respond 201 (JObj [(''message'', JStr ''Assignment added successfully''),
                                     (''assignment'', canonical_assignment e i g a t s now)])]"
    have "encode_document (newAssignment now g a (Valid t) s) =
            Inr (assignment_document now g a t s)"
      using run(3,4) by (rule encode_newAssignment)
    moreover have "get_prop (canonical_assignment e i g a t s now) ''id'' = Some (JStr i)"
      by (simp add: canonical_assignment_def)
    ultimately show ?thesis
      using run by auto
  qed auto
next
  assume "post_users e db now reply body = (db', tr)"
  from post_users_cases [OF this] show ?thesis
  proof (elim disjE exE conjE)
    fix st i u
    assume run: "reply = WriteAck i" "db = Some st" "in_store_range now"
      "db' = Some (st(users_path e := st (users_path e) @
                     [(i, user_document now u (or_else (get_prop body ''bio'') (JStr ''''))
                            (or_else (get_prop body ''skills'') (JArr [])))]))"
      "tr = [StoreAdd (users_path e)
                    (newUser now u (get_prop body ''bio'') (get_prop body ''skills'')) (Inr i),
                  Emit ''new_user''
                    (canonical_user e i u (or_else (get_prop body ''bio'') (JStr ''''))
                       (or_else (get_prop body ''skills'') (JArr [])) now),
                  Respond 201
                    (JObj [(''message'', JStr ''User profile created successfully''),
                           (''user'',
                            canonical_user e i u (or_else (get_prop body ''bio'') (JStr ''''))
                              (or_else (get_prop body ''skills'') (JArr [])) now)])]"
    have "encode_document (newUser now u (get_prop body ''bio'') (get_prop body ''skills'')) =
            Inr (user_document now u (or_else (get_prop body ''bio'') (JStr ''''))
                            (or_else (get_prop body ''skills'') (JArr [])))"
      using run(3) by (rule encode_newUser)
    moreover have "get_prop (canonical_user e i u (or_else (get_prop body ''bio'') (JStr ''''))
                       (or_else (get_prop body ''skills'') (JArr [])) now) ''id'' = Some (JStr i)"
      by (simp add: canonical_user_def)
    ultimately show ?thesis
      using run by auto
  qed auto
qed

theorem broadcast_only_after_acknowledged_write_witness:
  "Emit ''new_user''
      (canonical_user sample_env ''u1'' (JStr ''ana'') (JStr '''')
         (JArr [JStr ''go'', JStr ''rust'']) 0)
     \<in> set (snd (post_users sample_env (Some empty_store) 0 (WriteAck ''u1'') sample_user_body))
   \<and> (\<exists>st p ob doc response.
         Some empty_store = Some st \<and> encode_document ob = Inr doc \<and>
         fst (post_users sample_env (Some empty_store) 0 (WriteAck ''u1'') sample_user_body) =
           Some (st(p := st p @ [(''u1'', doc)])) \<and>
         snd (post_users sample_env (Some empty_store) 0 (WriteAck ''u1'') sample_user_body) =
           [StoreAdd p ob (Inr ''u1''),
            Emit ''new_user''
              (canonical_user sample_env ''u1'' (JStr ''ana'') (JStr '''')
                 (JArr [JStr ''go'', JStr ''rust'']) 0),
            response])
   \<and> StoreAdd (users_path sample_env)
        (newUser 0 (JStr ''ana'') (Some (JStr '''')) (Some (JArr [JStr ''go'', JStr ''rust''])))
        (Inl StorageError)
     \<in> set (snd (post_users sample_env (Some empty_store) 0 WriteFail sample_user_body))
   \<and> fst (post_users sample_env (Some empty_store) 0 WriteFail sample_user_body) = Some empty_store
   \<and> last (snd (post_users sample_env (Some empty_store) 0 WriteFail sample_user_body)) =
       Respond 500 (error_body ''Internal server error.'')"
proof -
  let ?ok = "post_users sample_env (Some empty_store) 0 (WriteAck ''u1'') sample_user_body"
  let ?ko = "post_users sample_env (Some empty_store) 0 WriteFail sample_user_body"
  let ?r = "canonical_user sample_env ''u1'' (JStr ''ana'') (JStr '''')
              (JArr [JStr ''go'', JStr ''rust'']) 0"
  have encoded: "encode_document
      (newUser 0 (JStr ''ana'') (Some (JStr '''')) (Some (JArr [JStr ''go'', JStr ''rust'']))) =
      Inr (user_document 0 (JStr ''ana'') (JStr '''') (JArr [JStr ''go'', JStr ''rust'']))"
    using encode_newUser [OF sample_dates_in_store_range(1)] by (simp add: or_else_def)
  have emitted: "Emit ''new_user'' ?r \<in> set (snd ?ok)"
    by (simp add: post_users_def sample_user_body_def Let_def createdUser_def newUser_def
        obj_set_def spread_def wire_def canonical_user_def or_else_def collection_add_def
        encoded [unfolded newUser_def or_else_def, simplified])
  have failed: "StoreAdd (users_path sample_env)
        (newUser 0 (JStr ''ana'') (Some (JStr '''')) (Some (JArr [JStr ''go'', JStr ''rust''])))
        (Inl StorageError) \<in> set (snd ?ko)"
    by (simp add: post_users_def sample_user_body_def Let_def collection_add_def encoded)
  have ok: "post_assignments sample_env (Some empty_store) 0 (WriteAck ''u1'') sample_user_body
              = (fst ?ok, snd ?ok) \<or> ?ok = (fst ?ok, snd ?ok)"
    by simp
  have ko: "post_assignments sample_env (Some empty_store) 0 WriteFail sample_user_body
              = (fst ?ko, snd ?ko) \<or> ?ko = (fst ?ko, snd ?ko)"
    by simp
  from broadcast_only_after_acknowledged_write [OF ok] emitted
  have "\<exists>st p ob doc i response.
          WriteAck ''u1'' = WriteAck i \<and> Some empty_store = Some st \<and>
          encode_document ob = Inr doc \<and>
          fst ?ok = Some (st(p := st p @ [(i, doc)])) \<and>
          snd ?ok = [StoreAdd p ob (Inr i), Emit ''new_user'' ?r, response] \<and>
          get_prop ?r ''id'' = Some (JStr i)"
    by blast
  then have after: "\<exists>st p ob doc response.
          Some empty_store = Some st \<and> encode_document ob = Inr doc \<and>
          fst ?ok = Some (st(p := st p @ [(''u1'', doc)])) \<and>
          snd ?ok = [StoreAdd p ob (Inr ''u1''), Emit ''new_user'' ?r, response]"
    by auto
  from broadcast_only_after_acknowledged_write [OF ko] failed
  have "fst ?ko = Some empty_store \<and>
        last (snd ?ko) = Respond 500 (error_body ''Internal server error.'')"
    by blast
  with emitted after failed show ?thesis by blast
qed

text \<open>
  C7, as stated, fails: for the payload with due date \<^verbatim>\<open>"soon"\<close> and a store ready to
  acknowledge, the store client refuses the record, whose date has no timestamp, before
  anything is written. The handler answers 500 and the store is as it was.
\<close>

theorem unparseable_due_date_leaves_store_unchanged:
  "post_assignments sample_env (Some empty_store) 0 (WriteAck ''a1'')
     (JObj [(''gig_id'', JNum 7), (''assignee_id'', JNum 3), (''due_date'', JStr ''soon''),
            (''status'', JStr ''pending'')]) =
     (Some empty_store,
      [StoreAdd ''artifacts/default-app-id/public/data/assignments''
         [(''gig_id'', VJson (JNum 7)), (''assignee_id'', VJson (JNum 3)),
          (''due_date'', VDate InvalidDate), (''status'', VJson (JStr ''pending'')),
          (''created_at'', VDate (Valid 0))] (Inl ArgumentError),
       LogError ''Error adding assignment:'' ArgumentError,
       Respond 500 (error_body ''Internal server error.'')])"
proof -
  have "new_Date sample_env (JStr ''soon'') = Inr InvalidDate"
    by (simp add: sample_env_def parsed_date_def)
  then have "post_assignments sample_env (Some empty_store) 0 (WriteAck ''a1'')
     (JObj [(''gig_id'', JNum 7), (''assignee_id'', JNum 3), (''due_date'', JStr ''soon''),
            (''status'', JStr ''pending'')]) =
     (Some empty_store,
      [StoreAdd (assignments_path sample_env)
         (newAssignment 0 (JNum 7) (JNum 3) InvalidDate (JStr ''pending''))
         (Inl ArgumentError),
       LogError ''Error adding assignment:'' ArgumentError,
       Respond 500 (error_body ''Internal server error.'')])"
    by (intro post_assignments_invalid_date [where d = "JStr ''soon''"]) simp_all
  then show ?thesis
    by (simp add: sample_paths newAssignment_def)
qed

text \<open>
  C7, amended. For every assignment payload whose four required fields are truthy and
  whose due date is a non-empty string that \<^verbatim>\<open>Date.parse\<close> does not accept, and whatever
  the store would reply: the store client refuses the record before anything is written,
  so the handler logs that error and answers 500, nothing is emitted, \<^verbatim>\<open>toISOString\<close> is
  not reached and the store is left unchanged.
\<close>

theorem unparseable_due_date_is_refused_before_write:
  assumes "get_prop body ''gig_id'' = Some g" and "truthy (Some g)"
    and "get_prop body ''assignee_id'' = Some a" and "truthy (Some a)"
    and "get_prop body ''status'' = Some s" and "truthy (Some s)"
    and "get_prop body ''due_date'' = Some (JStr d)" and "d \<noteq> []"
    and "Date_parse e d = None"
  shows "post_assignments e (Some st) now reply body =
     (Some st,
      [StoreAdd (assignments_path e) (newAssignment now g a InvalidDate s) (Inl ArgumentError),
       LogError ''Error adding assignment:'' ArgumentError,
       Respond 500 (error_body ''Internal server error.'')])"
proof -
  have "new_Date e (JStr d) = Inr InvalidDate"
    using assms(9) by (simp add: parsed_date_def)
  moreover have "truthy (Some (JStr d))"
    using assms(8) by simp
  ultimately show ?thesis
    using assms post_assignments_invalid_date by blast
qed

theorem unparseable_due_date_is_refused_before_write_witness:
  "post_assignments sample_env (Some sample_store) 1000 (WriteAck ''a3'')
     (JObj [(''gig_id'', JNum 9), (''assignee_id'', JNum 3), (''due_date'', JStr ''tomorrow''),
            (''status'', JStr ''pending'')]) =
     (Some sample_store,
      [StoreAdd ''artifacts/default-app-id/public/data/assignments''
         [(''gig_id'', VJson (JNum 9)), (''assignee_id'', VJson (JNum 3)),
          (''due_date'', VDate InvalidDate), (''status'', VJson (JStr ''pending'')),
          (''created_at'', VDate (Valid 1000))] (Inl ArgumentError),
       LogError ''Error adding assignment:'' ArgumentError,
       Respond 500 (error_body ''Internal server error.'')])
   \<and> post_assignments sample_env (Some sample_store) 1000 WriteFail
     (JObj [(''gig_id'', JNum 9), (''assignee_id'', JNum 3), (''due_date'', JStr ''tomorrow''),
            (''status'', JStr ''pending'')]) =
     (Some sample_store,
      [StoreAdd ''artifacts/default-app-id/public/data/assignments''
         [(''gig_id'', VJson (JNum 9)), (''assignee_id'', VJson (JNum 3)),
          (''due_date'', VDate InvalidDate), (''status'', VJson (JStr ''pending'')),
          (''created_at'', VDate (Valid 1000))] (Inl ArgumentError),
       LogError ''Error adding assignment:'' ArgumentError,
       Respond 500 (error_body ''Internal server error.'')])"
proof -
  let ?body = "JObj [(''gig_id'', JNum 9), (''assignee_id'', JNum 3),
                     (''due_date'', JStr ''tomorrow''), (''status'', JStr ''pending'')]"
  have unparsed: "Date_parse sample_env ''tomorrow'' = None"
    by (simp add: sample_env_def)
  have refused: "post_assignments sample_env (Some sample_store) 1000 reply ?body =
     (Some sample_store,
      [StoreAdd (assignments_path sample_env)
         (newAssignment 1000 (JNum 9) (JNum 3) InvalidDate (JStr ''pending''))
         (Inl ArgumentError),
       LogError ''Error adding assignment:'' ArgumentError,
       Respond 500 (error_body ''Internal server error.'')])" for reply
    by (rule unparseable_due_date_is_refused_before_write [OF _ _ _ _ _ _ _ _ unparsed])
       simp_all
  show ?thesis
    by (simp add: refused sample_paths newAssignment_def)
qed

text \<open>
  More generally a create handler changes the store only on the run that emits the
  record and answers 201.
\<close>

lemma create_changes_store_only_with_broadcast:
  assumes "post_assignments e db now reply body = (db', tr)
         \<or> post_users e db now reply body = (db', tr)"
    and "db' \<noteq> db"
  shows "\<exists>topic r body'. tr = [hd tr, Emit topic r, Respond 201 body']"
  using assms(1)
proof
  assume "post_assignments e db now reply body = (db', tr)"
  from post_assignments_cases [OF this] assms(2) show ?thesis
    by (elim disjE exE conjE) auto
next
  assume "post_users e db now reply body = (db', tr)"
  from post_users_cases [OF this] assms(2) show ?thesis
    by (elim disjE exE conjE) auto
qed

section \<open>The list handlers\<close>

text \<open>Dates survive the store's timestamps.\<close>

lemma round_millis: "(m * 1000000 + 500000) div 1000000 = (m::int)"
proof -
  have "(m * 1000000 + 500000) div 1000000 = m + 500000 div (1000000::int)"
    by (rule div_mult_self3) simp
  also have "500000 div (1000000::int) = 0" by simp
  finally show ?thesis by simp
qed

lemma toDate_timestamp_of: "toDate (timestamp_of ms) = TimeClip ms"
proof -
  have "ms div 1000 * 1000 + (ms - ms div 1000 * 1000) = ms"
    by simp
  then show ?thesis
    by (simp only: timestamp_of_def toDate.simps round_millis)
qed

lemma in_store_range_is_time_value:
  assumes "in_store_range ms"
  shows "\<bar>ms\<bar> \<le> max_time"
proof -
  have split: "ms = ms div 1000 * 1000 + ms mod 1000"
    by simp
  have "0 \<le> ms mod 1000" and "ms mod 1000 < 1000"
    by simp_all
  moreover from assms have "- 62135596800 \<le> ms div 1000" and "ms div 1000 \<le> 253402300799"
    by (simp_all add: in_store_range_def min_seconds_def max_seconds_def)
  ultimately have "- 62135596800000 \<le> ms" and "ms \<le> 253402300799999"
    using split by linarith+
  then show ?thesis
    by (simp add: max_time_def)
qed

lemma timestamp_roundtrip:
  assumes "in_store_range ms"
  shows "toDate (timestamp_of ms) = Valid ms"
  using in_store_range_is_time_value [OF assms]
  by (simp only: toDate_timestamp_of TimeClip_def) simp

lemma stored_date_reads_back:
  assumes "Timestamp_fromDate d = Inr ts"
  shows "toDate ts = d"
proof -
  from Timestamp_fromDate_Inr [OF assms] obtain ms
    where "d = Valid ms" "in_store_range ms" "ts = timestamp_of ms" by blast
  then show ?thesis
    by (simp only: timestamp_roundtrip)
qed

lemma normalised_timestamp_of: "normalised (timestamp_of ms)"
proof -
  have "0 \<le> ms mod 1000" and "ms mod 1000 < 1000"
    by simp_all
  moreover have "ms - ms div 1000 * 1000 = ms mod 1000"
    by (simp add: minus_div_mult_eq_mod)
  ultimately show ?thesis
    by (simp add: timestamp_of_def)
qed

text \<open>A map that may throw.\<close>

lemma map_throwing_sound:
  "map_throwing f xs = Inr ys \<Longrightarrow> list_all2 (\<lambda>x y. f x = Inr y) xs ys"
  by (induction xs arbitrary: ys) (auto split: sum.splits)

lemma map_throwing_complete:
  "list_all2 (\<lambda>x y. f x = Inr y) xs ys \<Longrightarrow> map_throwing f xs = Inr ys"
  by (induction rule: list_all2_induct) auto

lemma map_throwing_Inr:
  "map_throwing f xs = Inr ys \<longleftrightarrow> list_all2 (\<lambda>x y. f x = Inr y) xs ys"
  using map_throwing_sound map_throwing_complete by blast

lemma map_throwing_total:
  assumes "\<forall>x \<in> set xs. \<not> isl (f x)"
  shows "\<exists>ys. map_throwing f xs = Inr ys"
  using assms
proof (induction xs)
  case Nil
  then show ?case by simp
next
  case (Cons x xs)
  then obtain y ys where "f x = Inr y" "map_throwing f xs = Inr ys"
    by (cases "f x") auto
  then show ?case by simp
qed

text \<open>The store's ordered query.\<close>

lemma set_orderBy_desc: "set (orderBy_desc f ds) = {d \<in> set ds. has_field f d}"
  by (simp add: orderBy_desc_def)

lemma mset_orderBy_desc: "mset (orderBy_desc f ds) = filter_mset (has_field f) (mset ds)"
  by (simp add: orderBy_desc_def)

lemma sorted_orderBy_desc:
  "sorted_wrt (\<lambda>x y. field_key f x \<ge> field_key f y) (orderBy_desc f ds)"
proof -
  have "sorted (map (field_key f) (sort_key (field_key f) (filter (has_field f) ds)))"
    by simp
  then have "sorted_wrt (\<lambda>x y. field_key f x \<le> field_key f y)
               (sort_key (field_key f) (filter (has_field f) ds))"
    by (simp add: sorted_wrt_map)
  then show ?thesis
    by (simp add: orderBy_desc_def sorted_wrt_rev)
qed

text \<open>The runs of the two list handlers that answer 200.\<close>

lemma get_assignments_200:
  assumes "get_assignments e (Some st) reply = (db', tr)" and "Respond 200 (JArr rs) \<in> set tr"
  shows "reply = ReadOk \<and> db' = Some st \<and>
         list_all2 (\<lambda>d r. assignment_of_doc e d = Inr r)
           (orderBy_desc ''created_at'' (st (assignments_path e))) rs \<and>
         tr = [StoreGet (assignments_path e)
                 (Inr (orderBy_desc ''created_at'' (st (assignments_path e)))),
               Respond 200 (JArr rs)]"
  using assms
  by (cases reply)
     (auto simp: get_assignments_def error_body_def map_throwing_Inr split: sum.splits)

lemma get_users_200:
  assumes "get_users e (Some st) reply = (db', tr)" and "Respond 200 (JArr rs) \<in> set tr"
  shows "reply = ReadOk \<and> db' = Some st \<and>
         list_all2 (\<lambda>d r. user_of_doc e d = Inr r)
           (orderBy_desc ''created_at'' (st (users_path e))) rs \<and>
         tr = [StoreGet (users_path e) (Inr (orderBy_desc ''created_at'' (st (users_path e)))),
               Respond 200 (JArr rs)]"
  using assms
  by (cases reply)
     (auto simp: get_users_def error_body_def map_throwing_Inr split: sum.splits)

lemma get_assignments_answers:
  assumes "\<forall>d \<in> set (st (assignments_path e)). \<not> isl (assignment_of_doc e d)"
  shows "\<exists>rs. get_assignments e (Some st) ReadOk =
                (Some st,
                 [StoreGet (assignments_path e)
                    (Inr (orderBy_desc ''created_at'' (st (assignments_path e)))),
                  Respond 200 (JArr rs)])"
proof -
  from assms
  have "\<forall>d \<in> set (orderBy_desc ''created_at'' (st (assignments_path e))).
          \<not> isl (assignment_of_doc e d)"
    by (simp add: set_orderBy_desc)
  from map_throwing_total [OF this] show ?thesis
    by (auto simp: get_assignments_def)
qed

lemma get_users_answers:
  assumes "\<forall>d \<in> set (st (users_path e)). \<not> isl (user_of_doc e d)"
  shows "\<exists>rs. get_users e (Some st) ReadOk =
                (Some st,
                 [StoreGet (users_path e) (Inr (orderBy_desc ''created_at'' (st (users_path e)))),
                  Respond 200 (JArr rs)])"
proof -
  from assms
  have "\<forall>d \<in> set (orderBy_desc ''created_at'' (st (users_path e))). \<not> isl (user_of_doc e d)"
    by (simp add: set_orderBy_desc)
  from map_throwing_total [OF this] show ?thesis
    by (auto simp: get_users_def)
qed

text \<open>The documents the create handlers store, read by the list handlers.\<close>

lemma assignment_of_written_doc:
  assumes "in_store_range t" and "in_store_range now"
  shows "assignment_of_doc e (i, assignment_document now g a t s) =
           Inr (canonical_assignment e i g a t s now)"
  using timestamp_roundtrip [OF assms(1)] timestamp_roundtrip [OF assms(2)]
  by (simp add: assignment_of_doc_def field_iso_def data_def assignment_document_def
      obj_set_def spread_def wire_def canonical_assignment_def)

lemma user_of_written_doc:
  assumes "in_store_range now"
  shows "user_of_doc e (i, user_document now u b k) = Inr (canonical_user e i u b k now)"
  using timestamp_roundtrip [OF assms]
  by (simp add: user_of_doc_def field_iso_def data_def user_document_def
      obj_set_def spread_def wire_def canonical_user_def)

lemma written_docs_have_created_at:
  "has_field ''created_at'' (i, assignment_document now g a t s)"
  "has_field ''created_at'' (i, user_document now u b k)"
  by (simp_all add: has_field_def assignment_document_def user_document_def)

lemma written_docs_are_normalised:
  "normalised_field ''created_at'' (i, assignment_document now g a t s)"
  "normalised_field ''created_at'' (i, user_document now u b k)"
  by (simp_all add: normalised_field_def assignment_document_def user_document_def
      normalised_timestamp_of)

lemma listed_element:
  assumes "list_all2 (\<lambda>d r. f d = Inr r) ds rs" and "d \<in> set ds" and "f d = Inr r"
  shows "r \<in> set rs"
  using assms by (induction rule: list_all2_induct) auto

text \<open>The creation time an element of the answer carries.\<close>

lemma map_of_obj_set_same: "map_of (obj_set ob k v) k = Some v"
proof (cases "k \<in> set (map fst ob)")
  case True
  then show ?thesis
    by (induction ob) (auto simp: obj_set_def)
next
  case False
  then have "map_of ob k = None"
    by (simp add: map_of_eq_None_iff)
  with False show ?thesis
    by (simp add: obj_set_def map_add_def)
qed

lemma get_prop_wire: "get_prop (wire e ob) k = map_option (to_json e) (map_of ob k)"
  by (simp add: wire_def map_of_map)

lemma map_of_data: "map_of (data d) k = map_option decode_value (map_of d k)"
  by (simp add: data_def map_of_map)

lemma field_iso_Inr:
  assumes "field_iso e d f = Inr text"
  shows "\<exists>ts t. map_of d f = Some (FsTimestamp ts) \<and> toDate ts = Valid t \<and> text = ISO e t"
proof -
  from assms obtain ts where ts: "map_of (data d) f = Some (VTimestamp ts)"
    and iso: "toISOString e (toDate ts) = Inr text"
    by (auto simp: field_iso_def split: option.splits jsvalue.splits)
  from ts have "map_of d f = Some (FsTimestamp ts)"
    by (cases "map_of d f") (auto simp: map_of_data elim: decode_value.elims)
  moreover from iso obtain t where "toDate ts = Valid t" "text = ISO e t"
    by (cases "toDate ts") auto
  ultimately show ?thesis by blast
qed

lemma assignment_of_doc_created:
  assumes "assignment_of_doc e d = Inr r"
  shows "\<exists>ts t. map_of (snd d) ''created_at'' = Some (FsTimestamp ts) \<and> toDate ts = Valid t \<and>
           get_prop r ''created_at'' = Some (JStr (ISO e t))"
proof -
  from assms obtain due_text created_text
    where created: "field_iso e (snd d) ''created_at'' = Inr created_text"
      and r: "r = wire e
                 (obj_set (obj_set (spread [(''id'', VJson (JStr (fst d)))] (data (snd d)))
                    ''due_date'' (VJson (JStr due_text)))
                    ''created_at'' (VJson (JStr created_text)))"
    by (auto simp: assignment_of_doc_def split: sum.splits)
  from r have "get_prop r ''created_at'' = Some (JStr created_text)"
    by (simp add: get_prop_wire map_of_obj_set_same)
  with field_iso_Inr [OF created] show ?thesis by auto
qed

lemma user_of_doc_created:
  assumes "user_of_doc e d = Inr r"
  shows "\<exists>ts t. map_of (snd d) ''created_at'' = Some (FsTimestamp ts) \<and> toDate ts = Valid t \<and>
           get_prop r ''created_at'' = Some (JStr (ISO e t))"
proof -
  from assms obtain created_text
    where created: "field_iso e (snd d) ''created_at'' = Inr created_text"
      and r: "r = wire e
                 (obj_set (spread [(''id'', VJson (JStr (fst d)))] (data (snd d)))
                    ''created_at'' (VJson (JStr created_text)))"
    by (auto simp: user_of_doc_def split: sum.splits)
  from r have "get_prop r ''created_at'' = Some (JStr created_text)"
    by (simp add: get_prop_wire map_of_obj_set_same)
  with field_iso_Inr [OF created] show ?thesis by auto
qed

text \<open>The store's order on normalised timestamps is the order of their dates.\<close>

lemma round_nonneg: "0 \<le> n \<Longrightarrow> 0 \<le> (n + 500000) div (1000000::int)"
  by (simp add: pos_imp_zdiv_nonneg_iff)

lemma round_le_second: "n < 1000000000 \<Longrightarrow> (n + 500000) div (1000000::int) \<le> 1000"
proof -
  assume "n < 1000000000"
  then have "n + 500000 \<le> 1000499999" by simp
  then have "(n + 500000) div 1000000 \<le> 1000499999 div (1000000::int)"
    by (rule zdiv_mono1) simp
  then show ?thesis by simp
qed

lemma round_mono: "n \<le> n' \<Longrightarrow> (n + 500000) div (1000000::int) \<le> (n' + 500000) div 1000000"
  by (rule zdiv_mono1) simp_all

lemma timestamp_order_is_time_order:
  assumes "normalised (Timestamp s n)" and "normalised (Timestamp s' n')"
    and "order_key (FsTimestamp (Timestamp s' n')) \<le> order_key (FsTimestamp (Timestamp s n))"
  shows "s' * 1000 + (n' + 500000) div 1000000 \<le> s * 1000 + (n + 500000) div 1000000"
proof -
  from assms(3) have "s' < s \<or> s' = s \<and> n' \<le> n"
    by auto
  then show ?thesis
  proof
    assume "s' < s"
    then have "s' * 1000 + 1000 \<le> s * 1000" by simp
    moreover have "(n' + 500000) div 1000000 \<le> 1000"
      using assms(2) by (simp add: round_le_second)
    moreover have "0 \<le> (n + 500000) div 1000000"
      using assms(1) by (simp add: round_nonneg)
    ultimately show ?thesis by linarith
  next
    assume "s' = s \<and> n' \<le> n"
    then show ?thesis by (simp add: round_mono)
  qed
qed

lemma created_time_mono:
  assumes "map_of (snd x) ''created_at'' = Some (FsTimestamp tx)" and "toDate tx = Valid t1"
    and "map_of (snd y) ''created_at'' = Some (FsTimestamp ty)" and "toDate ty = Valid t2"
    and "normalised tx" and "normalised ty"
    and "field_key ''created_at'' y \<le> field_key ''created_at'' x"
  shows "created_time y \<le> created_time x"
proof -
  obtain s n where tx: "tx = Timestamp s n"
    by (cases tx) auto
  obtain s' n' where ty: "ty = Timestamp s' n'"
    by (cases ty) auto
  from assms(2) tx have t1: "t1 = s * 1000 + (n + 500000) div 1000000"
    by (auto simp: TimeClip_def split: if_splits)
  from assms(4) ty have t2: "t2 = s' * 1000 + (n' + 500000) div 1000000"
    by (auto simp: TimeClip_def split: if_splits)
  from assms(1,3,7) tx ty
  have "order_key (FsTimestamp (Timestamp s' n')) \<le> order_key (FsTimestamp (Timestamp s n))"
    by (simp add: field_key_def)
  with assms(5,6) tx ty have "t2 \<le> t1"
    unfolding t1 t2 by (simp only: timestamp_order_is_time_order)
  moreover have "created_time x = t1" "created_time y = t2"
    using assms(1-4) by (simp_all add: created_time_def)
  ultimately show ?thesis by simp
qed

lemma listed_created_times:
  assumes "list_all2 (\<lambda>d r. \<exists>ts t. map_of (snd d) ''created_at'' = Some (FsTimestamp ts) \<and>
              toDate ts = Valid t \<and> get_prop r ''created_at'' = Some (JStr (ISO e t))) ds rs"
  shows "map (\<lambda>r. get_prop r ''created_at'') rs =
           map (\<lambda>t. Some (JStr (ISO e t))) (map created_time ds)"
  using assms
  by (induction rule: list_all2_induct) (auto simp: created_time_def)

lemma sorted_by_created_time:
  assumes all: "list_all2 (\<lambda>d r. \<exists>ts t. map_of (snd d) ''created_at'' = Some (FsTimestamp ts) \<and>
              toDate ts = Valid t \<and> get_prop r ''created_at'' = Some (JStr (ISO e t)))
            (orderBy_desc ''created_at'' docs) rs"
    and norm: "\<forall>d \<in> set docs. normalised_field ''created_at'' d"
  shows "sorted_wrt (\<lambda>a b. created_time b \<le> created_time a) (orderBy_desc ''created_at'' docs)"
proof (rule sorted_wrt_mono_rel [OF _ sorted_orderBy_desc])
  fix x y
  assume x: "x \<in> set (orderBy_desc ''created_at'' docs)"
    and y: "y \<in> set (orderBy_desc ''created_at'' docs)"
    and key: "field_key ''created_at'' y \<le> field_key ''created_at'' x"
  from all x obtain tx t1 where tx: "map_of (snd x) ''created_at'' = Some (FsTimestamp tx)"
    "toDate tx = Valid t1"
    by (induction rule: list_all2_induct) auto
  from all y obtain ty t2 where ty: "map_of (snd y) ''created_at'' = Some (FsTimestamp ty)"
    "toDate ty = Valid t2"
    by (induction rule: list_all2_induct) auto
  from x norm tx have "normalised tx"
    by (auto simp: set_orderBy_desc normalised_field_def)
  moreover from y norm ty have "normalised ty"
    by (auto simp: set_orderBy_desc normalised_field_def)
  ultimately show "created_time y \<le> created_time x"
    using tx ty key by (blast intro: created_time_mono)
qed

text \<open>An answer built from the ordered documents carries their creation times, in order.\<close>

lemma rendered_list_is_ordered:
  assumes rendered: "list_all2 (\<lambda>d r. of_doc d = Inr r) (orderBy_desc ''created_at'' docs) rs"
    and created: "\<And>d r. of_doc d = Inr r \<Longrightarrow>
      \<exists>ts t. map_of (snd d) ''created_at'' = Some (FsTimestamp ts) \<and> toDate ts = Valid t \<and>
         get_prop r ''created_at'' = Some (JStr (ISO e t))"
    and norm: "\<forall>d \<in> set docs. normalised_field ''created_at'' d"
  shows "map (\<lambda>r. get_prop r ''created_at'') rs =
           map (\<lambda>d. Some (JStr (ISO e (created_time d)))) (orderBy_desc ''created_at'' docs) \<and>
         sorted_wrt (\<lambda>a b. created_time b \<le> created_time a) (orderBy_desc ''created_at'' docs)"
proof -
  let ?ds = "orderBy_desc ''created_at'' docs"
  from rendered
  have times: "list_all2 (\<lambda>d r. \<exists>ts t. map_of (snd d) ''created_at'' = Some (FsTimestamp ts) \<and>
              toDate ts = Valid t \<and> get_prop r ''created_at'' = Some (JStr (ISO e t))) ?ds rs"
    by (rule list_all2_mono) (rule created)
  from listed_created_times [OF times]
  have "map (\<lambda>r. get_prop r ''created_at'') rs =
          map (\<lambda>d. Some (JStr (ISO e (created_time d)))) ?ds"
    by (simp add: comp_def)
  moreover have "sorted_wrt (\<lambda>a b. created_time b \<le> created_time a) ?ds"
    using times norm by (rule sorted_by_created_time)
  ultimately show ?thesis ..
qed

lemma assignments_answer_is_ordered:
  assumes "get_assignments e (Some st) reply = (db', tr)" and "Respond 200 (JArr rs) \<in> set tr"
    and "\<forall>d \<in> set (st (assignments_path e)). normalised_field ''created_at'' d"
  shows "\<exists>ds. tr = [StoreGet (assignments_path e) (Inr ds), Respond 200 (JArr rs)] \<and>
           mset ds = filter_mset (has_field ''created_at'') (mset (st (assignments_path e))) \<and>
           list_all2 (\<lambda>d r. assignment_of_doc e d = Inr r) ds rs \<and>
           map (\<lambda>r. get_prop r ''created_at'') rs =
             map (\<lambda>d. Some (JStr (ISO e (created_time d)))) ds \<and>
           sorted_wrt (\<lambda>a b. created_time b \<le> created_time a) ds"
proof -
  let ?ds = "orderBy_desc ''created_at'' (st (assignments_path e))"
  from get_assignments_200 [OF assms(1,2)]
  have rendered: "list_all2 (\<lambda>d r. assignment_of_doc e d = Inr r) ?ds rs"
    and tr: "tr = [StoreGet (assignments_path e) (Inr ?ds), Respond 200 (JArr rs)]"
    by simp_all
  from rendered_list_is_ordered [OF rendered assignment_of_doc_created assms(3)]
  have "map (\<lambda>r. get_prop r ''created_at'') rs =
          map (\<lambda>d. Some (JStr (ISO e (created_time d)))) ?ds"
    and "sorted_wrt (\<lambda>a b. created_time b \<le> created_time a) ?ds"
    by simp_all
  moreover have "mset ?ds = filter_mset (has_field ''created_at'') (mset (st (assignments_path e)))"
    by (rule mset_orderBy_desc)
  ultimately have "tr = [StoreGet (assignments_path e) (Inr ?ds), Respond 200 (JArr rs)] \<and>
           mset ?ds = filter_mset (has_field ''created_at'') (mset (st (assignments_path e))) \<and>
           list_all2 (\<lambda>d r. assignment_of_doc e d = Inr r) ?ds rs \<and>
           map (\<lambda>r. get_prop r ''created_at'') rs =
             map (\<lambda>d. Some (JStr (ISO e (created_time d)))) ?ds \<and>
           sorted_wrt (\<lambda>a b. created_time b \<le> created_time a) ?ds"
    using rendered tr by (intro conjI)
  then show ?thesis ..
qed

lemma users_answer_is_ordered:
  assumes "get_users e (Some st) reply = (db', tr)" and "Respond 200 (JArr rs) \<in> set tr"
    and "\<forall>d \<in> set (st (users_path e)). normalised_field ''created_at'' d"
  shows "\<exists>ds. tr = [StoreGet (users_path e) (Inr ds), Respond 200 (JArr rs)] \<and>
           mset ds = filter_mset (has_field ''created_at'') (mset (st (users_path e))) \<and>
           list_all2 (\<lambda>d r. user_of_doc e d = Inr r) ds rs \<and>
           map (\<lambda>r. get_prop r ''created_at'') rs =
             map (\<lambda>d. Some (JStr (ISO e (created_time d)))) ds \<and>
           sorted_wrt (\<lambda>a b. created_time b \<le> created_time a) ds"
proof -
  let ?ds = "orderBy_desc ''created_at'' (st (users_path e))"
  from get_users_200 [OF assms(1,2)]
  have rendered: "list_all2 (\<lambda>d r. user_of_doc e d = Inr r) ?ds rs"
    and tr: "tr = [StoreGet (users_path e) (Inr ?ds), Respond 200 (JArr rs)]"
    by simp_all
  from rendered_list_is_ordered [OF rendered user_of_doc_created assms(3)]
  have "map (\<lambda>r. get_prop r ''created_at'') rs =
          map (\<lambda>d. Some (JStr (ISO e (created_time d)))) ?ds"
    and "sorted_wrt (\<lambda>a b. created_time b \<le> created_time a) ?ds"
    by simp_all
  moreover have "mset ?ds = filter_mset (has_field ''created_at'') (mset (st (users_path e)))"
    by (rule mset_orderBy_desc)
  ultimately have "tr = [StoreGet (users_path e) (Inr ?ds), Respond 200 (JArr rs)] \<and>
           mset ?ds = filter_mset (has_field ''created_at'') (mset (st (users_path e))) \<and>
           list_all2 (\<lambda>d r. user_of_doc e d = Inr r) ?ds rs \<and>
           map (\<lambda>r. get_prop r ''created_at'') rs =
             map (\<lambda>d. Some (JStr (ISO e (created_time d)))) ?ds \<and>
           sorted_wrt (\<lambda>a b. created_time b \<le> created_time a) ?ds"
    using rendered tr by (intro conjI)
  then show ?thesis ..
qed

text \<open>
  Listable stores: the empty store is one, and each of the four endpoints leaves a
  listable store listable, so every store built through them is.
\<close>

lemma paths_differ: "assignments_path e \<noteq> users_path e"
  by (simp add: assignments_path_def users_path_def)

lemma listable_empty_store: "listable e empty_store"
  by (simp add: listable_def empty_store_def)

lemma list_leaves_store:
  "fst (get_assignments e (Some st) reply) = Some st"
  "fst (get_users e (Some st) reply) = Some st"
  by (cases reply; simp add: get_assignments_def get_users_def split: sum.splits)+

lemma store_after_cases:
  "store_after e st c = st
   \<or> (\<exists>i now g a t s. in_store_range t \<and> in_store_range now \<and>
        store_after e st c =
          st(assignments_path e := st (assignments_path e) @
               [(i, assignment_document now g a t s)]))
   \<or> (\<exists>i now u b k. in_store_range now \<and>
        store_after e st c =
          st(users_path e := st (users_path e) @ [(i, user_document now u b k)]))"
proof (cases c)
  case (PostAssignment now reply body)
  obtain db' tr where run: "post_assignments e (Some st) now reply body = (db', tr)"
    by (cases "post_assignments e (Some st) now reply body")
  from post_assignments_cases [OF run]
  have "db' = Some st
      \<or> (\<exists>i g a t s. in_store_range t \<and> in_store_range now \<and>
           db' = Some (st(assignments_path e := st (assignments_path e) @
                     [(i, assignment_document now g a t s)])))"
    by (elim disjE exE conjE; (blast | simp))
  moreover from run PostAssignment
  have store: "store_after e st c = (case db' of Some st' \<Rightarrow> st' | None \<Rightarrow> st)"
    by (simp add: store_after_def)
  ultimately show ?thesis
  proof (elim disjE exE conjE)
    assume "db' = Some st"
    with store show ?thesis by simp
  next
    fix i g a t s
    assume "in_store_range t" "in_store_range now"
      "db' = Some (st(assignments_path e := st (assignments_path e) @
                     [(i, assignment_document now g a t s)]))"
    with store
    have "in_store_range t \<and> in_store_range now \<and>
          store_after e st c =
            st(assignments_path e := st (assignments_path e) @
                 [(i, assignment_document now g a t s)])"
      by simp
    then show ?thesis by blast
  qed
next
  case (GetAssignments reply)
  then show ?thesis
    by (simp add: store_after_def list_leaves_store)
next
  case (PostUser now reply body)
  obtain db' tr where run: "post_users e (Some st) now reply body = (db', tr)"
    by (cases "post_users e (Some st) now reply body")
  from post_users_cases [OF run]
  have "db' = Some st
      \<or> (\<exists>i u b k. in_store_range now \<and>
           db' = Some (st(users_path e := st (users_path e) @ [(i, user_document now u b k)])))"
    by (elim disjE exE conjE; (blast | simp))
  moreover from run PostUser
  have store: "store_after e st c = (case db' of Some st' \<Rightarrow> st' | None \<Rightarrow> st)"
    by (simp add: store_after_def)
  ultimately show ?thesis
  proof (elim disjE exE conjE)
    assume "db' = Some st"
    with store show ?thesis by simp
  next
    fix i u b k
    assume "in_store_range now"
      "db' = Some (st(users_path e := st (users_path e) @ [(i, user_document now u b k)]))"
    with store
    have "in_store_range now \<and>
          store_after e st c =
            st(users_path e := st (users_path e) @ [(i, user_document now u b k)])"
      by simp
    then show ?thesis by blast
  qed
next
  case (GetUsers reply)
  then show ?thesis
    by (simp add: store_after_def list_leaves_store)
qed

lemma listable_add_assignment:
  assumes "listable e st" and "in_store_range t" and "in_store_range now"
  shows "listable e (st(assignments_path e := st (assignments_path e) @
                          [(i, assignment_document now g a t s)]))"
  using assms paths_differ [of e]
  by (auto simp: listable_def assignment_of_written_doc written_docs_are_normalised)

lemma listable_add_user:
  assumes "listable e st" and "in_store_range now"
  shows "listable e (st(users_path e := st (users_path e) @ [(i, user_document now u b k)]))"
  using assms paths_differ [of e]
  by (auto simp: listable_def user_of_written_doc written_docs_are_normalised)

lemma listable_store_after:
  assumes "listable e st"
  shows "listable e (store_after e st c)"
  using store_after_cases [of e st c] assms
  by (elim disjE exE conjE) (simp_all add: listable_add_assignment listable_add_user)

lemma listable_after_calls:
  "listable e st \<Longrightarrow> listable e (after_calls e st calls)"
  by (induction calls arbitrary: st) (simp_all add: listable_store_after)

text \<open>No endpoint removes a document.\<close>

lemma store_after_keeps: "set (st p) \<subseteq> set (store_after e st c p)"
  using store_after_cases [of e st c]
  by (elim disjE exE conjE) auto

lemma after_calls_keeps: "set (st p) \<subseteq> set (after_calls e st calls p)"
proof (induction calls arbitrary: st)
  case Nil
  then show ?case by simp
next
  case (Cons c calls)
  have "set (st p) \<subseteq> set (store_after e st c p)"
    by (rule store_after_keeps)
  also have "\<dots> \<subseteq> set (after_calls e (store_after e st c) calls p)"
    by (rule Cons.IH)
  finally show ?case by simp
qed

text \<open>On a listable store a successful read is answered 200 with every document.\<close>

lemma rendering_docs_have_created_at:
  "\<not> isl (assignment_of_doc e d) \<Longrightarrow> has_field ''created_at'' d"
  "\<not> isl (user_of_doc e d) \<Longrightarrow> has_field ''created_at'' d"
proof -
  assume "\<not> isl (assignment_of_doc e d)"
  then obtain r where "assignment_of_doc e d = Inr r"
    by (cases "assignment_of_doc e d") auto
  from assignment_of_doc_created [OF this] show "has_field ''created_at'' d"
    by (auto simp: has_field_def)
next
  assume "\<not> isl (user_of_doc e d)"
  then obtain r where "user_of_doc e d = Inr r"
    by (cases "user_of_doc e d") auto
  from user_of_doc_created [OF this] show "has_field ''created_at'' d"
    by (auto simp: has_field_def)
qed

lemma listable_all_ordered:
  assumes "listable e st"
  shows "mset (orderBy_desc ''created_at'' (st (assignments_path e))) =
           mset (st (assignments_path e))"
    and "mset (orderBy_desc ''created_at'' (st (users_path e))) = mset (st (users_path e))"
proof -
  from assms have "\<forall>d \<in> set (st (assignments_path e)). has_field ''created_at'' d"
    by (auto simp: listable_def rendering_docs_have_created_at)
  then have "filter (has_field ''created_at'') (st (assignments_path e)) =
               st (assignments_path e)"
    by (simp only: filter_id_conv)
  then show "mset (orderBy_desc ''created_at'' (st (assignments_path e))) =
           mset (st (assignments_path e))"
    by (simp add: orderBy_desc_def)
next
  from assms have "\<forall>d \<in> set (st (users_path e)). has_field ''created_at'' d"
    by (auto simp: listable_def rendering_docs_have_created_at)
  then have "filter (has_field ''created_at'') (st (users_path e)) = st (users_path e)"
    by (simp only: filter_id_conv)
  then show "mset (orderBy_desc ''created_at'' (st (users_path e))) = mset (st (users_path e))"
    by (simp add: orderBy_desc_def)
qed

lemma listable_assignments_listed:
  assumes "listable e st"
  shows "\<exists>ds rs. get_assignments e (Some st) ReadOk =
                   (Some st, [StoreGet (assignments_path e) (Inr ds), Respond 200 (JArr rs)]) \<and>
           mset ds = mset (st (assignments_path e)) \<and>
           list_all2 (\<lambda>d r. assignment_of_doc e d = Inr r) ds rs \<and>
           map (\<lambda>r. get_prop r ''created_at'') rs =
             map (\<lambda>d. Some (JStr (ISO e (created_time d)))) ds \<and>
           sorted_wrt (\<lambda>a b. created_time b \<le> created_time a) ds"
proof -
  let ?ds = "orderBy_desc ''created_at'' (st (assignments_path e))"
  from assms have renders: "\<forall>d \<in> set (st (assignments_path e)). \<not> isl (assignment_of_doc e d)"
    and norm: "\<forall>d \<in> set (st (assignments_path e)). normalised_field ''created_at'' d"
    by (simp_all add: listable_def)
  from renders
  have "\<exists>rs. get_assignments e (Some st) ReadOk =
               (Some st, [StoreGet (assignments_path e) (Inr ?ds), Respond 200 (JArr rs)])"
    by (rule get_assignments_answers)
  then obtain rs
    where run: "get_assignments e (Some st) ReadOk =
                  (Some st, [StoreGet (assignments_path e) (Inr ?ds), Respond 200 (JArr rs)])" ..
  have ok: "Respond 200 (JArr rs) \<in>
              set [StoreGet (assignments_path e) (Inr ?ds), Respond 200 (JArr rs)]"
    by simp
  from get_assignments_200 [OF run ok]
  have rendered: "list_all2 (\<lambda>d r. assignment_of_doc e d = Inr r) ?ds rs"
    by simp
  from rendered_list_is_ordered [OF rendered assignment_of_doc_created norm]
  have "map (\<lambda>r. get_prop r ''created_at'') rs =
          map (\<lambda>d. Some (JStr (ISO e (created_time d)))) ?ds"
    and "sorted_wrt (\<lambda>a b. created_time b \<le> created_time a) ?ds"
    by simp_all
  with run listable_all_ordered(1) [OF assms] rendered
  have "get_assignments e (Some st) ReadOk =
                   (Some st, [StoreGet (assignments_path e) (Inr ?ds), Respond 200 (JArr rs)]) \<and>
           mset ?ds = mset (st (assignments_path e)) \<and>
           list_all2 (\<lambda>d r. assignment_of_doc e d = Inr r) ?ds rs \<and>
           map (\<lambda>r. get_prop r ''created_at'') rs =
             map (\<lambda>d. Some (JStr (ISO e (created_time d)))) ?ds \<and>
           sorted_wrt (\<lambda>a b. created_time b \<le> created_time a) ?ds"
    by (intro conjI)
  then show ?thesis by (intro exI)
qed

lemma listable_users_listed:
  assumes "listable e st"
  shows "\<exists>ds rs. get_users e (Some st) ReadOk =
                   (Some st, [StoreGet (users_path e) (Inr ds), Respond 200 (JArr rs)]) \<and>
           mset ds = mset (st (users_path e)) \<and>
           list_all2 (\<lambda>d r. user_of_doc e d = Inr r) ds rs \<and>
           map (\<lambda>r. get_prop r ''created_at'') rs =
             map (\<lambda>d. Some (JStr (ISO e (created_time d)))) ds \<and>
           sorted_wrt (\<lambda>a b. created_time b \<le> created_time a) ds"
proof -
  let ?ds = "orderBy_desc ''created_at'' (st (users_path e))"
  from assms have renders: "\<forall>d \<in> set (st (users_path e)). \<not> isl (user_of_doc e d)"
    and norm: "\<forall>d \<in> set (st (users_path e)). normalised_field ''created_at'' d"
    by (simp_all add: listable_def)
  from renders
  have "\<exists>rs. get_users e (Some st) ReadOk =
               (Some st, [StoreGet (users_path e) (Inr ?ds), Respond 200 (JArr rs)])"
    by (rule get_users_answers)
  then obtain rs
    where run: "get_users e (Some st) ReadOk =
                  (Some st, [StoreGet (users_path e) (Inr ?ds), Respond 200 (JArr rs)])" ..
  have ok: "Respond 200 (JArr rs) \<in>
              set [StoreGet (users_path e) (Inr ?ds), Respond 200 (JArr rs)]"
    by simp
  from get_users_200 [OF run ok]
  have rendered: "list_all2 (\<lambda>d r. user_of_doc e d = Inr r) ?ds rs"
    by simp
  from rendered_list_is_ordered [OF rendered user_of_doc_created norm]
  have "map (\<lambda>r. get_prop r ''created_at'') rs =
          map (\<lambda>d. Some (JStr (ISO e (created_time d)))) ?ds"
    and "sorted_wrt (\<lambda>a b. created_time b \<le> created_time a) ?ds"
    by simp_all
  with run listable_all_ordered(2) [OF assms] rendered
  have "get_users e (Some st) ReadOk =
                   (Some st, [StoreGet (users_path e) (Inr ?ds), Respond 200 (JArr rs)]) \<and>
           mset ?ds = mset (st (users_path e)) \<and>
           list_all2 (\<lambda>d r. user_of_doc e d = Inr r) ?ds rs \<and>
           map (\<lambda>r. get_prop r ''created_at'') rs =
             map (\<lambda>d. Some (JStr (ISO e (created_time d)))) ?ds \<and>
           sorted_wrt (\<lambda>a b. created_time b \<le> created_time a) ?ds"
    by (intro conjI)
  then show ?thesis by (intro exI)
qed

lemma listed_at:
  assumes all: "list_all2 (\<lambda>d r. f d = Inr r) ds rs" and d: "d \<in> set ds" and r: "f d = Inr r"
  shows "\<exists>k < length rs. ds ! k = d \<and> rs ! k = r"
proof -
  from d obtain k where k: "k < length ds" "ds ! k = d"
    by (auto simp: in_set_conv_nth)
  from list_all2_lengthD [OF all] k have len: "k < length rs"
    by simp
  from list_all2_nthD [OF all k(1)] k(2) r have "rs ! k = r"
    by simp
  with len k(2) show ?thesis by blast
qed

text \<open>The sample store, built by the sample requests and listed.\<close>

lemma sample_assignments_render:
  "assignment_of_doc sample_env
     (''a1'', assignment_document 0 (JNum 7) (JNum 3) 1735689600000 (JStr ''pending'')) =
   Inr (JObj [(''id'', JStr ''a1''), (''gig_id'', JNum 7), (''assignee_id'', JNum 3),
              (''due_date'', JStr ''2025-01-01T00:00:00.000Z''), (''status'', JStr ''pending''),
              (''created_at'', JStr ''1970-01-01T00:00:00.000Z'')])"
  "assignment_of_doc sample_env
     (''a2'', assignment_document 1000 (JNum 8) (JNum 3) 1735689600000 (JStr ''completed'')) =
   Inr (JObj [(''id'', JStr ''a2''), (''gig_id'', JNum 8), (''assignee_id'', JNum 3),
              (''due_date'', JStr ''2025-01-01T00:00:00.000Z''),
              (''status'', JStr ''completed''),
              (''created_at'', JStr ''1970-01-01T00:00:01.000Z'')])"
  by (simp_all add: assignment_of_written_doc sample_dates_in_store_range
      canonical_assignment_def) (simp_all add: sample_env_def)

lemma sample_user_renders:
  "user_of_doc sample_env
     (''u1'', user_document 0 (JStr ''ana'') (JStr '''') (JArr [JStr ''go'', JStr ''rust''])) =
   Inr (JObj [(''id'', JStr ''u1''), (''username'', JStr ''ana''), (''bio'', JStr ''''),
              (''skills'', JArr [JStr ''go'', JStr ''rust'']),
              (''created_at'', JStr ''1970-01-01T00:00:00.000Z'')])"
  by (simp add: user_of_written_doc sample_dates_in_store_range canonical_user_def)
     (simp add: sample_env_def)

lemma sample_assignments_ordered:
  "orderBy_desc ''created_at''
     (sample_store ''artifacts/default-app-id/public/data/assignments'') =
   [(''a2'', assignment_document 1000 (JNum 8) (JNum 3) 1735689600000 (JStr ''completed'')),
    (''a1'', assignment_document 0 (JNum 7) (JNum 3) 1735689600000 (JStr ''pending''))]"
  by (simp add: sample_store_def orderBy_desc_def has_field_def field_key_def
      assignment_document_def timestamp_of_def)

lemma sample_users_ordered:
  "orderBy_desc ''created_at'' (sample_store ''artifacts/default-app-id/public/data/users'') =
   [(''u1'', user_document 0 (JStr ''ana'') (JStr '''') (JArr [JStr ''go'', JStr ''rust'']))]"
  by (simp add: sample_store_def orderBy_desc_def has_field_def field_key_def
      user_document_def timestamp_of_def)

lemma sample_assignments_run:
  "get_assignments sample_env (Some sample_store) ReadOk =
     (Some sample_store,
      [StoreGet ''artifacts/default-app-id/public/data/assignments''
         (Inr [(''a2'', assignment_document 1000 (JNum 8) (JNum 3) 1735689600000
                         (JStr ''completed'')),
               (''a1'', assignment_document 0 (JNum 7) (JNum 3) 1735689600000
                         (JStr ''pending''))]),
       Respond 200
         (JArr [JObj [(''id'', JStr ''a2''), (''gig_id'', JNum 8), (''assignee_id'', JNum 3),
                      (''due_date'', JStr ''2025-01-01T00:00:00.000Z''),
                      (''status'', JStr ''completed''),
                      (''created_at'', JStr ''1970-01-01T00:00:01.000Z'')],
                JObj [(''id'', JStr ''a1''), (''gig_id'', JNum 7), (''assignee_id'', JNum 3),
                      (''due_date'', JStr ''2025-01-01T00:00:00.000Z''),
                      (''status'', JStr ''pending''),
                      (''created_at'', JStr ''1970-01-01T00:00:00.000Z'')]])])"
  by (simp add: get_assignments_def sample_paths sample_assignments_ordered
      sample_assignments_render)

lemma sample_users_run:
  "get_users sample_env (Some sample_store) ReadOk =
     (Some sample_store,
      [StoreGet ''artifacts/default-app-id/public/data/users''
         (Inr [(''u1'', user_document 0 (JStr ''ana'') (JStr '''')
                         (JArr [JStr ''go'', JStr ''rust'']))]),
       Respond 200
         (JArr [JObj [(''id'', JStr ''u1''), (''username'', JStr ''ana''), (''bio'', JStr ''''),
                      (''skills'', JArr [JStr ''go'', JStr ''rust'']),
                      (''created_at'', JStr ''1970-01-01T00:00:00.000Z'')]])])"
  by (simp add: get_users_def sample_paths sample_users_ordered sample_user_renders)

lemma sample_first_assignment_run:
  "post_assignments sample_env (Some st) 0 (WriteAck ''a1'') sample_assignment_body =
     (Some (st(''artifacts/default-app-id/public/data/assignments'' :=
                 st ''artifacts/default-app-id/public/data/assignments'' @
                 [(''a1'', assignment_document 0 (JNum 7) (JNum 3) 1735689600000
                            (JStr ''pending''))])),
      [StoreAdd ''artifacts/default-app-id/public/data/assignments''
         (newAssignment 0 (JNum 7) (JNum 3) (Valid 1735689600000) (JStr ''pending''))
         (Inr ''a1''),
       Emit ''new_assignment''
         (JObj [(''id'', JStr ''a1''), (''gig_id'', JNum 7), (''assignee_id'', JNum 3),
                (''due_date'', JStr ''2025-01-01T00:00:00.000Z''), (''status'', JStr ''pending''),
                (''created_at'', JStr ''1970-01-01T00:00:00.000Z'')]),
       Respond 201
         (JObj [(''message'', JStr ''Assignment added successfully''),
                (''assignment'',
                 JObj [(''id'', JStr ''a1''), (''gig_id'', JNum 7), (''assignee_id'', JNum 3),
                       (''due_date'', JStr ''2025-01-01T00:00:00.000Z''),
                       (''status'', JStr ''pending''),
                       (''created_at'', JStr ''1970-01-01T00:00:00.000Z'')])])])"
proof -
  have canonical: "canonical_assignment sample_env ''a1'' (JNum 7) (JNum 3) 1735689600000
                     (JStr ''pending'') 0 =
        JObj [(''id'', JStr ''a1''), (''gig_id'', JNum 7), (''assignee_id'', JNum 3),
              (''due_date'', JStr ''2025-01-01T00:00:00.000Z''), (''status'', JStr ''pending''),
              (''created_at'', JStr ''1970-01-01T00:00:00.000Z'')]"
    by (simp add: canonical_assignment_def sample_env_def)
  have "post_assignments sample_env (Some st) 0 (WriteAck ''a1'') sample_assignment_body =
     (Some (st(assignments_path sample_env := st (assignments_path sample_env) @
               [(''a1'', assignment_document 0 (JNum 7) (JNum 3) 1735689600000
                          (JStr ''pending''))])),
      [StoreAdd (assignments_path sample_env)
         (newAssignment 0 (JNum 7) (JNum 3) (Valid 1735689600000) (JStr ''pending''))
         (Inr ''a1''),
       Emit ''new_assignment''
         (canonical_assignment sample_env ''a1'' (JNum 7) (JNum 3) 1735689600000
            (JStr ''pending'') 0),
       Respond 201
         (JObj [(''message'', JStr ''Assignment added successfully''),
                (''assignment'',
                 canonical_assignment sample_env ''a1'' (JNum 7) (JNum 3) 1735689600000
                   (JStr ''pending'') 0)])])"
    by (rule post_assignments_ok [where d = "JStr ''2025-01-01''"])
       (simp_all add: sample_assignment_body_def sample_date sample_dates_in_store_range)
  then show ?thesis
    by (simp only: canonical sample_paths)
qed

lemma sample_second_assignment_run:
  "post_assignments sample_env (Some st) 1000 (WriteAck ''a2'') second_assignment_body =
     (Some (st(''artifacts/default-app-id/public/data/assignments'' :=
                 st ''artifacts/default-app-id/public/data/assignments'' @
                 [(''a2'', assignment_document 1000 (JNum 8) (JNum 3) 1735689600000
                            (JStr ''completed''))])),
      [StoreAdd ''artifacts/default-app-id/public/data/assignments''
         (newAssignment 1000 (JNum 8) (JNum 3) (Valid 1735689600000) (JStr ''completed''))
         (Inr ''a2''),
       Emit ''new_assignment''
         (JObj [(''id'', JStr ''a2''), (''gig_id'', JNum 8), (''assignee_id'', JNum 3),
                (''due_date'', JStr ''2025-01-01T00:00:00.000Z''),
                (''status'', JStr ''completed''),
                (''created_at'', JStr ''1970-01-01T00:00:01.000Z'')]),
       Respond 201
         (JObj [(''message'', JStr ''Assignment added successfully''),
                (''assignment'',
                 JObj [(''id'', JStr ''a2''), (''gig_id'', JNum 8), (''assignee_id'', JNum 3),
                       (''due_date'', JStr ''2025-01-01T00:00:00.000Z''),
                       (''status'', JStr ''completed''),
                       (''created_at'', JStr ''1970-01-01T00:00:01.000Z'')])])])"
proof -
  have canonical: "canonical_assignment sample_env ''a2'' (JNum 8) (JNum 3) 1735689600000
                     (JStr ''completed'') 1000 =
        JObj [(''id'', JStr ''a2''), (''gig_id'', JNum 8), (''assignee_id'', JNum 3),
              (''due_date'', JStr ''2025-01-01T00:00:00.000Z''),
              (''status'', JStr ''completed''),
              (''created_at'', JStr ''1970-01-01T00:00:01.000Z'')]"
    by (simp add: canonical_assignment_def sample_env_def)
  have "post_assignments sample_env (Some st) 1000 (WriteAck ''a2'') second_assignment_body =
     (Some (st(assignments_path sample_env := st (assignments_path sample_env) @
               [(''a2'', assignment_document 1000 (JNum 8) (JNum 3) 1735689600000
                          (JStr ''completed''))])),
      [StoreAdd (assignments_path sample_env)
         (newAssignment 1000 (JNum 8) (JNum 3) (Valid 1735689600000) (JStr ''completed''))
         (Inr ''a2''),
       Emit ''new_assignment''
         (canonical_assignment sample_env ''a2'' (JNum 8) (JNum 3) 1735689600000
            (JStr ''completed'') 1000),
       Respond 201
         (JObj [(''message'', JStr ''Assignment added successfully''),
                (''assignment'',
                 canonical_assignment sample_env ''a2'' (JNum 8) (JNum 3) 1735689600000
                   (JStr ''completed'') 1000)])])"
    by (rule post_assignments_ok [where d = "JStr ''2025-01-01''"])
       (simp_all add: second_assignment_body_def sample_date sample_dates_in_store_range)
  then show ?thesis
    by (simp only: canonical sample_paths)
qed

lemma sample_user_run:
  "post_users sample_env (Some st) 0 (WriteAck ''u1'') sample_user_body =
     (Some (st(''artifacts/default-app-id/public/data/users'' :=
                 st ''artifacts/default-app-id/public/data/users'' @
                 [(''u1'', user_document 0 (JStr ''ana'') (JStr '''')
                            (JArr [JStr ''go'', JStr ''rust'']))])),
      [StoreAdd ''artifacts/default-app-id/public/data/users''
         (newUser 0 (JStr ''ana'') (Some (JStr '''')) (Some (JArr [JStr ''go'', JStr ''rust''])))
         (Inr ''u1''),
       Emit ''new_user''
         (JObj [(''id'', JStr ''u1''), (''username'', JStr ''ana''), (''bio'', JStr ''''),
                (''skills'', JArr [JStr ''go'', JStr ''rust'']),
                (''created_at'', JStr ''1970-01-01T00:00:00.000Z'')]),
       Respond 201
         (JObj [(''message'', JStr ''User profile created successfully''),
                (''user'',
                 JObj [(''id'', JStr ''u1''), (''username'', JStr ''ana''), (''bio'', JStr ''''),
                       (''skills'', JArr [JStr ''go'', JStr ''rust'']),
                       (''created_at'', JStr ''1970-01-01T00:00:00.000Z'')])])])"
proof -
  have canonical: "canonical_user sample_env ''u1'' (JStr ''ana'') (JStr '''')
                     (JArr [JStr ''go'', JStr ''rust'']) 0 =
        JObj [(''id'', JStr ''u1''), (''username'', JStr ''ana''), (''bio'', JStr ''''),
              (''skills'', JArr [JStr ''go'', JStr ''rust'']),
              (''created_at'', JStr ''1970-01-01T00:00:00.000Z'')]"
    by (simp add: canonical_user_def sample_env_def)
  have fields: "get_prop sample_user_body ''bio'' = Some (JStr '''')"
    "get_prop sample_user_body ''skills'' = Some (JArr [JStr ''go'', JStr ''rust''])"
    by (simp_all add: sample_user_body_def)
  have "post_users sample_env (Some st) 0 (WriteAck ''u1'') sample_user_body =
     (Some (st(users_path sample_env := st (users_path sample_env) @
               [(''u1'', user_document 0 (JStr ''ana'')
                          (or_else (get_prop sample_user_body ''bio'') (JStr ''''))
                          (or_else (get_prop sample_user_body ''skills'') (JArr [])))])),
      [StoreAdd (users_path sample_env)
         (newUser 0 (JStr ''ana'') (get_prop sample_user_body ''bio'')
            (get_prop sample_user_body ''skills''))
         (Inr ''u1''),
       Emit ''new_user''
         (canonical_user sample_env ''u1'' (JStr ''ana'')
            (or_else (get_prop sample_user_body ''bio'') (JStr ''''))
            (or_else (get_prop sample_user_body ''skills'') (JArr [])) 0),
       Respond 201
         (JObj [(''message'', JStr ''User profile created successfully''),
                (''user'',
                 canonical_user sample_env ''u1'' (JStr ''ana'')
                   (or_else (get_prop sample_user_body ''bio'') (JStr ''''))
                   (or_else (get_prop sample_user_body ''skills'') (JArr [])) 0)])])"
    by (rule post_users_ok)
       (simp_all add: sample_user_body_def sample_dates_in_store_range)
  then show ?thesis
    by (simp only: fields or_else_kept canonical sample_paths)
qed

lemma sample_calls_store: "after_calls sample_env empty_store sample_calls = sample_store"
  by (simp add: sample_calls_def store_after_def sample_first_assignment_run
      sample_second_assignment_run sample_user_run sample_store_def empty_store_def fun_eq_iff)

lemma sample_store_after_first_assignment:
  "after_calls sample_env
     (empty_store(assignments_path sample_env := empty_store (assignments_path sample_env) @
        [(''a1'', assignment_document 0 (JNum 7) (JNum 3) 1735689600000 (JStr ''pending''))]))
     [PostAssignment 1000 (WriteAck ''a2'') second_assignment_body,
      PostUser 0 (WriteAck ''u1'') sample_user_body] = sample_store"
  by (simp add: store_after_def sample_second_assignment_run sample_user_run sample_store_def
      empty_store_def sample_paths fun_eq_iff)

lemma sample_store_after_user:
  "after_calls sample_env
     (empty_store(users_path sample_env := empty_store (users_path sample_env) @
        [(''u1'', user_document 0 (JStr ''ana'') (JStr '''')
                    (JArr [JStr ''go'', JStr ''rust'']))]))
     [PostAssignment 0 (WriteAck ''a1'') sample_assignment_body,
      PostAssignment 1000 (WriteAck ''a2'') second_assignment_body] = sample_store"
  by (simp add: store_after_def sample_first_assignment_run sample_second_assignment_run
      sample_store_def empty_store_def sample_paths fun_eq_iff)

text \<open>
  C4. For a record a create handler emitted: the trace shows the acknowledged write of one
  document; the element the list handler builds from that stored document, reading its
  dates back through the store's timestamps, is the emitted object itself. If the store
  was listable before the request, then after any further requests to the four endpoints
  a successful read of the list endpoint is answered 200, and at the position of the
  stored document the returned array holds the emitted object. And whenever the list
  endpoint answers 200 on any store that holds the document, the emitted object is an
  element of the returned array.
\<close>

theorem broadcast_equals_listed_record:
  assumes "(create = post_assignments e \<and> lister = get_assignments e \<and>
            path = assignments_path e \<and> of_doc = assignment_of_doc e)
         \<or> (create = post_users e \<and> lister = get_users e \<and>
            path = users_path e \<and> of_doc = user_of_doc e)"
    and "create db now wr body = (db', tr)"
    and "Emit topic r \<in> set tr"
  shows "\<exists>st i ob doc response.
           db = Some st \<and> wr = WriteAck i \<and>
           tr = [StoreAdd path ob (Inr i), Emit topic r, response] \<and>
           encode_document ob = Inr doc \<and>
           db' = Some (st(path := st path @ [(i, doc)])) \<and>
           of_doc (i, doc) = Inr r \<and>
           (listable e st \<longrightarrow>
              (\<forall>later. \<exists>ds rs.
                 lister (Some (after_calls e (st(path := st path @ [(i, doc)])) later)) ReadOk =
                   (Some (after_calls e (st(path := st path @ [(i, doc)])) later),
                    [StoreGet path (Inr ds), Respond 200 (JArr rs)]) \<and>
                 (\<exists>k < length rs. ds ! k = (i, doc) \<and> rs ! k = r))) \<and>
           (\<forall>st'' rr db2 tr2 rs.
              (i, doc) \<in> set (st'' path) \<and> lister (Some st'') rr = (db2, tr2) \<and>
              Respond 200 (JArr rs) \<in> set tr2 \<longrightarrow> r \<in> set rs)"
  using assms(1)
proof (elim disjE conjE)
  assume create: "create = post_assignments e" and lister: "lister = get_assignments e"
    and path: "path = assignments_path e" and of_doc: "of_doc = assignment_of_doc e"
  from assms(2) have run: "post_assignments e db now wr body = (db', tr)"
    by (simp only: create)
  from post_assignments_cases [OF run] assms(3)
  obtain st i g a s t where db: "db = Some st" and wr: "wr = WriteAck i"
    and t: "in_store_range t" and now: "in_store_range now"
    and db': "db' = Some (st(assignments_path e := st (assignments_path e) @
                     [(i, assignment_document now g a t s)]))"
    and tr: "tr = [StoreAdd (assignments_path e) (newAssignment now g a (Valid t) s) (Inr i),
                  Emit ''new_assignment'' (canonical_assignment e i g a t s now),
                  Respond 201 (JObj [(''message'', JStr ''Assignment added successfully''),
                                     (''assignment'', canonical_assignment e i g a t s now)])]"
    by (elim disjE exE conjE) simp_all
  let ?ob = "newAssignment now g a (Valid t) s"
  let ?doc = "assignment_document now g a t s"
  let ?st' = "st(assignments_path e := st (assignments_path e) @ [(i, ?doc)])"
  from assms(3) tr have topic: "topic = ''new_assignment''"
    and r: "r = canonical_assignment e i g a t s now"
    by simp_all
  have encoded: "encode_document ?ob = Inr ?doc"
    using t now by (rule encode_newAssignment)
  have rendered: "assignment_of_doc e (i, ?doc) = Inr r"
    unfolding r using t now by (rule assignment_of_written_doc)
  have later: "\<exists>ds rs.
        get_assignments e (Some (after_calls e ?st' later)) ReadOk =
          (Some (after_calls e ?st' later),
           [StoreGet (assignments_path e) (Inr ds), Respond 200 (JArr rs)]) \<and>
        (\<exists>k < length rs. ds ! k = (i, ?doc) \<and> rs ! k = r)"
    if "listable e st" for later
  proof -
    from that t now have "listable e ?st'"
      by (rule listable_add_assignment)
    then have "listable e (after_calls e ?st' later)"
      by (rule listable_after_calls)
    from listable_assignments_listed [OF this]
    obtain ds rs where list: "get_assignments e (Some (after_calls e ?st' later)) ReadOk =
          (Some (after_calls e ?st' later),
           [StoreGet (assignments_path e) (Inr ds), Respond 200 (JArr rs)])"
      and all: "mset ds = mset (after_calls e ?st' later (assignments_path e))"
      and each: "list_all2 (\<lambda>d r. assignment_of_doc e d = Inr r) ds rs"
      by (elim exE conjE)
    have "(i, ?doc) \<in> set (?st' (assignments_path e))"
      by simp
    with after_calls_keeps [of ?st' "assignments_path e" e later]
    have "(i, ?doc) \<in> set (after_calls e ?st' later (assignments_path e))"
      by (rule subsetD)
    moreover from all have "set ds = set (after_calls e ?st' later (assignments_path e))"
      by (rule mset_eq_setD)
    ultimately have "(i, ?doc) \<in> set ds"
      by simp
    with each have found: "\<exists>k < length rs. ds ! k = (i, ?doc) \<and> rs ! k = r"
      using rendered by (rule listed_at)
    from list found
    have "get_assignments e (Some (after_calls e ?st' later)) ReadOk =
          (Some (after_calls e ?st' later),
           [StoreGet (assignments_path e) (Inr ds), Respond 200 (JArr rs)]) \<and>
        (\<exists>k < length rs. ds ! k = (i, ?doc) \<and> rs ! k = r)" ..
    then show ?thesis
      by (intro exI)
  qed
  have listed: "r \<in> set rs"
    if holds: "(i, ?doc) \<in> set (st'' (assignments_path e))"
      and list: "get_assignments e (Some st'') rr = (db2, tr2)"
      and ok: "Respond 200 (JArr rs) \<in> set tr2" for st'' rr db2 tr2 rs
  proof -
    from holds have ordered: "(i, ?doc) \<in> set (orderBy_desc ''created_at''
                                             (st'' (assignments_path e)))"
      by (simp add: set_orderBy_desc written_docs_have_created_at)
    from get_assignments_200 [OF list ok]
    have each: "list_all2 (\<lambda>d r. assignment_of_doc e d = Inr r)
          (orderBy_desc ''created_at'' (st'' (assignments_path e))) rs"
      by simp
    show ?thesis
      using each ordered rendered by (rule listed_element)
  qed
  have c1: "tr = [StoreAdd path ?ob (Inr i), Emit topic r,
              Respond 201 (JObj [(''message'', JStr ''Assignment added successfully''),
                                 (''assignment'', canonical_assignment e i g a t s now)])]"
    unfolding path topic r by (rule tr)
  have c2: "encode_document ?ob = Inr ?doc"
    by (rule encoded)
  have c3: "db' = Some (st(path := st path @ [(i, ?doc)]))"
    unfolding path by (rule db')
  have c4: "of_doc (i, ?doc) = Inr r"
    unfolding of_doc by (rule rendered)
  have c5: "listable e st \<longrightarrow>
           (\<forall>later. \<exists>ds rs.
              lister (Some (after_calls e (st(path := st path @ [(i, ?doc)])) later)) ReadOk =
                (Some (after_calls e (st(path := st path @ [(i, ?doc)])) later),
                 [StoreGet path (Inr ds), Respond 200 (JArr rs)]) \<and>
              (\<exists>k < length rs. ds ! k = (i, ?doc) \<and> rs ! k = r))"
    unfolding path lister
  proof (intro impI allI)
    fix later
    assume "listable e st"
    then show "\<exists>ds rs.
        get_assignments e (Some (after_calls e ?st' later)) ReadOk =
          (Some (after_calls e ?st' later),
           [StoreGet (assignments_path e) (Inr ds), Respond 200 (JArr rs)]) \<and>
        (\<exists>k < length rs. ds ! k = (i, ?doc) \<and> rs ! k = r)"
      by (rule later)
  qed
  have c6: "\<forall>st'' rr db2 tr2 rs.
           (i, ?doc) \<in> set (st'' path) \<and> lister (Some st'') rr = (db2, tr2) \<and>
           Respond 200 (JArr rs) \<in> set tr2 \<longrightarrow> r \<in> set rs"
    unfolding path lister
  proof (intro impI allI)
    fix st'' rr db2 tr2 rs
    assume "(i, ?doc) \<in> set (st'' (assignments_path e)) \<and>
            get_assignments e (Some st'') rr = (db2, tr2) \<and> Respond 200 (JArr rs) \<in> set tr2"
    then have "(i, ?doc) \<in> set (st'' (assignments_path e))"
      "get_assignments e (Some st'') rr = (db2, tr2)" "Respond 200 (JArr rs) \<in> set tr2"
      by simp_all
    then show "r \<in> set rs"
      by (rule listed)
  qed
  from db wr c1 c2 c3 c4 c5 c6
  have "db = Some st \<and> wr = WriteAck i \<and>
        tr = [StoreAdd path ?ob (Inr i), Emit topic r,
              Respond 201 (JObj [(''message'', JStr ''Assignment added successfully''),
                                 (''assignment'', canonical_assignment e i g a t s now)])] \<and>
        encode_document ?ob = Inr ?doc \<and>
        db' = Some (st(path := st path @ [(i, ?doc)])) \<and>
        of_doc (i, ?doc) = Inr r \<and>
        (listable e st \<longrightarrow>
           (\<forall>later. \<exists>ds rs.
              lister (Some (after_calls e (st(path := st path @ [(i, ?doc)])) later)) ReadOk =
                (Some (after_calls e (st(path := st path @ [(i, ?doc)])) later),
                 [StoreGet path (Inr ds), Respond 200 (JArr rs)]) \<and>
              (\<exists>k < length rs. ds ! k = (i, ?doc) \<and> rs ! k = r))) \<and>
        (\<forall>st'' rr db2 tr2 rs.
           (i, ?doc) \<in> set (st'' path) \<and> lister (Some st'') rr = (db2, tr2) \<and>
           Respond 200 (JArr rs) \<in> set tr2 \<longrightarrow> r \<in> set rs)"
    by (intro conjI)
  then show ?thesis
    by (intro exI)
next
  assume create: "create = post_users e" and lister: "lister = get_users e"
    and path: "path = users_path e" and of_doc: "of_doc = user_of_doc e"
  from assms(2) have run: "post_users e db now wr body = (db', tr)"
    by (simp only: create)
  let ?b = "or_else (get_prop body ''bio'') (JStr '''')"
  let ?k = "or_else (get_prop body ''skills'') (JArr [])"
  from post_users_cases [OF run] assms(3)
  obtain st i u where db: "db = Some st" and wr: "wr = WriteAck i"
    and now: "in_store_range now"
    and db': "db' = Some (st(users_path e := st (users_path e) @
                     [(i, user_document now u ?b ?k)]))"
    and tr: "tr = [StoreAdd (users_path e)
                    (newUser now u (get_prop body ''bio'') (get_prop body ''skills'')) (Inr i),
                  Emit ''new_user'' (canonical_user e i u ?b ?k now),
                  Respond 201
                    (JObj [(''message'', JStr ''User profile created successfully''),
                           (''user'', canonical_user e i u ?b ?k now)])]"
    by (elim disjE exE conjE) simp_all
  let ?ob = "newUser now u (get_prop body ''bio'') (get_prop body ''skills'')"
  let ?doc = "user_document now u ?b ?k"
  let ?st' = "st(users_path e := st (users_path e) @ [(i, ?doc)])"
  from assms(3) tr have topic: "topic = ''new_user''"
    and r: "r = canonical_user e i u ?b ?k now"
    by simp_all
  have encoded: "encode_document ?ob = Inr ?doc"
    using now by (rule encode_newUser)
  have rendered: "user_of_doc e (i, ?doc) = Inr r"
    unfolding r using now by (rule user_of_written_doc)
  have later: "\<exists>ds rs.
        get_users e (Some (after_calls e ?st' later)) ReadOk =
          (Some (after_calls e ?st' later),
           [StoreGet (users_path e) (Inr ds), Respond 200 (JArr rs)]) \<and>
        (\<exists>k < length rs. ds ! k = (i, ?doc) \<and> rs ! k = r)"
    if "listable e st" for later
  proof -
    from that now have "listable e ?st'"
      by (rule listable_add_user)
    then have "listable e (after_calls e ?st' later)"
      by (rule listable_after_calls)
    from listable_users_listed [OF this]
    obtain ds rs where list: "get_users e (Some (after_calls e ?st' later)) ReadOk =
          (Some (after_calls e ?st' later),
           [StoreGet (users_path e) (Inr ds), Respond 200 (JArr rs)])"
      and all: "mset ds = mset (after_calls e ?st' later (users_path e))"
      and each: "list_all2 (\<lambda>d r. user_of_doc e d = Inr r) ds rs"
      by (elim exE conjE)
    have "(i, ?doc) \<in> set (?st' (users_path e))"
      by simp
    with after_calls_keeps [of ?st' "users_path e" e later]
    have "(i, ?doc) \<in> set (after_calls e ?st' later (users_path e))"
      by (rule subsetD)
    moreover from all have "set ds = set (after_calls e ?st' later (users_path e))"
      by (rule mset_eq_setD)
    ultimately have "(i, ?doc) \<in> set ds"
      by simp
    with each have found: "\<exists>k < length rs. ds ! k = (i, ?doc) \<and> rs ! k = r"
      using rendered by (rule listed_at)
    from list found
    have "get_users e (Some (after_calls e ?st' later)) ReadOk =
          (Some (after_calls e ?st' later),
           [StoreGet (users_path e) (Inr ds), Respond 200 (JArr rs)]) \<and>
        (\<exists>k < length rs. ds ! k = (i, ?doc) \<and> rs ! k = r)" ..
    then show ?thesis
      by (intro exI)
  qed
  have listed: "r \<in> set rs"
    if holds: "(i, ?doc) \<in> set (st'' (users_path e))"
      and list: "get_users e (Some st'') rr = (db2, tr2)"
      and ok: "Respond 200 (JArr rs) \<in> set tr2" for st'' rr db2 tr2 rs
  proof -
    from holds have ordered: "(i, ?doc) \<in> set (orderBy_desc ''created_at''
                                             (st'' (users_path e)))"
      by (simp add: set_orderBy_desc written_docs_have_created_at)
    from get_users_200 [OF list ok]
    have each: "list_all2 (\<lambda>d r. user_of_doc e d = Inr r)
          (orderBy_desc ''created_at'' (st'' (users_path e))) rs"
      by simp
    show ?thesis
      using each ordered rendered by (rule listed_element)
  qed
  have c1: "tr = [StoreAdd path ?ob (Inr i), Emit topic r,
              Respond 201 (JObj [(''message'', JStr ''User profile created successfully''),
                                 (''user'', canonical_user e i u ?b ?k now)])]"
    unfolding path topic r by (rule tr)
  have c2: "encode_document ?ob = Inr ?doc"
    by (rule encoded)
  have c3: "db' = Some (st(path := st path @ [(i, ?doc)]))"
    unfolding path by (rule db')
  have c4: "of_doc (i, ?doc) = Inr r"
    unfolding of_doc by (rule rendered)
  have c5: "listable e st \<longrightarrow>
           (\<forall>later. \<exists>ds rs.
              lister (Some (after_calls e (st(path := st path @ [(i, ?doc)])) later)) ReadOk =
                (Some (after_calls e (st(path := st path @ [(i, ?doc)])) later),
                 [StoreGet path (Inr ds), Respond 200 (JArr rs)]) \<and>
              (\<exists>k < length rs. ds ! k = (i, ?doc) \<and> rs ! k = r))"
    unfolding path lister
  proof (intro impI allI)
    fix later
    assume "listable e st"
    then show "\<exists>ds rs.
        get_users e (Some (after_calls e ?st' later)) ReadOk =
          (Some (after_calls e ?st' later),
           [StoreGet (users_path e) (Inr ds), Respond 200 (JArr rs)]) \<and>
        (\<exists>k < length rs. ds ! k = (i, ?doc) \<and> rs ! k = r)"
      by (rule later)
  qed
  have c6: "\<forall>st'' rr db2 tr2 rs.
           (i, ?doc) \<in> set (st'' path) \<and> lister (Some st'') rr = (db2, tr2) \<and>
           Respond 200 (JArr rs) \<in> set tr2 \<longrightarrow> r \<in> set rs"
    unfolding path lister
  proof (intro impI allI)
    fix st'' rr db2 tr2 rs
    assume "(i, ?doc) \<in> set (st'' (users_path e)) \<and>
            get_users e (Some st'') rr = (db2, tr2) \<and> Respond 200 (JArr rs) \<in> set tr2"
    then have "(i, ?doc) \<in> set (st'' (users_path e))"
      "get_users e (Some st'') rr = (db2, tr2)" "Respond 200 (JArr rs) \<in> set tr2"
      by simp_all
    then show "r \<in> set rs"
      by (rule listed)
  qed
  from db wr c1 c2 c3 c4 c5 c6
  have "db = Some st \<and> wr = WriteAck i \<and>
        tr = [StoreAdd path ?ob (Inr i), Emit topic r,
              Respond 201 (JObj [(''message'', JStr ''User profile created successfully''),
                                 (''user'', canonical_user e i u ?b ?k now)])] \<and>
        encode_document ?ob = Inr ?doc \<and>
        db' = Some (st(path := st path @ [(i, ?doc)])) \<and>
        of_doc (i, ?doc) = Inr r \<and>
        (listable e st \<longrightarrow>
           (\<forall>later. \<exists>ds rs.
              lister (Some (after_calls e (st(path := st path @ [(i, ?doc)])) later)) ReadOk =
                (Some (after_calls e (st(path := st path @ [(i, ?doc)])) later),
                 [StoreGet path (Inr ds), Respond 200 (JArr rs)]) \<and>
              (\<exists>k < length rs. ds ! k = (i, ?doc) \<and> rs ! k = r))) \<and>
        (\<forall>st'' rr db2 tr2 rs.
           (i, ?doc) \<in> set (st'' path) \<and> lister (Some st'') rr = (db2, tr2) \<and>
           Respond 200 (JArr rs) \<in> set tr2 \<longrightarrow> r \<in> set rs)"
    by (intro conjI)
  then show ?thesis
    by (intro exI)
qed

theorem broadcast_equals_listed_record_witness:
  "Emit ''new_assignment''
     (JObj [(''id'', JStr ''a1''), (''gig_id'', JNum 7), (''assignee_id'', JNum 3),
            (''due_date'', JStr ''2025-01-01T00:00:00.000Z''), (''status'', JStr ''pending''),
            (''created_at'', JStr ''1970-01-01T00:00:00.000Z'')])
     \<in> set (snd (post_assignments sample_env (Some empty_store) 0 (WriteAck ''a1'')
                   sample_assignment_body))
   \<and> assignment_of_doc sample_env
       (''a1'', assignment_document 0 (JNum 7) (JNum 3) 1735689600000 (JStr ''pending'')) =
     Inr (JObj [(''id'', JStr ''a1''), (''gig_id'', JNum 7), (''assignee_id'', JNum 3),
                (''due_date'', JStr ''2025-01-01T00:00:00.000Z''), (''status'', JStr ''pending''),
                (''created_at'', JStr ''1970-01-01T00:00:00.000Z'')])
   \<and> (\<exists>ds rs.
        get_assignments sample_env
          (Some (after_calls sample_env
                   (store_after sample_env empty_store
                      (PostAssignment 0 (WriteAck ''a1'') sample_assignment_body))
                   [PostAssignment 1000 (WriteAck ''a2'') second_assignment_body,
                    PostUser 0 (WriteAck ''u1'') sample_user_body])) ReadOk =
          (Some sample_store,
           [StoreGet ''artifacts/default-app-id/public/data/assignments'' (Inr ds),
            Respond 200 (JArr rs)]) \<and>
        rs = [JObj [(''id'', JStr ''a2''), (''gig_id'', JNum 8), (''assignee_id'', JNum 3),
                    (''due_date'', JStr ''2025-01-01T00:00:00.000Z''),
                    (''status'', JStr ''completed''),
                    (''created_at'', JStr ''1970-01-01T00:00:01.000Z'')],
              JObj [(''id'', JStr ''a1''), (''gig_id'', JNum 7), (''assignee_id'', JNum 3),
                    (''due_date'', JStr ''2025-01-01T00:00:00.000Z''),
                    (''status'', JStr ''pending''),
                    (''created_at'', JStr ''1970-01-01T00:00:00.000Z'')]] \<and>
        (\<exists>k < length rs.
           ds ! k = (''a1'', assignment_document 0 (JNum 7) (JNum 3) 1735689600000
                               (JStr ''pending'')) \<and>
           rs ! k = JObj [(''id'', JStr ''a1''), (''gig_id'', JNum 7), (''assignee_id'', JNum 3),
                          (''due_date'', JStr ''2025-01-01T00:00:00.000Z''),
                          (''status'', JStr ''pending''),
                          (''created_at'', JStr ''1970-01-01T00:00:00.000Z'')]))
   \<and> Emit ''new_user''
       (JObj [(''id'', JStr ''u1''), (''username'', JStr ''ana''), (''bio'', JStr ''''),
              (''skills'', JArr [JStr ''go'', JStr ''rust'']),
              (''created_at'', JStr ''1970-01-01T00:00:00.000Z'')])
       \<in> set (snd (post_users sample_env (Some empty_store) 0 (WriteAck ''u1'') sample_user_body))
   \<and> user_of_doc sample_env
       (''u1'', user_document 0 (JStr ''ana'') (JStr '''') (JArr [JStr ''go'', JStr ''rust''])) =
     Inr (JObj [(''id'', JStr ''u1''), (''username'', JStr ''ana''), (''bio'', JStr ''''),
                (''skills'', JArr [JStr ''go'', JStr ''rust'']),
                (''created_at'', JStr ''1970-01-01T00:00:00.000Z'')])
   \<and> (\<exists>ds rs.
        get_users sample_env
          (Some (after_calls sample_env
                   (store_after sample_env empty_store
                      (PostUser 0 (WriteAck ''u1'') sample_user_body))
                   [PostAssignment 0 (WriteAck ''a1'') sample_assignment_body,
                    PostAssignment 1000 (WriteAck ''a2'') second_assignment_body])) ReadOk =
          (Some sample_store,
           [StoreGet ''artifacts/default-app-id/public/data/users'' (Inr ds),
            Respond 200 (JArr rs)]) \<and>
        rs = [JObj [(''id'', JStr ''u1''), (''username'', JStr ''ana''), (''bio'', JStr ''''),
                    (''skills'', JArr [JStr ''go'', JStr ''rust'']),
                    (''created_at'', JStr ''1970-01-01T00:00:00.000Z'')]] \<and>
        (\<exists>k < length rs.
           ds ! k = (''u1'', user_document 0 (JStr ''ana'') (JStr '''')
                               (JArr [JStr ''go'', JStr ''rust''])) \<and>
           rs ! k = JObj [(''id'', JStr ''u1''), (''username'', JStr ''ana''), (''bio'', JStr ''''),
                          (''skills'', JArr [JStr ''go'', JStr ''rust'']),
                          (''created_at'', JStr ''1970-01-01T00:00:00.000Z'')]))"
proof -
  let ?a1 = "JObj [(''id'', JStr ''a1''), (''gig_id'', JNum 7), (''assignee_id'', JNum 3),
                   (''due_date'', JStr ''2025-01-01T00:00:00.000Z''),
                   (''status'', JStr ''pending''),
                   (''created_at'', JStr ''1970-01-01T00:00:00.000Z'')]"
  let ?a2 = "JObj [(''id'', JStr ''a2''), (''gig_id'', JNum 8), (''assignee_id'', JNum 3),
                   (''due_date'', JStr ''2025-01-01T00:00:00.000Z''),
                   (''status'', JStr ''completed''),
                   (''created_at'', JStr ''1970-01-01T00:00:01.000Z'')]"
  let ?u1 = "JObj [(''id'', JStr ''u1''), (''username'', JStr ''ana''), (''bio'', JStr ''''),
                   (''skills'', JArr [JStr ''go'', JStr ''rust'']),
                   (''created_at'', JStr ''1970-01-01T00:00:00.000Z'')]"
  let ?a1doc = "assignment_document 0 (JNum 7) (JNum 3) 1735689600000 (JStr ''pending'')"
  let ?u1doc = "user_document 0 (JStr ''ana'') (JStr '''') (JArr [JStr ''go'', JStr ''rust''])"
  let ?later_a = "[PostAssignment 1000 (WriteAck ''a2'') second_assignment_body,
                   PostUser 0 (WriteAck ''u1'') sample_user_body]"
  let ?later_u = "[PostAssignment 0 (WriteAck ''a1'') sample_assignment_body,
                   PostAssignment 1000 (WriteAck ''a2'') second_assignment_body]"

  have handlers_a:
    "(post_assignments sample_env = post_assignments sample_env \<and>
      get_assignments sample_env = get_assignments sample_env \<and>
      assignments_path sample_env = assignments_path sample_env \<and>
      assignment_of_doc sample_env = assignment_of_doc sample_env)
   \<or> (post_assignments sample_env = post_users sample_env \<and>
      get_assignments sample_env = get_users sample_env \<and>
      assignments_path sample_env = users_path sample_env \<and>
      assignment_of_doc sample_env = user_of_doc sample_env)"
    by simp
  note run_a = sample_first_assignment_run [of empty_store]
  have emitted_a: "Emit ''new_assignment'' ?a1 \<in>
      set [StoreAdd ''artifacts/default-app-id/public/data/assignments''
             (newAssignment 0 (JNum 7) (JNum 3) (Valid 1735689600000) (JStr ''pending''))
             (Inr ''a1''),
           Emit ''new_assignment'' ?a1,
           Respond 201 (JObj [(''message'', JStr ''Assignment added successfully''),
                              (''assignment'', ?a1)])]"
    by simp
  from broadcast_equals_listed_record [OF handlers_a run_a emitted_a]
  obtain st i ob doc response
    where db: "Some empty_store = Some st"
      and tr: "[StoreAdd ''artifacts/default-app-id/public/data/assignments''
                  (newAssignment 0 (JNum 7) (JNum 3) (Valid 1735689600000) (JStr ''pending''))
                  (Inr ''a1''),
                Emit ''new_assignment'' ?a1,
                Respond 201 (JObj [(''message'', JStr ''Assignment added successfully''),
                                   (''assignment'', ?a1)])] =
               [StoreAdd (assignments_path sample_env) ob (Inr i),
                Emit ''new_assignment'' ?a1, response]"
      and encoded: "encode_document ob = Inr doc"
      and rendered: "assignment_of_doc sample_env (i, doc) = Inr ?a1"
      and later: "listable sample_env st \<longrightarrow>
           (\<forall>later. \<exists>ds rs.
              get_assignments sample_env
                (Some (after_calls sample_env
                   (st(assignments_path sample_env :=
                         st (assignments_path sample_env) @ [(i, doc)])) later)) ReadOk =
                (Some (after_calls sample_env
                   (st(assignments_path sample_env :=
                         st (assignments_path sample_env) @ [(i, doc)])) later),
                 [StoreGet (assignments_path sample_env) (Inr ds), Respond 200 (JArr rs)]) \<and>
              (\<exists>k < length rs. ds ! k = (i, doc) \<and> rs ! k = ?a1))"
    by (elim exE conjE)
  from db have st: "st = empty_store" by simp
  from tr have i: "i = ''a1''"
    and ob: "ob = newAssignment 0 (JNum 7) (JNum 3) (Valid 1735689600000) (JStr ''pending'')"
    by simp_all
  from encoded have doc: "doc = ?a1doc"
    unfolding ob by (simp add: encode_newAssignment sample_dates_in_store_range)
  have after_a: "store_after sample_env empty_store
                   (PostAssignment 0 (WriteAck ''a1'') sample_assignment_body) =
                 empty_store(assignments_path sample_env :=
                   empty_store (assignments_path sample_env) @ [(''a1'', ?a1doc)])"
    by (simp add: store_after_def run_a sample_paths)
  from later [unfolded st i doc, rule_format, OF listable_empty_store, of ?later_a]
  obtain ds rs
    where both: "get_assignments sample_env (Some sample_store) ReadOk =
                   (Some sample_store,
                    [StoreGet (assignments_path sample_env) (Inr ds), Respond 200 (JArr rs)]) \<and>
                 (\<exists>k < length rs. ds ! k = (''a1'', ?a1doc) \<and> rs ! k = ?a1)"
    unfolding sample_store_after_first_assignment by (elim exE)
  from both
  have list: "get_assignments sample_env (Some sample_store) ReadOk =
                   (Some sample_store,
                    [StoreGet (assignments_path sample_env) (Inr ds), Respond 200 (JArr rs)])"
    by (rule conjunct1)
  from both have found: "\<exists>k < length rs. ds ! k = (''a1'', ?a1doc) \<and> rs ! k = ?a1"
    by (rule conjunct2)
  from list have rs: "rs = [?a2, ?a1]"
    by (simp add: sample_assignments_run)
  from list rs found
  have "get_assignments sample_env
          (Some (after_calls sample_env
                   (store_after sample_env empty_store
                      (PostAssignment 0 (WriteAck ''a1'') sample_assignment_body))
                   ?later_a)) ReadOk =
          (Some sample_store,
           [StoreGet ''artifacts/default-app-id/public/data/assignments'' (Inr ds),
            Respond 200 (JArr rs)]) \<and>
        rs = [?a2, ?a1] \<and>
        (\<exists>k < length rs. ds ! k = (''a1'', ?a1doc) \<and> rs ! k = ?a1)"
    unfolding after_a sample_store_after_first_assignment
    by (simp only: sample_paths simp_thms)
  then have listed_a: "\<exists>ds rs.
        get_assignments sample_env
          (Some (after_calls sample_env
                   (store_after sample_env empty_store
                      (PostAssignment 0 (WriteAck ''a1'') sample_assignment_body))
                   ?later_a)) ReadOk =
          (Some sample_store,
           [StoreGet ''artifacts/default-app-id/public/data/assignments'' (Inr ds),
            Respond 200 (JArr rs)]) \<and>
        rs = [?a2, ?a1] \<and>
        (\<exists>k < length rs. ds ! k = (''a1'', ?a1doc) \<and> rs ! k = ?a1)"
    by (intro exI)
  from rendered have rendered_a: "assignment_of_doc sample_env (''a1'', ?a1doc) = Inr ?a1"
    by (simp only: i doc)
  have emit_a: "Emit ''new_assignment'' ?a1
     \<in> set (snd (post_assignments sample_env (Some empty_store) 0 (WriteAck ''a1'')
                   sample_assignment_body))"
    by (simp add: run_a)

  have handlers_u:
    "(post_users sample_env = post_assignments sample_env \<and>
      get_users sample_env = get_assignments sample_env \<and>
      users_path sample_env = assignments_path sample_env \<and>
      user_of_doc sample_env = assignment_of_doc sample_env)
   \<or> (post_users sample_env = post_users sample_env \<and>
      get_users sample_env = get_users sample_env \<and>
      users_path sample_env = users_path sample_env \<and>
      user_of_doc sample_env = user_of_doc sample_env)"
    by simp
  note run_u = sample_user_run [of empty_store]
  have emitted_u: "Emit ''new_user'' ?u1 \<in>
      set [StoreAdd ''artifacts/default-app-id/public/data/users''
             (newUser 0 (JStr ''ana'') (Some (JStr ''''))
                (Some (JArr [JStr ''go'', JStr ''rust''])))
             (Inr ''u1''),
           Emit ''new_user'' ?u1,
           Respond 201 (JObj [(''message'', JStr ''User profile created successfully''),
                              (''user'', ?u1)])]"
    by simp
  from broadcast_equals_listed_record [OF handlers_u run_u emitted_u]
  obtain st i ob doc response
    where db: "Some empty_store = Some st"
      and tr: "[StoreAdd ''artifacts/default-app-id/public/data/users''
                  (newUser 0 (JStr ''ana'') (Some (JStr ''''))
                     (Some (JArr [JStr ''go'', JStr ''rust''])))
                  (Inr ''u1''),
                Emit ''new_user'' ?u1,
                Respond 201 (JObj [(''message'', JStr ''User profile created successfully''),
                                   (''user'', ?u1)])] =
               [StoreAdd (users_path sample_env) ob (Inr i), Emit ''new_user'' ?u1, response]"
      and encoded: "encode_document ob = Inr doc"
      and rendered: "user_of_doc sample_env (i, doc) = Inr ?u1"
      and later: "listable sample_env st \<longrightarrow>
           (\<forall>later. \<exists>ds rs.
              get_users sample_env
                (Some (after_calls sample_env
                   (st(users_path sample_env :=
                         st (users_path sample_env) @ [(i, doc)])) later)) ReadOk =
                (Some (after_calls sample_env
                   (st(users_path sample_env :=
                         st (users_path sample_env) @ [(i, doc)])) later),
                 [StoreGet (users_path sample_env) (Inr ds), Respond 200 (JArr rs)]) \<and>
              (\<exists>k < length rs. ds ! k = (i, doc) \<and> rs ! k = ?u1))"
    by (elim exE conjE)
  from db have st: "st = empty_store" by simp
  from tr have i: "i = ''u1''"
    and ob: "ob = newUser 0 (JStr ''ana'') (Some (JStr ''''))
                    (Some (JArr [JStr ''go'', JStr ''rust'']))"
    by simp_all
  from encoded have doc: "doc = ?u1doc"
    unfolding ob by (simp add: encode_newUser sample_dates_in_store_range or_else_kept)
  have after_u: "store_after sample_env empty_store
                   (PostUser 0 (WriteAck ''u1'') sample_user_body) =
                 empty_store(users_path sample_env :=
                   empty_store (users_path sample_env) @ [(''u1'', ?u1doc)])"
    by (simp add: store_after_def run_u sample_paths)
  from later [unfolded st i doc, rule_format, OF listable_empty_store, of ?later_u]
  obtain ds rs
    where both: "get_users sample_env (Some sample_store) ReadOk =
                   (Some sample_store,
                    [StoreGet (users_path sample_env) (Inr ds), Respond 200 (JArr rs)]) \<and>
                 (\<exists>k < length rs. ds ! k = (''u1'', ?u1doc) \<and> rs ! k = ?u1)"
    unfolding sample_store_after_user by (elim exE)
  from both
  have list: "get_users sample_env (Some sample_store) ReadOk =
                   (Some sample_store,
                    [StoreGet (users_path sample_env) (Inr ds), Respond 200 (JArr rs)])"
    by (rule conjunct1)
  from both have found: "\<exists>k < length rs. ds ! k = (''u1'', ?u1doc) \<and> rs ! k = ?u1"
    by (rule conjunct2)
  from list have rs: "rs = [?u1]"
    by (simp add: sample_users_run)
  from list rs found
  have "get_users sample_env
          (Some (after_calls sample_env
                   (store_after sample_env empty_store
                      (PostUser 0 (WriteAck ''u1'') sample_user_body))
                   ?later_u)) ReadOk =
          (Some sample_store,
           [StoreGet ''artifacts/default-app-id/public/data/users'' (Inr ds),
            Respond 200 (JArr rs)]) \<and>
        rs = [?u1] \<and>
        (\<exists>k < length rs. ds ! k = (''u1'', ?u1doc) \<and> rs ! k = ?u1)"
    unfolding after_u sample_store_after_user
    by (simp only: sample_paths simp_thms)
  then have listed_u: "\<exists>ds rs.
        get_users sample_env
          (Some (after_calls sample_env
                   (store_after sample_env empty_store
                      (PostUser 0 (WriteAck ''u1'') sample_user_body))
                   ?later_u)) ReadOk =
          (Some sample_store,
           [StoreGet ''artifacts/default-app-id/public/data/users'' (Inr ds),
            Respond 200 (JArr rs)]) \<and>
        rs = [?u1] \<and>
        (\<exists>k < length rs. ds ! k = (''u1'', ?u1doc) \<and> rs ! k = ?u1)"
    by (intro exI)
  from rendered have rendered_u: "user_of_doc sample_env (''u1'', ?u1doc) = Inr ?u1"
    by (simp only: i doc)
  have emit_u: "Emit ''new_user'' ?u1
     \<in> set (snd (post_users sample_env (Some empty_store) 0 (WriteAck ''u1'') sample_user_body))"
    by (simp add: run_u)
  from emit_a rendered_a listed_a emit_u rendered_u listed_u show ?thesis
    by (intro conjI)
qed

text \<open>
  C5. Whenever a list endpoint answers 200 (on a store whose creation timestamps are
  normalised), the returned array is built, element by element and in order, from the
  documents of the collection that have a creation time, each exactly once, and the
  creation times rendered in the array never increase from an element to a later one.
  On a listable store, after any requests to the four endpoints, a successful read is
  answered 200 in this way with every document of the collection; the empty store is
  listable.
\<close>

theorem list_is_ordered_by_created_at_desc:
  assumes "(lister = get_assignments e \<and> path = assignments_path e \<and>
            of_doc = assignment_of_doc e)
         \<or> (lister = get_users e \<and> path = users_path e \<and> of_doc = user_of_doc e)"
  shows "(\<forall>st rr db' tr rs.
            lister (Some st) rr = (db', tr) \<and> Respond 200 (JArr rs) \<in> set tr \<and>
            (\<forall>d \<in> set (st path). normalised_field ''created_at'' d) \<longrightarrow>
            (\<exists>ds. tr = [StoreGet path (Inr ds), Respond 200 (JArr rs)] \<and>
               mset ds = filter_mset (has_field ''created_at'') (mset (st path)) \<and>
               list_all2 (\<lambda>d r. of_doc d = Inr r) ds rs \<and>
               map (\<lambda>r. get_prop r ''created_at'') rs =
                 map (\<lambda>d. Some (JStr (ISO e (created_time d)))) ds \<and>
               sorted_wrt (\<lambda>a b. created_time b \<le> created_time a) ds))
       \<and> (\<forall>st calls.
            listable e st \<longrightarrow>
            (\<exists>ds rs.
               lister (Some (after_calls e st calls)) ReadOk =
                 (Some (after_calls e st calls),
                  [StoreGet path (Inr ds), Respond 200 (JArr rs)]) \<and>
               mset ds = mset (after_calls e st calls path) \<and>
               list_all2 (\<lambda>d r. of_doc d = Inr r) ds rs \<and>
               map (\<lambda>r. get_prop r ''created_at'') rs =
                 map (\<lambda>d. Some (JStr (ISO e (created_time d)))) ds \<and>
               sorted_wrt (\<lambda>a b. created_time b \<le> created_time a) ds))
       \<and> listable e empty_store"
  using assms
proof (elim disjE conjE)
  assume handler: "lister = get_assignments e" "path = assignments_path e"
    "of_doc = assignment_of_doc e"
  show ?thesis
    unfolding handler
  proof (intro conjI allI impI)
    fix st rr db' tr rs
    assume "get_assignments e (Some st) rr = (db', tr) \<and> Respond 200 (JArr rs) \<in> set tr \<and>
            (\<forall>d \<in> set (st (assignments_path e)). normalised_field ''created_at'' d)"
    then have "get_assignments e (Some st) rr = (db', tr)" "Respond 200 (JArr rs) \<in> set tr"
      "\<forall>d \<in> set (st (assignments_path e)). normalised_field ''created_at'' d"
      by simp_all
    then show "\<exists>ds. tr = [StoreGet (assignments_path e) (Inr ds), Respond 200 (JArr rs)] \<and>
               mset ds = filter_mset (has_field ''created_at'')
                           (mset (st (assignments_path e))) \<and>
               list_all2 (\<lambda>d r. assignment_of_doc e d = Inr r) ds rs \<and>
               map (\<lambda>r. get_prop r ''created_at'') rs =
                 map (\<lambda>d. Some (JStr (ISO e (created_time d)))) ds \<and>
               sorted_wrt (\<lambda>a b. created_time b \<le> created_time a) ds"
      by (rule assignments_answer_is_ordered)
  next
    fix st calls
    assume "listable e st"
    then have "listable e (after_calls e st calls)"
      by (rule listable_after_calls)
    then show "\<exists>ds rs.
               get_assignments e (Some (after_calls e st calls)) ReadOk =
                 (Some (after_calls e st calls),
                  [StoreGet (assignments_path e) (Inr ds), Respond 200 (JArr rs)]) \<and>
               mset ds = mset (after_calls e st calls (assignments_path e)) \<and>
               list_all2 (\<lambda>d r. assignment_of_doc e d = Inr r) ds rs \<and>
               map (\<lambda>r. get_prop r ''created_at'') rs =
                 map (\<lambda>d. Some (JStr (ISO e (created_time d)))) ds \<and>
               sorted_wrt (\<lambda>a b. created_time b \<le> created_time a) ds"
      by (rule listable_assignments_listed)
  next
    show "listable e empty_store"
      by (rule listable_empty_store)
  qed
next
  assume handler: "lister = get_users e" "path = users_path e" "of_doc = user_of_doc e"
  show ?thesis
    unfolding handler
  proof (intro conjI allI impI)
    fix st rr db' tr rs
    assume "get_users e (Some st) rr = (db', tr) \<and> Respond 200 (JArr rs) \<in> set tr \<and>
            (\<forall>d \<in> set (st (users_path e)). normalised_field ''created_at'' d)"
    then have "get_users e (Some st) rr = (db', tr)" "Respond 200 (JArr rs) \<in> set tr"
      "\<forall>d \<in> set (st (users_path e)). normalised_field ''created_at'' d"
      by simp_all
    then show "\<exists>ds. tr = [StoreGet (users_path e) (Inr ds), Respond 200 (JArr rs)] \<and>
               mset ds = filter_mset (has_field ''created_at'') (mset (st (users_path e))) \<and>
               list_all2 (\<lambda>d r. user_of_doc e d = Inr r) ds rs \<and>
               map (\<lambda>r. get_prop r ''created_at'') rs =
                 map (\<lambda>d. Some (JStr (ISO e (created_time d)))) ds \<and>
               sorted_wrt (\<lambda>a b. created_time b \<le> created_time a) ds"
      by (rule users_answer_is_ordered)
  next
    fix st calls
    assume "listable e st"
    then have "listable e (after_calls e st calls)"
      by (rule listable_after_calls)
    then show "\<exists>ds rs.
               get_users e (Some (after_calls e st calls)) ReadOk =
                 (Some (after_calls e st calls),
                  [StoreGet (users_path e) (Inr ds), Respond 200 (JArr rs)]) \<and>
               mset ds = mset (after_calls e st calls (users_path e)) \<and>
               list_all2 (\<lambda>d r. user_of_doc e d = Inr r) ds rs \<and>
               map (\<lambda>r. get_prop r ''created_at'') rs =
                 map (\<lambda>d. Some (JStr (ISO e (created_time d)))) ds \<and>
               sorted_wrt (\<lambda>a b. created_time b \<le> created_time a) ds"
      by (rule listable_users_listed)
  next
    show "listable e empty_store"
      by (rule listable_empty_store)
  qed
qed

theorem list_is_ordered_by_created_at_desc_witness:
  "get_assignments sample_env (Some (after_calls sample_env empty_store sample_calls)) ReadOk =
     (Some sample_store,
      [StoreGet ''artifacts/default-app-id/public/data/assignments''
         (Inr [(''a2'', assignment_document 1000 (JNum 8) (JNum 3) 1735689600000
                         (JStr ''completed'')),
               (''a1'', assignment_document 0 (JNum 7) (JNum 3) 1735689600000
                         (JStr ''pending''))]),
       Respond 200
         (JArr [JObj [(''id'', JStr ''a2''), (''gig_id'', JNum 8), (''assignee_id'', JNum 3),
                      (''due_date'', JStr ''2025-01-01T00:00:00.000Z''),
                      (''status'', JStr ''completed''),
                      (''created_at'', JStr ''1970-01-01T00:00:01.000Z'')],
                JObj [(''id'', JStr ''a1''), (''gig_id'', JNum 7), (''assignee_id'', JNum 3),
                      (''due_date'', JStr ''2025-01-01T00:00:00.000Z''),
                      (''status'', JStr ''pending''),
                      (''created_at'', JStr ''1970-01-01T00:00:00.000Z'')]])])
   \<and> mset [(''a2'', assignment_document 1000 (JNum 8) (JNum 3) 1735689600000
                       (JStr ''completed'')),
            (''a1'', assignment_document 0 (JNum 7) (JNum 3) 1735689600000
                       (JStr ''pending''))] =
       mset (sample_store ''artifacts/default-app-id/public/data/assignments'')
   \<and> [Some (JStr ''1970-01-01T00:00:01.000Z''), Some (JStr ''1970-01-01T00:00:00.000Z'')] =
       map (\<lambda>d. Some (JStr (ISO sample_env (created_time d))))
         [(''a2'', assignment_document 1000 (JNum 8) (JNum 3) 1735689600000
                     (JStr ''completed'')),
          (''a1'', assignment_document 0 (JNum 7) (JNum 3) 1735689600000 (JStr ''pending''))]
   \<and> sorted_wrt (\<lambda>a b. created_time b \<le> created_time a)
       [(''a2'', assignment_document 1000 (JNum 8) (JNum 3) 1735689600000
                   (JStr ''completed'')),
        (''a1'', assignment_document 0 (JNum 7) (JNum 3) 1735689600000 (JStr ''pending''))]
   \<and> get_users sample_env (Some (after_calls sample_env empty_store sample_calls)) ReadOk =
       (Some sample_store,
        [StoreGet ''artifacts/default-app-id/public/data/users''
           (Inr [(''u1'', user_document 0 (JStr ''ana'') (JStr '''')
                           (JArr [JStr ''go'', JStr ''rust'']))]),
         Respond 200
           (JArr [JObj [(''id'', JStr ''u1''), (''username'', JStr ''ana''), (''bio'', JStr ''''),
                        (''skills'', JArr [JStr ''go'', JStr ''rust'']),
                        (''created_at'', JStr ''1970-01-01T00:00:00.000Z'')]])])
   \<and> mset [(''u1'', user_document 0 (JStr ''ana'') (JStr '''')
                       (JArr [JStr ''go'', JStr ''rust'']))] =
       mset (sample_store ''artifacts/default-app-id/public/data/users'')
   \<and> [Some (JStr ''1970-01-01T00:00:00.000Z'')] =
       map (\<lambda>d. Some (JStr (ISO sample_env (created_time d))))
         [(''u1'', user_document 0 (JStr ''ana'') (JStr '''')
                     (JArr [JStr ''go'', JStr ''rust'']))]
   \<and> mset [(''a2'', assignment_document 1000 (JNum 8) (JNum 3) 1735689600000
                       (JStr ''completed'')),
            (''a1'', assignment_document 0 (JNum 7) (JNum 3) 1735689600000
                       (JStr ''pending''))] =
       filter_mset (has_field ''created_at'')
         (mset (sample_store ''artifacts/default-app-id/public/data/assignments''))"
proof -
  let ?a1 = "JObj [(''id'', JStr ''a1''), (''gig_id'', JNum 7), (''assignee_id'', JNum 3),
                   (''due_date'', JStr ''2025-01-01T00:00:00.000Z''),
                   (''status'', JStr ''pending''),
                   (''created_at'', JStr ''1970-01-01T00:00:00.000Z'')]"
  let ?a2 = "JObj [(''id'', JStr ''a2''), (''gig_id'', JNum 8), (''assignee_id'', JNum 3),
                   (''due_date'', JStr ''2025-01-01T00:00:00.000Z''),
                   (''status'', JStr ''completed''),
                   (''created_at'', JStr ''1970-01-01T00:00:01.000Z'')]"
  let ?u1 = "JObj [(''id'', JStr ''u1''), (''username'', JStr ''ana''), (''bio'', JStr ''''),
                   (''skills'', JArr [JStr ''go'', JStr ''rust'']),
                   (''created_at'', JStr ''1970-01-01T00:00:00.000Z'')]"
  let ?a1doc = "(''a1'', assignment_document 0 (JNum 7) (JNum 3) 1735689600000
                           (JStr ''pending''))"
  let ?a2doc = "(''a2'', assignment_document 1000 (JNum 8) (JNum 3) 1735689600000
                           (JStr ''completed''))"
  let ?u1doc = "(''u1'', user_document 0 (JStr ''ana'') (JStr '''')
                           (JArr [JStr ''go'', JStr ''rust'']))"
  let ?apath = "''artifacts/default-app-id/public/data/assignments''"
  let ?upath = "''artifacts/default-app-id/public/data/users''"

  have handler_a:
    "(get_assignments sample_env = get_assignments sample_env \<and>
      assignments_path sample_env = assignments_path sample_env \<and>
      assignment_of_doc sample_env = assignment_of_doc sample_env)
   \<or> (get_assignments sample_env = get_users sample_env \<and>
      assignments_path sample_env = users_path sample_env \<and>
      assignment_of_doc sample_env = user_of_doc sample_env)"
    by simp
  note ordered_a = list_is_ordered_by_created_at_desc [OF handler_a]
  note empty_a = ordered_a [THEN conjunct2, THEN conjunct2]
  from ordered_a [THEN conjunct2, THEN conjunct1, rule_format, OF empty_a, of sample_calls]
  obtain ds rs
    where all: "get_assignments sample_env (Some sample_store) ReadOk =
                  (Some sample_store,
                   [StoreGet (assignments_path sample_env) (Inr ds), Respond 200 (JArr rs)]) \<and>
                mset ds = mset (sample_store (assignments_path sample_env)) \<and>
                list_all2 (\<lambda>d r. assignment_of_doc sample_env d = Inr r) ds rs \<and>
                map (\<lambda>r. get_prop r ''created_at'') rs =
                  map (\<lambda>d. Some (JStr (ISO sample_env (created_time d)))) ds \<and>
                sorted_wrt (\<lambda>a b. created_time b \<le> created_time a) ds"
    unfolding sample_calls_store by (elim exE)
  from all have "get_assignments sample_env (Some sample_store) ReadOk =
                  (Some sample_store,
                   [StoreGet (assignments_path sample_env) (Inr ds), Respond 200 (JArr rs)])"
    by (rule conjunct1)
  then have ds: "ds = [?a2doc, ?a1doc]" and rs: "rs = [?a2, ?a1]"
    by (simp_all add: sample_assignments_run)
  have run_a: "get_assignments sample_env
                 (Some (after_calls sample_env empty_store sample_calls)) ReadOk =
     (Some sample_store,
      [StoreGet ?apath (Inr [?a2doc, ?a1doc]), Respond 200 (JArr [?a2, ?a1])])"
    unfolding sample_calls_store by (rule sample_assignments_run)
  from all have all_a: "mset [?a2doc, ?a1doc] = mset (sample_store ?apath)"
    unfolding ds sample_paths by (elim conjE)
  from all have "map (\<lambda>r. get_prop r ''created_at'') [?a2, ?a1] =
                   map (\<lambda>d. Some (JStr (ISO sample_env (created_time d)))) [?a2doc, ?a1doc]"
    unfolding ds rs by (elim conjE)
  then have times_a:
    "[Some (JStr ''1970-01-01T00:00:01.000Z''), Some (JStr ''1970-01-01T00:00:00.000Z'')] =
       map (\<lambda>d. Some (JStr (ISO sample_env (created_time d)))) [?a2doc, ?a1doc]"
    by simp
  from all have sorted_a:
    "sorted_wrt (\<lambda>a b. created_time b \<le> created_time a) [?a2doc, ?a1doc]"
    unfolding ds by (elim conjE)

  have ok: "Respond 200 (JArr [?a2, ?a1]) \<in>
              set [StoreGet ?apath (Inr [?a2doc, ?a1doc]), Respond 200 (JArr [?a2, ?a1])]"
    by simp
  have norm: "\<forall>d \<in> set (sample_store (assignments_path sample_env)).
                normalised_field ''created_at'' d"
    by (simp add: sample_paths sample_store_def written_docs_are_normalised)
  have answered: "get_assignments sample_env (Some sample_store) ReadOk =
          (Some sample_store,
           [StoreGet ?apath (Inr [?a2doc, ?a1doc]), Respond 200 (JArr [?a2, ?a1])]) \<and>
        Respond 200 (JArr [?a2, ?a1]) \<in>
          set [StoreGet ?apath (Inr [?a2doc, ?a1doc]), Respond 200 (JArr [?a2, ?a1])] \<and>
        (\<forall>d \<in> set (sample_store (assignments_path sample_env)).
           normalised_field ''created_at'' d)"
    using sample_assignments_run ok norm by (intro conjI)
  from ordered_a [THEN conjunct1, rule_format, OF answered]
  obtain ds' where built:
    "[StoreGet ?apath (Inr [?a2doc, ?a1doc]), Respond 200 (JArr [?a2, ?a1])] =
       [StoreGet (assignments_path sample_env) (Inr ds'), Respond 200 (JArr [?a2, ?a1])] \<and>
     mset ds' = filter_mset (has_field ''created_at'')
                  (mset (sample_store (assignments_path sample_env))) \<and>
     list_all2 (\<lambda>d r. assignment_of_doc sample_env d = Inr r) ds' [?a2, ?a1] \<and>
     map (\<lambda>r. get_prop r ''created_at'') [?a2, ?a1] =
       map (\<lambda>d. Some (JStr (ISO sample_env (created_time d)))) ds' \<and>
     sorted_wrt (\<lambda>a b. created_time b \<le> created_time a) ds'"
    by (elim exE)
  from built have ds': "ds' = [?a2doc, ?a1doc]"
    by simp
  from built have filtered_a:
    "mset [?a2doc, ?a1doc] = filter_mset (has_field ''created_at'') (mset (sample_store ?apath))"
    unfolding ds' sample_paths by (elim conjE)

  have handler_u:
    "(get_users sample_env = get_assignments sample_env \<and>
      users_path sample_env = assignments_path sample_env \<and>
      user_of_doc sample_env = assignment_of_doc sample_env)
   \<or> (get_users sample_env = get_users sample_env \<and>
      users_path sample_env = users_path sample_env \<and>
      user_of_doc sample_env = user_of_doc sample_env)"
    by simp
  note ordered_u = list_is_ordered_by_created_at_desc [OF handler_u]
  note empty_u = ordered_u [THEN conjunct2, THEN conjunct2]
  from ordered_u [THEN conjunct2, THEN conjunct1, rule_format, OF empty_u, of sample_calls]
  obtain us rs'
    where all_users: "get_users sample_env (Some sample_store) ReadOk =
                  (Some sample_store,
                   [StoreGet (users_path sample_env) (Inr us), Respond 200 (JArr rs')]) \<and>
                mset us = mset (sample_store (users_path sample_env)) \<and>
                list_all2 (\<lambda>d r. user_of_doc sample_env d = Inr r) us rs' \<and>
                map (\<lambda>r. get_prop r ''created_at'') rs' =
                  map (\<lambda>d. Some (JStr (ISO sample_env (created_time d)))) us \<and>
                sorted_wrt (\<lambda>a b. created_time b \<le> created_time a) us"
    unfolding sample_calls_store by (elim exE)
  from all_users have "get_users sample_env (Some sample_store) ReadOk =
                  (Some sample_store,
                   [StoreGet (users_path sample_env) (Inr us), Respond 200 (JArr rs')])"
    by (rule conjunct1)
  then have us: "us = [?u1doc]" and rs': "rs' = [?u1]"
    by (simp_all add: sample_users_run)
  have run_u: "get_users sample_env
                 (Some (after_calls sample_env empty_store sample_calls)) ReadOk =
     (Some sample_store, [StoreGet ?upath (Inr [?u1doc]), Respond 200 (JArr [?u1])])"
    unfolding sample_calls_store by (rule sample_users_run)
  from all_users have all_u: "mset [?u1doc] = mset (sample_store ?upath)"
    unfolding us sample_paths by (elim conjE)
  from all_users have "map (\<lambda>r. get_prop r ''created_at'') [?u1] =
                   map (\<lambda>d. Some (JStr (ISO sample_env (created_time d)))) [?u1doc]"
    unfolding us rs' by (elim conjE)
  then have times_u:
    "[Some (JStr ''1970-01-01T00:00:00.000Z'')] =
       map (\<lambda>d. Some (JStr (ISO sample_env (created_time d)))) [?u1doc]"
    by simp
  from run_a all_a times_a sorted_a run_u all_u times_u filtered_a show ?thesis
    by (intro conjI)
qed

section \<open>The client views\<close>

lemma split_not_Nil: "split c s \<noteq> []"
  by (induction s) (auto split: list.splits)

lemma join_Cons: "ps \<noteq> [] \<Longrightarrow> join c (p # ps) = p @ c # join c ps"
  by (cases ps) auto

lemma join_split: "join c (split c s) = s"
proof (induction s)
  case Nil
  then show ?case by simp
next
  case (Cons x xs)
  show ?case
  proof (cases "x = c")
    case True
    with Cons show ?thesis
      by (simp add: join_Cons split_not_Nil)
  next
    case False
    obtain p ps where parts: "split c xs = p # ps"
      using split_not_Nil [of c xs] by (cases "split c xs") auto
    with Cons have "join c (p # ps) = xs" by simp
    then have "join c ((x # p) # ps) = x # xs"
      by (cases ps) auto
    with False parts show ?thesis by simp
  qed
qed

lemma split_pieces_have_no_separator: "p \<in> set (split c s) \<Longrightarrow> c \<notin> set p"
proof (induction s arbitrary: p)
  case Nil
  then show ?case by simp
next
  case (Cons x xs)
  then show ?case
    by (cases "split c xs") (auto split: if_splits)
qed

lemma length_split: "length (split c s) = Suc (count_list s c)"
proof (induction s)
  case Nil
  then show ?case by simp
next
  case (Cons x xs)
  then show ?case
    by (cases "split c xs") auto
qed

lemma split_piece: "c \<notin> set p \<Longrightarrow> split c p = [p]"
  by (induction p) auto

lemma split_append_separator: "c \<notin> set p \<Longrightarrow> split c (p @ c # rest) = p # split c rest"
  by (induction p) auto

lemma split_join:
  assumes "ps \<noteq> []" and "\<forall>p \<in> set ps. c \<notin> set p"
  shows "split c (join c ps) = ps"
  using assms
proof (induction c ps rule: join.induct)
  case (1 c)
  then show ?case by simp
next
  case (2 c p)
  then show ?case by (simp add: split_piece)
next
  case (3 c p q ps)
  then show ?case by (simp add: split_append_separator)
qed

lemma trim_decomposition:
  "\<exists>l r. s = l @ trim s @ r \<and> (\<forall>x \<in> set l. is_whitespace x) \<and> (\<forall>x \<in> set r. is_whitespace x)"
proof -
  let ?l = "takeWhile is_whitespace s"
  let ?m = "dropWhile is_whitespace s"
  let ?r = "rev (takeWhile is_whitespace (rev ?m))"
  have "rev (rev ?m) = rev (takeWhile is_whitespace (rev ?m) @ dropWhile is_whitespace (rev ?m))"
    by (simp only: takeWhile_dropWhile_id)
  then have m: "?m = trim s @ ?r"
    by (simp only: rev_rev_ident rev_append trim_def)
  have "s = ?l @ ?m"
    by (simp only: takeWhile_dropWhile_id)
  with m have "s = ?l @ trim s @ ?r"
    by (simp only:)
  moreover have "\<forall>x \<in> set ?l. is_whitespace x"
    by (auto dest: set_takeWhileD)
  moreover have "\<forall>x \<in> set ?r. is_whitespace x"
    by (auto dest: set_takeWhileD)
  ultimately show ?thesis by blast
qed

lemma last_dropWhile:
  assumes "dropWhile P xs \<noteq> []"
  shows "last (dropWhile P xs) = last xs"
proof -
  have "last (takeWhile P xs @ dropWhile P xs) = last (dropWhile P xs)"
    using assms by (rule last_appendR)
  then show ?thesis
    by (simp only: takeWhile_dropWhile_id)
qed

lemma trim_edges:
  assumes "trim s \<noteq> []"
  shows "\<not> is_whitespace (hd (trim s)) \<and> \<not> is_whitespace (last (trim s))"
proof -
  let ?m = "dropWhile is_whitespace s"
  let ?k = "dropWhile is_whitespace (rev ?m)"
  from assms have k: "?k \<noteq> []"
    by (simp only: trim_def rev_is_Nil_conv not_False_eq_True)
  then have at_end: "\<not> is_whitespace (hd ?k)"
    by (rule hd_dropWhile)
  have m: "?m \<noteq> []"
  proof
    assume "?m = []"
    then have "?k = []" by (simp only: rev.simps dropWhile.simps)
    with k show False by blast
  qed
  then have at_start: "\<not> is_whitespace (hd ?m)"
    by (rule hd_dropWhile)
  have "last (trim s) = hd ?k"
    using k by (simp only: trim_def last_rev)
  moreover have "hd (trim s) = last ?k"
    using k by (simp only: trim_def hd_rev)
  moreover have "last ?k = last (rev ?m)"
    using k by (rule last_dropWhile)
  moreover have "last (rev ?m) = hd ?m"
    using m by (simp only: last_rev)
  ultimately show ?thesis
    using at_start at_end by (simp only:) simp
qed

lemma sample_skills: "skills_of_input ''go, rust, '' = [''go'', ''rust'', '''']"
  by (simp add: skills_of_input_def trim_def is_whitespace_def)

text \<open>
  C8. The skills sent for an input string are the trimmed pieces of that string between
  its commas: whatever way the string is written as comma-free pieces joined by commas,
  the result is those pieces, each trimmed, in order; such a way always exists; the
  result has one entry more than the input has commas, so empty entries and repeated
  entries are kept; a non-empty entry neither starts nor ends with white space; and the
  input \<^verbatim>\<open>"go, rust, "\<close> gives \<^verbatim>\<open>["go", "rust", ""]\<close>.
\<close>

theorem skills_are_the_trimmed_comma_pieces:
  "(\<forall>ps. ps \<noteq> [] \<and> (\<forall>p \<in> set ps. CHR '','' \<notin> set p) \<and> join (CHR '','') ps = s \<longrightarrow>
          skills_of_input s = map trim ps)
   \<and> (\<exists>ps. ps \<noteq> [] \<and> (\<forall>p \<in> set ps. CHR '','' \<notin> set p) \<and> join (CHR '','') ps = s)
   \<and> length (skills_of_input s) = Suc (count_list s (CHR '',''))
   \<and> (\<forall>t \<in> set (skills_of_input s).
          t \<noteq> [] \<longrightarrow> \<not> is_whitespace (hd t) \<and> \<not> is_whitespace (last t))
   \<and> skills_of_input ''go, rust, '' = [''go'', ''rust'', '''']"
proof (intro conjI allI impI ballI)
  fix ps
  assume "ps \<noteq> [] \<and> (\<forall>p \<in> set ps. CHR '','' \<notin> set p) \<and> join (CHR '','') ps = s"
  then have "split (CHR '','') s = ps"
    using split_join by blast
  then show "skills_of_input s = map trim ps"
    by (simp add: skills_of_input_def)
next
  have "split (CHR '','') s \<noteq> [] \<and> (\<forall>p \<in> set (split (CHR '','') s). CHR '','' \<notin> set p) \<and>
        join (CHR '','') (split (CHR '','') s) = s"
    using split_not_Nil split_pieces_have_no_separator join_split by blast
  then show "\<exists>ps. ps \<noteq> [] \<and> (\<forall>p \<in> set ps. CHR '','' \<notin> set p) \<and> join (CHR '','') ps = s"
    by (rule exI)
next
  show "length (skills_of_input s) = Suc (count_list s (CHR '',''))"
    by (simp add: skills_of_input_def length_split)
next
  fix t
  assume "t \<in> set (skills_of_input s)" and "t \<noteq> []"
  then obtain p where "t = trim p" "trim p \<noteq> []"
    by (auto simp: skills_of_input_def)
  then show "\<not> is_whitespace (hd t)" and "\<not> is_whitespace (last t)"
    using trim_edges by blast+
next
  show "skills_of_input ''go, rust, '' = [''go'', ''rust'', '''']"
    by (rule sample_skills)
qed

theorem skills_are_the_trimmed_comma_pieces_witness:
  "skills_of_input ''go, rust, '' = map trim [''go'', '' rust'', '' '']
   \<and> map trim [''go'', '' rust'', '' ''] = [''go'', ''rust'', '''']
   \<and> length (skills_of_input ''a,,a'') = 3
   \<and> skills_of_input ''a,,a'' = [''a'', '''', ''a'']"
proof -
  have pieces: "[''go'', '' rust'', '' ''] \<noteq> [] \<and>
      (\<forall>p \<in> set [''go'', '' rust'', '' '']. CHR '','' \<notin> set p) \<and>
      join (CHR '','') [''go'', '' rust'', '' ''] = ''go, rust, ''"
    by simp
  have pieces': "[''a'', '''', ''a''] \<noteq> [] \<and>
      (\<forall>p \<in> set [''a'', '''', ''a'']. CHR '','' \<notin> set p) \<and>
      join (CHR '','') [''a'', '''', ''a''] = ''a,,a''"
    by simp
  have trimmed: "map trim [''go'', '' rust'', '' ''] = [''go'', ''rust'', '''']"
    "map trim [''a'', '''', ''a''] = [''a'', '''', ''a'']"
    by (simp_all add: trim_def is_whitespace_def)
  from skills_are_the_trimmed_comma_pieces [of "''go, rust, ''"] pieces
  have one: "skills_of_input ''go, rust, '' = map trim [''go'', '' rust'', '' '']"
    by blast
  from skills_are_the_trimmed_comma_pieces [of "''a,,a''"] pieces'
  have two: "skills_of_input ''a,,a'' = map trim [''a'', '''', ''a'']"
    by blast
  from skills_are_the_trimmed_comma_pieces [of "''a,,a''"]
  have "length (skills_of_input ''a,,a'') = Suc (count_list ''a,,a'' (CHR '',''))"
    by blast
  then have three: "length (skills_of_input ''a,,a'') = 3"
    by simp
  from one two three trimmed show ?thesis
    by (simp only:)
qed


text \<open>
  C6. On a broadcast event carrying a record, a list view's displayed sequence becomes the
  record followed by the previous sequence, unchanged and in its order; the loading flag
  and the error are untouched and no request is issued. After a run of events the
  sequence is the events, latest first, followed by the initial sequence.
\<close>

theorem broadcast_prepends_to_list_view:
  "records (fst (on_new_assignment r v)) = r # records v
   \<and> loading (fst (on_new_assignment r v)) = loading v
   \<and> error (fst (on_new_assignment r v)) = error v
   \<and> snd (on_new_assignment r v) = []
   \<and> records (fst (on_new_user r v)) = r # records v
   \<and> loading (fst (on_new_user r v)) = loading v
   \<and> error (fst (on_new_user r v)) = error v
   \<and> snd (on_new_user r v) = []
   \<and> records (foldl (\<lambda>w x. fst (on_new_assignment x w)) v rs) = rev rs @ records v
   \<and> records (foldl (\<lambda>w x. fst (on_new_user x w)) v rs) = rev rs @ records v"
proof -
  have "records (foldl (\<lambda>w x. fst (on_new_assignment x w)) v rs) = rev rs @ records v"
    by (induction rs arbitrary: v) (simp_all add: on_new_assignment_def)
  moreover have "records (foldl (\<lambda>w x. fst (on_new_user x w)) v rs) = rev rs @ records v"
    by (induction rs arbitrary: v) (simp_all add: on_new_user_def)
  ultimately show ?thesis
    by (simp add: on_new_assignment_def on_new_user_def)
qed

theorem broadcast_prepends_to_list_view_witness:
  "records (fst (on_new_assignment (JStr ''b'')
      \<lparr>loading = False, error = None, records = [JStr ''a'', JStr ''b'']\<rparr>)) =
     [JStr ''b'', JStr ''a'', JStr ''b'']
   \<and> snd (on_new_assignment (JStr ''b'')
      \<lparr>loading = False, error = None, records = [JStr ''a'', JStr ''b'']\<rparr>) = []
   \<and> records (fst (on_new_user (JStr ''b'')
      \<lparr>loading = True, error = None, records = []\<rparr>)) = [JStr ''b'']"
  using broadcast_prepends_to_list_view
    [of "JStr ''b''" "\<lparr>loading = False, error = None, records = [JStr ''a'', JStr ''b'']\<rparr>" "[]"]
    broadcast_prepends_to_list_view
    [of "JStr ''b''" "\<lparr>loading = True, error = None, records = []\<rparr>" "[]"]
  by simp

lemma assignment_submit_success:
  assumes "gigId f \<noteq> []" and "assigneeId f \<noteq> []" and "dueDate f \<noteq> []" and "status f \<noteq> []"
  shows "fst (assignment_handleSubmit c (Response True b) f) =
           f\<lparr>loading := False, error := None,
             successMessage := Some ''Assignment created successfully!'',
             gigId := [], assigneeId := [], dueDate := [], status := ''in_progress''\<rparr>"
  using assms by (simp add: assignment_handleSubmit_def Let_def)

lemma assignment_submit_failure:
  assumes "gigId f = [] \<or> assigneeId f = [] \<or> dueDate f = [] \<or> status f = []
           \<or> (\<forall>b. result \<noteq> Response True b)"
  shows "assignment_inputs (fst (assignment_handleSubmit c result f)) = assignment_inputs f
       \<and> error (fst (assignment_handleSubmit c result f)) \<noteq> None
       \<and> successMessage (fst (assignment_handleSubmit c result f)) = None
       \<and> loading (fst (assignment_handleSubmit c result f)) = False"
proof (cases "gigId f = [] \<or> assigneeId f = [] \<or> dueDate f = [] \<or> status f = []")
  case True
  then show ?thesis
    by (auto simp: assignment_handleSubmit_def Let_def assignment_inputs_def)
next
  case False
  with assms have failed: "\<forall>b. result \<noteq> Response True b" by blast
  show ?thesis
  proof (cases result)
    case (NetworkError m)
    with False show ?thesis
      by (auto simp: assignment_handleSubmit_def Let_def assignment_inputs_def)
  next
    case (Response ok b)
    with failed have "\<not> ok" by auto
    with False Response show ?thesis
      by (cases b) (auto simp: assignment_handleSubmit_def Let_def assignment_inputs_def)
  qed
qed

lemma user_submit_success:
  assumes "username f \<noteq> []"
  shows "fst (user_handleSubmit c (Response True b) f) =
           f\<lparr>loading := False, error := None,
             successMessage := Some ''User profile created successfully!'',
             username := [], bio := [], skills := []\<rparr>"
  using assms by (simp add: user_handleSubmit_def Let_def)

lemma user_submit_failure:
  assumes "username f = [] \<or> (\<forall>b. result \<noteq> Response True b)"
  shows "user_inputs (fst (user_handleSubmit c result f)) = user_inputs f
       \<and> error (fst (user_handleSubmit c result f)) \<noteq> None
       \<and> successMessage (fst (user_handleSubmit c result f)) = None
       \<and> loading (fst (user_handleSubmit c result f)) = False"
proof (cases "username f = []")
  case True
  then show ?thesis
    by (auto simp: user_handleSubmit_def Let_def user_inputs_def)
next
  case False
  with assms have failed: "\<forall>b. result \<noteq> Response True b" by blast
  show ?thesis
  proof (cases result)
    case (NetworkError m)
    with False show ?thesis
      by (auto simp: user_handleSubmit_def Let_def user_inputs_def)
  next
    case (Response ok b)
    with failed have "\<not> ok" by auto
    with False Response show ?thesis
      by (cases b) (auto simp: user_handleSubmit_def Let_def user_inputs_def)
  qed
qed


text \<open>
  C10, as stated, fails: an assignment form filled in again while the success message of
  the previous submission still shows, submitted and answered by a server error, keeps
  its inputs and gets the error message, and its success message is cleared as well.
\<close>

theorem failed_submit_also_clears_success_message:
  "assignment_inputs
      (fst (assignment_handleSubmit sample_client_env
              (Response False (Inr (JObj [(''error'', JStr ''Internal server error.'')])))
              refilled_assignment_form)) =
     assignment_inputs refilled_assignment_form
   \<and> error (fst (assignment_handleSubmit sample_client_env
              (Response False (Inr (JObj [(''error'', JStr ''Internal server error.'')])))
              refilled_assignment_form)) = Some ''Internal server error.''
   \<and> successMessage refilled_assignment_form = Some ''Assignment created successfully!''
   \<and> successMessage (fst (assignment_handleSubmit sample_client_env
              (Response False (Inr (JObj [(''error'', JStr ''Internal server error.'')])))
              refilled_assignment_form)) = None"
  by (simp add: assignment_handleSubmit_def Let_def refilled_assignment_form_def
      assignment_inputs_def thrown_message_def)


text \<open>
  C10, amended. A submission with its required inputs filled and answered by an ok
  response leaves the form with every input at its default (empty, status in_progress),
  the success message set, no error and not loading. Every other submission (a required
  input empty, the request rejected, or a response that is not ok) leaves the inputs as
  they were, sets an error message, clears the success message and ends not loading.
\<close>

theorem submit_resets_on_success_and_keeps_inputs_on_failure:
  "(gigId f \<noteq> [] \<and> assigneeId f \<noteq> [] \<and> dueDate f \<noteq> [] \<and> status f \<noteq> [] \<longrightarrow>
      fst (assignment_handleSubmit c (Response True b) f) =
        f\<lparr>loading := False, error := None,
          successMessage := Some ''Assignment created successfully!'',
          gigId := [], assigneeId := [], dueDate := [], status := ''in_progress''\<rparr>)
   \<and> (gigId f = [] \<or> assigneeId f = [] \<or> dueDate f = [] \<or> status f = []
        \<or> (\<forall>b. result \<noteq> Response True b) \<longrightarrow>
      assignment_inputs (fst (assignment_handleSubmit c result f)) = assignment_inputs f
      \<and> error (fst (assignment_handleSubmit c result f)) \<noteq> None
      \<and> successMessage (fst (assignment_handleSubmit c result f)) = None
      \<and> loading (fst (assignment_handleSubmit c result f)) = False)
   \<and> (username u \<noteq> [] \<longrightarrow>
      fst (user_handleSubmit c (Response True b) u) =
        u\<lparr>loading := False, error := None,
          successMessage := Some ''User profile created successfully!'',
          username := [], bio := [], skills := []\<rparr>)
   \<and> (username u = [] \<or> (\<forall>b. result \<noteq> Response True b) \<longrightarrow>
      user_inputs (fst (user_handleSubmit c result u)) = user_inputs u
      \<and> error (fst (user_handleSubmit c result u)) \<noteq> None
      \<and> successMessage (fst (user_handleSubmit c result u)) = None
      \<and> loading (fst (user_handleSubmit c result u)) = False)"
proof (intro conjI)
  show "gigId f \<noteq> [] \<and> assigneeId f \<noteq> [] \<and> dueDate f \<noteq> [] \<and> status f \<noteq> [] \<longrightarrow>
      fst (assignment_handleSubmit c (Response True b) f) =
        f\<lparr>loading := False, error := None,
          successMessage := Some ''Assignment created successfully!'',
          gigId := [], assigneeId := [], dueDate := [], status := ''in_progress''\<rparr>"
    by (simp add: assignment_submit_success)
  show "gigId f = [] \<or> assigneeId f = [] \<or> dueDate f = [] \<or> status f = []
        \<or> (\<forall>b. result \<noteq> Response True b) \<longrightarrow>
      assignment_inputs (fst (assignment_handleSubmit c result f)) = assignment_inputs f
      \<and> error (fst (assignment_handleSubmit c result f)) \<noteq> None
      \<and> successMessage (fst (assignment_handleSubmit c result f)) = None
      \<and> loading (fst (assignment_handleSubmit c result f)) = False"
    by (rule impI) (rule assignment_submit_failure)
  show "username u \<noteq> [] \<longrightarrow>
      fst (user_handleSubmit c (Response True b) u) =
        u\<lparr>loading := False, error := None,
          successMessage := Some ''User profile created successfully!'',
          username := [], bio := [], skills := []\<rparr>"
    by (simp add: user_submit_success)
  show "username u = [] \<or> (\<forall>b. result \<noteq> Response True b) \<longrightarrow>
      user_inputs (fst (user_handleSubmit c result u)) = user_inputs u
      \<and> error (fst (user_handleSubmit c result u)) \<noteq> None
      \<and> successMessage (fst (user_handleSubmit c result u)) = None
      \<and> loading (fst (user_handleSubmit c result u)) = False"
    by (rule impI) (rule user_submit_failure)
qed

theorem submit_resets_on_success_and_keeps_inputs_on_failure_witness:
  "fst (assignment_handleSubmit sample_client_env (Response True (Inr JNull))
          refilled_assignment_form) =
     \<lparr>loading = False, error = None,
      successMessage = Some ''Assignment created successfully!'',
      gigId = [], assigneeId = [], dueDate = [], status = ''in_progress''\<rparr>
   \<and> fst (user_handleSubmit sample_client_env (Response True (Inr JNull)) filled_user_form) =
     \<lparr>loading = False, error = None,
      successMessage = Some ''User profile created successfully!'',
      username = [], bio = [], skills = []\<rparr>
   \<and> assignment_inputs (fst (assignment_handleSubmit sample_client_env
                                (NetworkError ''Failed to fetch'') refilled_assignment_form)) =
      (''7'', ''3'', ''2025-01-01'', ''in_progress'')
   \<and> successMessage (fst (assignment_handleSubmit sample_client_env
                                (NetworkError ''Failed to fetch'') refilled_assignment_form)) = None
   \<and> user_inputs (fst (user_handleSubmit sample_client_env
                          (Response False (Inl ''Unexpected token'')) filled_user_form)) =
      (''ana'', ''hi'', ''go, rust, '')"
proof -
  note inst = submit_resets_on_success_and_keeps_inputs_on_failure
    [where f = refilled_assignment_form and u = filled_user_form and c = sample_client_env
       and b = "Inr JNull"]
  have filled: "gigId refilled_assignment_form \<noteq> [] \<and> assigneeId refilled_assignment_form \<noteq> [] \<and>
      dueDate refilled_assignment_form \<noteq> [] \<and> status refilled_assignment_form \<noteq> []"
    "username filled_user_form \<noteq> []"
    by (simp_all add: refilled_assignment_form_def filled_user_form_def)
  have network: "gigId refilled_assignment_form = [] \<or> assigneeId refilled_assignment_form = [] \<or>
      dueDate refilled_assignment_form = [] \<or> status refilled_assignment_form = [] \<or>
      (\<forall>b. NetworkError ''Failed to fetch'' \<noteq> Response True b)"
    by simp
  have server: "username filled_user_form = [] \<or>
      (\<forall>b. Response False (Inl ''Unexpected token'') \<noteq> Response True b)"
    by simp
  from inst [where result = "NetworkError ''Failed to fetch''"] filled
  have "fst (assignment_handleSubmit sample_client_env (Response True (Inr JNull))
          refilled_assignment_form) =
        refilled_assignment_form\<lparr>loading := False, error := None,
          successMessage := Some ''Assignment created successfully!'',
          gigId := [], assigneeId := [], dueDate := [], status := ''in_progress''\<rparr>"
    and "fst (user_handleSubmit sample_client_env (Response True (Inr JNull)) filled_user_form) =
        filled_user_form\<lparr>loading := False, error := None,
          successMessage := Some ''User profile created successfully!'',
          username := [], bio := [], skills := []\<rparr>"
    by blast+
  then have success: "fst (assignment_handleSubmit sample_client_env (Response True (Inr JNull))
          refilled_assignment_form) =
     \<lparr>loading = False, error = None,
      successMessage = Some ''Assignment created successfully!'',
      gigId = [], assigneeId = [], dueDate = [], status = ''in_progress''\<rparr>"
    "fst (user_handleSubmit sample_client_env (Response True (Inr JNull)) filled_user_form) =
     \<lparr>loading = False, error = None,
      successMessage = Some ''User profile created successfully!'',
      username = [], bio = [], skills = []\<rparr>"
    by (simp_all add: refilled_assignment_form_def filled_user_form_def)
  from inst [where result = "NetworkError ''Failed to fetch''"] network
  have "assignment_inputs (fst (assignment_handleSubmit sample_client_env
                                (NetworkError ''Failed to fetch'') refilled_assignment_form)) =
        assignment_inputs refilled_assignment_form"
    and cleared: "successMessage (fst (assignment_handleSubmit sample_client_env
                                (NetworkError ''Failed to fetch'') refilled_assignment_form)) = None"
    by blast+
  then have net: "assignment_inputs (fst (assignment_handleSubmit sample_client_env
                                (NetworkError ''Failed to fetch'') refilled_assignment_form)) =
      (''7'', ''3'', ''2025-01-01'', ''in_progress'')"
    by (simp add: assignment_inputs_def refilled_assignment_form_def)
  from inst [where result = "Response False (Inl ''Unexpected token'')"] server
  have "user_inputs (fst (user_handleSubmit sample_client_env
                          (Response False (Inl ''Unexpected token'')) filled_user_form)) =
        user_inputs filled_user_form"
    by blast
  then have kept: "user_inputs (fst (user_handleSubmit sample_client_env
                          (Response False (Inl ''Unexpected token'')) filled_user_form)) =
      (''ana'', ''hi'', ''go, rust, '')"
    by (simp add: user_inputs_def filled_user_form_def)
  from success net cleared kept show ?thesis
    by (intro conjI)
qed

end
